theory Spec2Isabelle
  imports Main
begin

section \<open>JavaScript values\<close>

text \<open>
  The pipeline passes plain JavaScript data (object literals, arrays, strings, booleans)
  from the adapters through the normalizer to the generator, and its behaviour rests on
  JavaScript's truthiness (\<^verbatim>\<open>x || d\<close>), on strict equality and on string coercion in
  template literals. The values are therefore modelled as they are at run time: an object
  is the ordered list of its own properties (object literals with distinct keys), a
  function is known by its \<^verbatim>\<open>name\<close> (the Mongoose adapter reads nothing else of a
  constructor), numbers are the integers, and strings are ASCII text.
\<close>

datatype jsval =
    JUndefined
  | JNull
  | JBool bool
  | JNum int
  | JStr string
  | JFun string
  | JArr "jsval list"
  | JObj "(string \<times> jsval) list"

datatype error = TypeError | Error string

fun truthy :: "jsval \<Rightarrow> bool" where
  "truthy JUndefined = False"
| "truthy JNull = False"
| "truthy (JBool b) = b"
| "truthy (JNum n) = (n \<noteq> 0)"
| "truthy (JStr s) = (s \<noteq> [])"
| "truthy (JFun n) = True"
| "truthy (JArr xs) = True"
| "truthy (JObj kvs) = True"

text \<open>\<^verbatim>\<open>x || d\<close>\<close>

definition js_or :: "jsval \<Rightarrow> jsval \<Rightarrow> jsval" where
  "js_or x d = (if truthy x then x else d)"

fun nullish :: "jsval \<Rightarrow> bool" where
  "nullish JUndefined = True"
| "nullish JNull = True"
| "nullish v = False"

text \<open>
  \<^verbatim>\<open>v.k\<close> on a value that is neither \<^verbatim>\<open>null\<close> nor \<^verbatim>\<open>undefined\<close>: an own
  property of an object, the \<^verbatim>\<open>name\<close> of a function, the \<^verbatim>\<open>length\<close> of an array
  or a string, and \<^verbatim>\<open>undefined\<close> otherwise. Reading a property of \<^verbatim>\<open>null\<close> or
  \<^verbatim>\<open>undefined\<close> throws; every function below that reads a property of its argument
  checks \<open>nullish\<close> first and returns \<open>Inl TypeError\<close>.
\<close>

fun get :: "jsval \<Rightarrow> string \<Rightarrow> jsval" where
  "get (JObj kvs) k = (case map_of kvs k of Some v \<Rightarrow> v | None \<Rightarrow> JUndefined)"
| "get (JFun n) k = (if k = ''name'' then JStr n else JUndefined)"
| "get (JArr xs) k = (if k = ''length'' then JNum (int (length xs)) else JUndefined)"
| "get (JStr s) k = (if k = ''length'' then JNum (int (length s)) else JUndefined)"
| "get v k = JUndefined"

fun join :: "string \<Rightarrow> string list \<Rightarrow> string" where
  "join sep [] = []"
| "join sep [x] = x"
| "join sep (x # y # ys) = x @ sep @ join sep (y # ys)"

fun digits :: "nat \<Rightarrow> string" where
  "digits n = (if n < 10 then [''0123456789'' ! n]
               else digits (n div 10) @ [''0123456789'' ! (n mod 10)])"

text \<open>
  String coercion, as a template literal \<^verbatim>\<open>`${v}`\<close> performs it. A number is printed in
  decimal, as JavaScript prints the integers below \<^verbatim>\<open>1e21\<close> in magnitude; larger ones,
  which it prints with an exponent, are outside the model.
\<close>

fun to_str :: "jsval \<Rightarrow> string" where
  "to_str JUndefined = ''undefined''"
| "to_str JNull = ''null''"
| "to_str (JBool b) = (if b then ''true'' else ''false'')"
| "to_str (JNum n) = (if n < 0 then ''-'' @ digits (nat (- n)) else digits (nat n))"
| "to_str (JStr s) = s"
| "to_str (JFun n) = ''function '' @ n @ ''() { [native code] }''"
| "to_str (JArr xs) = join '','' (map (\<lambda>x. if nullish x then [] else to_str x) xs)"
| "to_str (JObj kvs) = ''[object Object]''"

text \<open>\<^verbatim>\<open>xs.map(f)\<close> where \<open>f\<close> may throw: the first exception ends the map.\<close>

fun map_res :: "('a \<Rightarrow> error + 'b) \<Rightarrow> 'a list \<Rightarrow> error + 'b list" where
  "map_res f [] = Inr []"
| "map_res f (x # xs) =
     (case f x of
        Inl e \<Rightarrow> Inl e
      | Inr y \<Rightarrow> (case map_res f xs of Inl e \<Rightarrow> Inl e | Inr ys \<Rightarrow> Inr (y # ys)))"

section \<open>Normalizer (src/core/normalizer.js)\<close>

definition STANDARD_TYPES_STRING :: string where "STANDARD_TYPES_STRING = ''string''"
definition STANDARD_TYPES_NUMBER :: string where "STANDARD_TYPES_NUMBER = ''number''"
definition STANDARD_TYPES_BOOLEAN :: string where "STANDARD_TYPES_BOOLEAN = ''boolean''"
definition STANDARD_TYPES_DATE :: string where "STANDARD_TYPES_DATE = ''Date''"
definition STANDARD_TYPES_ARRAY :: string where "STANDARD_TYPES_ARRAY = ''array''"
definition STANDARD_TYPES_OBJECT :: string where "STANDARD_TYPES_OBJECT = ''object''"
definition STANDARD_TYPES_ANY :: string where "STANDARD_TYPES_ANY = ''any''"

definition normalizeField :: "jsval \<Rightarrow> error + jsval" where
  "normalizeField field =
     (if nullish field then Inl TypeError
      else Inr (JObj
        [(''name'', get field ''name''),
         (''type'', js_or (get field ''type'') (JStr STANDARD_TYPES_ANY)),
         (''required'', JBool (get field ''required'' \<noteq> JBool False)),
         (''isPrimary'', js_or (get field ''isPrimary'') (JBool False)),
         (''isArray'', js_or (get field ''isArray'') (JBool False)),
         (''arrayOf'', js_or (get field ''arrayOf'') JNull),
         (''isEnum'', js_or (get field ''isEnum'') (JBool False)),
         (''enumValues'', js_or (get field ''enumValues'') JNull),
         (''isReference'', js_or (get field ''isReference'') (JBool False)),
         (''referenceTo'', js_or (get field ''referenceTo'') JNull),
         (''defaultValue'', js_or (get field ''defaultValue'') JNull),
         (''description'', js_or (get field ''description'') JNull),
         (''nested'', js_or (get field ''nested'') JNull)]))"

text \<open>
  \<^verbatim>\<open>(model.fields || []).map(normalizeField)\<close>: a truthy \<^verbatim>\<open>fields\<close> that is not an
  array has no \<^verbatim>\<open>map\<close> method, and the call throws.
\<close>

definition normalizeModel :: "jsval \<Rightarrow> error + jsval" where
  "normalizeModel model =
     (if nullish model then Inl TypeError
      else case js_or (get model ''fields'') (JArr []) of
        JArr fs \<Rightarrow>
          (case map_res normalizeField fs of
             Inl e \<Rightarrow> Inl e
           | Inr fs' \<Rightarrow> Inr (JObj
               [(''modelName'', get model ''modelName''),
                (''tableName'', js_or (get model ''tableName'') (get model ''modelName'')),
                (''fields'', JArr fs'),
                (''description'', js_or (get model ''description'') JNull),
                (''source'', js_or (get model ''source'') (JStr ''unknown'')),
                (''filePath'', js_or (get model ''filePath'') JNull)]))
      | _ \<Rightarrow> Inl TypeError)"

section \<open>TypeScript generator (src/generators/typescript-generator.js)\<close>

definition NL :: string where "NL = [CHR 0x0A]"

text \<open>
  \<^verbatim>\<open>xs.join(sep)\<close> on an array of values: \<^verbatim>\<open>null\<close> and \<^verbatim>\<open>undefined\<close> elements
  give the empty string.
\<close>

definition js_join :: "string \<Rightarrow> jsval list \<Rightarrow> string" where
  "js_join sep xs = join sep (map (\<lambda>x. if nullish x then [] else to_str x) xs)"

text \<open>\<^verbatim>\<open>vs.map((v) => `'${v}'`).join(" | ")\<close>\<close>

definition quote_union :: "jsval list \<Rightarrow> string" where
  "quote_union vs = join '' | '' (map (\<lambda>v. [CHR 0x27] @ to_str v @ [CHR 0x27]) vs)"

text \<open>
  A destructuring default \<^verbatim>\<open>const { k = d } = options\<close> applies only when the property
  is \<^verbatim>\<open>undefined\<close>; a default parameter \<^verbatim>\<open>options = {}\<close> likewise.
\<close>

definition dflt :: "jsval \<Rightarrow> jsval \<Rightarrow> jsval" where
  "dflt v d = (if v = JUndefined then d else v)"

lemma map_res_cong [fundef_cong]:
  "xs = ys \<Longrightarrow> (\<And>x. x \<in> set ys \<Longrightarrow> f x = g x) \<Longrightarrow> map_res f xs = map_res g ys"
  by (induction ys arbitrary: xs) (auto split: sum.splits)

lemma size_map_of:
  "map_of kvs k = Some v \<Longrightarrow> size v < Suc (size_list (size_prod (\<lambda>_. 0) size) kvs)"
  by (induction kvs) (auto split: if_splits)

lemma size_get_nested: "truthy (get f ''nested'') \<Longrightarrow> size (get f ''nested'') < size f"
  by (cases f) (auto split: option.splits dest: size_map_of)

lemma size_elem: "x \<in> set xs \<Longrightarrow> size x < Suc (size_list size xs)"
  by (induction xs) auto

text \<open>
  \<open>fieldToTypeScript\<close> and \<open>generateInlineInterface\<close> call each other through the
  \<^verbatim>\<open>nested\<close> property. The \<^verbatim>\<open>allModels\<close> argument is passed along and never read,
  so it is left out. \<open>fieldToTypeScript\<close> returns \<^verbatim>\<open>field.type\<close> or
  \<^verbatim>\<open>field.referenceTo\<close> as it is when the field is required; the caller coerces it
  to a string.
\<close>

function fieldToTypeScript :: "jsval \<Rightarrow> error + jsval"
  and generateInlineInterface :: "jsval \<Rightarrow> error + string" where
  "fieldToTypeScript field =
     (if nullish field then Inl TypeError
      else case
        (if truthy (get field ''isEnum'') \<and> truthy (get field ''enumValues'') then
           (case get field ''enumValues'' of
              JArr vs \<Rightarrow> Inr (JStr (quote_union vs))
            | _ \<Rightarrow> Inl TypeError)
         else if truthy (get field ''isArray'') \<and> truthy (get field ''arrayOf'') then
           (if truthy (get field ''isEnumArray'') \<and> truthy (get field ''enumValues'') then
              (case get field ''enumValues'' of
                 JArr vs \<Rightarrow> Inr (JStr (''('' @ quote_union vs @ '')[]''))
               | _ \<Rightarrow> Inl TypeError)
            else Inr (JStr (to_str (get field ''arrayOf'') @ ''[]'')))
         else if truthy (get field ''isReference'') \<and> truthy (get field ''referenceTo'') then
           Inr (get field ''referenceTo'')
         else if get field ''type'' = JStr STANDARD_TYPES_OBJECT \<and> truthy (get field ''nested'') then
           (case generateInlineInterface (get field ''nested'') of
              Inl e \<Rightarrow> Inl e
            | Inr s \<Rightarrow> Inr (JStr s))
         else Inr (get field ''type''))
      of
        Inl e \<Rightarrow> Inl e
      | Inr tsType \<Rightarrow>
          Inr (if truthy (get field ''required'') then tsType
               else JStr (to_str tsType @ '' | null'')))"
| "generateInlineInterface fields =
     (case fields of
        JArr fs \<Rightarrow>
          (case map_res (\<lambda>field.
                  if nullish field then Inl TypeError
                  else case fieldToTypeScript field of
                    Inl e \<Rightarrow> Inl e
                  | Inr t \<Rightarrow> Inr (''  '' @ to_str (get field ''name'')
                        @ (if truthy (get field ''required'') then [] else ''?'')
                        @ '': '' @ to_str t @ '';'')) fs of
             Inl e \<Rightarrow> Inl e
           | Inr fieldStrings \<Rightarrow> Inr (''{'' @ NL @ join NL fieldStrings @ NL @ ''}''))
      | _ \<Rightarrow> Inl TypeError)"
  by pat_completeness auto
termination
  apply (relation "measure (\<lambda>x. case x of Inl f \<Rightarrow> size f | Inr fs \<Rightarrow> size fs)")
    apply simp
   apply (simp add: size_get_nested)
  apply (simp add: size_elem)
  done

declare fieldToTypeScript.simps [simp del] generateInlineInterface.simps [simp del]

text \<open>The lines of the enum values: \<^verbatim>\<open>`  ${value} = '${value}'${comma}`\<close>.\<close>

fun enumValueLines :: "jsval list \<Rightarrow> string list" where
  "enumValueLines [] = []"
| "enumValueLines [v] = [''  '' @ to_str v @ '' = '' @ [CHR 0x27] @ to_str v @ [CHR 0x27]]"
| "enumValueLines (v # w # vs) =
     (''  '' @ to_str v @ '' = '' @ [CHR 0x27] @ to_str v @ [CHR 0x27] @ '','')
       # enumValueLines (w # vs)"

definition generateEnum :: "jsval \<Rightarrow> jsval \<Rightarrow> error + string" where
  "generateEnum enumDef options0 =
     (let options = dflt options0 (JObj []) in
      if nullish options \<or> nullish enumDef then Inl TypeError
      else
        let exportType = dflt (get options ''exportType'') (JStr ''export'');
            includeComments = dflt (get options ''includeComments'') (JBool True)
        in case get enumDef ''values'' of
             JArr vs \<Rightarrow>
               Inr (join NL
                 ((if truthy includeComments then [''/** Auto-generated enum */''] else [])
                  @ [to_str exportType @ '' enum '' @ to_str (get enumDef ''name'') @ '' {'']
                  @ enumValueLines vs
                  @ [''}'']))
           | _ \<Rightarrow> Inl TypeError)"

text \<open>
  A JavaScript \<^verbatim>\<open>Set\<close> keeps insertion order and ignores a value it already holds.
  The values added below are type names (strings), on which \<^verbatim>\<open>===\<close>,
  \<^verbatim>\<open>!==\<close> and \<^verbatim>\<open>Set.has\<close> are equality of the text; the model compares every
  value structurally.
\<close>

definition set_add :: "jsval \<Rightarrow> jsval list \<Rightarrow> jsval list" where
  "set_add x xs = (if List.member xs x then xs else xs @ [x])"

definition primitives :: "jsval list" where
  "primitives = map JStr [''string'', ''number'', ''boolean'', ''Date'', ''any'', ''unknown'',
     ''void'', ''null'', ''undefined'', ''array'', ''object'']"

text \<open>
  The dependencies are the pair \<open>(enums, models)\<close> of the two sets. \<open>addDependency\<close> is
  the repeated \<^verbatim>\<open>if (enumNames.has(x)) enums.add(x) else models.add(x)\<close>;
  \<open>collectField\<close> is the body of the \<^verbatim>\<open>forEach\<close>.
\<close>

definition addDependency :: "jsval list \<Rightarrow> jsval \<Rightarrow> jsval list \<times> jsval list
    \<Rightarrow> jsval list \<times> jsval list" where
  "addDependency enumNames x deps =
     (if List.member enumNames x then (set_add x (fst deps), snd deps)
      else (fst deps, set_add x (snd deps)))"

definition collectField :: "jsval \<Rightarrow> jsval list \<Rightarrow> jsval \<Rightarrow> jsval list \<times> jsval list
    \<Rightarrow> jsval list \<times> jsval list" where
  "collectField modelName enumNames field deps =
     (let deps1 =
        (if truthy (get field ''isArray'') \<and> truthy (get field ''arrayOf'') then
           (if \<not> List.member primitives (get field ''arrayOf'')
               \<and> get field ''arrayOf'' \<noteq> modelName
            then addDependency enumNames (get field ''arrayOf'') deps
            else deps)
         else if truthy (get field ''type'') \<and> \<not> List.member primitives (get field ''type'')
                 \<and> get field ''type'' \<noteq> modelName
           then addDependency enumNames (get field ''type'') deps
         else deps)
      in if truthy (get field ''referenceTo'')
            \<and> get field ''referenceTo'' \<noteq> get field ''type''
            \<and> get field ''referenceTo'' \<noteq> modelName
         then addDependency enumNames (get field ''referenceTo'') deps1
         else deps1)"

fun collectFields :: "jsval \<Rightarrow> jsval list \<Rightarrow> jsval list \<Rightarrow> jsval list \<times> jsval list
    \<Rightarrow> error + jsval list \<times> jsval list" where
  "collectFields modelName enumNames [] deps = Inr deps"
| "collectFields modelName enumNames (field # fields) deps =
     (if nullish field then Inl TypeError
      else collectFields modelName enumNames fields
             (collectField modelName enumNames field deps))"

definition collectTypeDependencies :: "jsval \<Rightarrow> jsval \<Rightarrow> error + jsval list \<times> jsval list" where
  "collectTypeDependencies model allEnums0 =
     (case dflt allEnums0 (JArr []) of
        JArr es \<Rightarrow>
          (case map_res (\<lambda>e. if nullish e then Inl TypeError else Inr (get e ''name'')) es of
             Inl e \<Rightarrow> Inl e
           | Inr enumNames \<Rightarrow>
               if nullish model then Inl TypeError
               else (case get model ''fields'' of
                       JArr fields \<Rightarrow>
                         collectFields (get model ''modelName'') enumNames fields ([], [])
                     | _ \<Rightarrow> Inl TypeError))
      | _ \<Rightarrow> Inl TypeError)"

text \<open>The lines pushed for one field of the interface.\<close>

definition fieldLines :: "jsval \<Rightarrow> jsval \<Rightarrow> jsval \<Rightarrow> error + string list" where
  "fieldLines includeComments readonly field =
     (if nullish field then Inl TypeError
      else case fieldToTypeScript field of
        Inl e \<Rightarrow> Inl e
      | Inr tsType \<Rightarrow>
          Inr ((if truthy includeComments \<and> truthy (get field ''description'')
                then [''  /** '' @ to_str (get field ''description'') @ '' */''] else [])
               @ [''  '' @ (if truthy readonly then ''readonly '' else [])
                  @ to_str (get field ''name'')
                  @ (if truthy (get field ''required'') then [] else ''?'')
                  @ '': '' @ to_str tsType @ '';'']))"

definition importLines :: "jsval list \<times> jsval list \<Rightarrow> string list" where
  "importLines deps =
     (if fst deps \<noteq> [] then [''import { '' @ js_join '', '' (fst deps) @ '' } from './enums';'']
      else [])
     @ map (\<lambda>modelName. ''import type { '' @ to_str modelName @ '' } from './''
              @ to_str modelName @ [CHR 0x27] @ '';'') (snd deps)
     @ (if fst deps \<noteq> [] \<or> snd deps \<noteq> [] then [[]] else [])"

text \<open>The array \<^verbatim>\<open>lines\<close> of \<open>generateInterface\<close>, before it is joined.\<close>

definition generateInterface_lines :: "jsval \<Rightarrow> jsval \<Rightarrow> error + string list" where
  "generateInterface_lines model options0 =
     (let options = dflt options0 (JObj []) in
      if nullish options then Inl TypeError
      else
        let exportType = dflt (get options ''exportType'') (JStr ''export'');
            includeComments = dflt (get options ''includeComments'') (JBool True);
            readonly = dflt (get options ''readonly'') (JBool False);
            standalone = dflt (get options ''standalone'') (JBool False)
        in case (if truthy standalone
                 then (case collectTypeDependencies model
                              (js_or (get options ''allEnums'') (JArr [])) of
                         Inl e \<Rightarrow> Inl e
                       | Inr deps \<Rightarrow> Inr (importLines deps))
                 else Inr []) of
             Inl e \<Rightarrow> Inl e
           | Inr imports \<Rightarrow>
               if nullish model then Inl TypeError
               else (case get model ''fields'' of
                  JArr fields \<Rightarrow>
                    (case map_res (fieldLines includeComments readonly) fields of
                       Inl e \<Rightarrow> Inl e
                     | Inr fls \<Rightarrow>
                         Inr (imports
                           @ (if truthy includeComments \<and> truthy (get model ''description'')
                              then [''/**'', '' * '' @ to_str (get model ''description''), '' */'']
                              else [])
                           @ (if truthy includeComments
                              then [''/** Auto-generated from '' @ to_str (get model ''source'')
                                      @ '' schema */'']
                              else [])
                           @ [to_str exportType @ '' interface ''
                                @ to_str (get model ''modelName'') @ '' {'']
                           @ concat fls
                           @ [''}'']))
                | _ \<Rightarrow> Inl TypeError))"

definition generateInterface :: "jsval \<Rightarrow> jsval \<Rightarrow> error + string" where
  "generateInterface model options =
     (case generateInterface_lines model options of
        Inl e \<Rightarrow> Inl e
      | Inr lines \<Rightarrow> Inr (join NL lines))"

text \<open>\<open>generateTypes\<close> of the generator module (the orchestrator has one of the same name).\<close>

definition generateTypes :: "jsval \<Rightarrow> jsval \<Rightarrow> error + string" where
  "generateTypes models options =
     (case models of
        JArr ms \<Rightarrow>
          (case map_res (\<lambda>model. generateInterface model options) ms of
             Inl e \<Rightarrow> Inl e
           | Inr interfaces \<Rightarrow> Inr (join (NL @ NL) interfaces))
      | _ \<Rightarrow> Inl TypeError)"

text \<open>
  What \<open>generateTypeScriptFile\<close> reads from outside its arguments: the clock
  (\<^verbatim>\<open>new Date().toISOString()\<close>), the two environment variables that switch formatting
  off, and Prettier, a function on the code that may throw. The test
  \<^verbatim>\<open>enums.length > 0\<close> is modelled for a numeric \<^verbatim>\<open>length\<close>, as arrays and strings
  have it.
\<close>

record gen_env =
  nowISO :: string
  skipFormat :: bool
  prettier :: "string \<Rightarrow> error + string"

definition formatCode :: "gen_env \<Rightarrow> string \<Rightarrow> string" where
  "formatCode env code =
     (if skipFormat env then code
      else case prettier env code of Inl e \<Rightarrow> code | Inr formatted \<Rightarrow> formatted)"

definition generateTypeScriptFile :: "gen_env \<Rightarrow> jsval \<Rightarrow> jsval \<Rightarrow> error + string" where
  "generateTypeScriptFile env models options0 =
     (let options = dflt options0 (JObj []) in
      if nullish options then Inl TypeError
      else
        let includeHeader = dflt (get options ''includeHeader'') (JBool True);
            banner = dflt (get options ''banner'') JNull;
            enums = dflt (get options ''enums'') (JArr []);
            header = (if truthy includeHeader
                      then [''/**'', '' * AUTO-GENERATED by type-bridge'',
                            '' * Do not edit manually'',
                            '' * Generated: '' @ nowISO env, '' */'', []]
                      else []);
            bannerLines = (if truthy banner then [''/* '' @ to_str banner @ '' */'', []]
                           else [])
        in case (if truthy enums \<and> (case get enums ''length'' of JNum n \<Rightarrow> n > 0 | _ \<Rightarrow> False)
                 then (case enums of
                         JArr es \<Rightarrow>
                           (case map_res (\<lambda>e. generateEnum e options) es of
                              Inl e \<Rightarrow> Inl e
                            | Inr codes \<Rightarrow> Inr [join (NL @ NL) codes, []])
                       | _ \<Rightarrow> Inl TypeError)
                 else Inr []) of
             Inl e \<Rightarrow> Inl e
           | Inr enumLines \<Rightarrow>
               (case generateTypes models options of
                  Inl e \<Rightarrow> Inl e
                | Inr types \<Rightarrow>
                    Inr (formatCode env (join NL (header @ bannerLines @ enumLines @ [types])))))"

section \<open>String operations\<close>

text \<open>
  The whitespace of \<^verbatim>\<open>\s\<close> and of \<^verbatim>\<open>trim()\<close>, the word characters of \<^verbatim>\<open>\w\<close>, and
  the line terminators that \<^verbatim>\<open>.\<close> does not match, on ASCII text.
\<close>

definition is_space :: "char \<Rightarrow> bool" where
  "is_space c = List.member [CHR '' '', CHR 0x09, CHR 0x0A, CHR 0x0B, CHR 0x0C, CHR 0x0D] c"

definition is_word :: "char \<Rightarrow> bool" where
  "is_word c = List.member
     ''abcdefghijklmnopqrstuvwxyzABCDEFGHIJKLMNOPQRSTUVWXYZ0123456789_'' c"

definition is_line_terminator :: "char \<Rightarrow> bool" where
  "is_line_terminator c = List.member [CHR 0x0A, CHR 0x0D] c"

definition trim :: "string \<Rightarrow> string" where
  "trim s = rev (dropWhile is_space (rev (dropWhile is_space s)))"

definition startsWith :: "string \<Rightarrow> string \<Rightarrow> bool" where
  "startsWith s p = (take (length p) s = p)"

definition endsWith :: "string \<Rightarrow> string \<Rightarrow> bool" where
  "endsWith s p = (length p \<le> length s \<and> drop (length s - length p) s = p)"

fun str_includes :: "string \<Rightarrow> string \<Rightarrow> bool" where
  "str_includes [] sub = (sub = [])"
| "str_includes (c # cs) sub = (startsWith (c # cs) sub \<or> str_includes cs sub)"

text \<open>\<^verbatim>\<open>s.split('\n')\<close>; the result is never empty.\<close>

fun split_nl :: "string \<Rightarrow> string list" where
  "split_nl [] = [[]]"
| "split_nl (c # cs) =
     (if c = CHR 0x0A then [] # split_nl cs
      else (case split_nl cs of l # ls \<Rightarrow> (c # l) # ls | [] \<Rightarrow> [[c]]))"

section \<open>Prisma adapter (src/parsers/prisma-parser.js)\<close>

definition PRISMA_TYPE_MAP :: "(string \<times> string) list" where
  "PRISMA_TYPE_MAP =
     [(''String'', STANDARD_TYPES_STRING),
      (''Int'', STANDARD_TYPES_NUMBER),
      (''Float'', STANDARD_TYPES_NUMBER),
      (''Boolean'', STANDARD_TYPES_BOOLEAN),
      (''DateTime'', STANDARD_TYPES_DATE),
      (''Json'', ''Record<string, unknown>''),
      (''Bytes'', STANDARD_TYPES_STRING),
      (''Decimal'', STANDARD_TYPES_NUMBER),
      (''BigInt'', STANDARD_TYPES_NUMBER)]"

text \<open>
  \<^verbatim>\<open>line.match(/^(\w+)\s+([\w[\]]+)(\?)?(.*)$/)\<close>, giving the four groups (the third as
  whether it took part). Each greedy run is followed by a character outside its class,
  so no shorter run can match and the groups are the maximal runs.
\<close>

definition is_type_char :: "char \<Rightarrow> bool" where
  "is_type_char c = (is_word c \<or> c = CHR ''['' \<or> c = CHR '']'')"

definition matchField :: "string \<Rightarrow> (string \<times> string \<times> bool \<times> string) option" where
  "matchField line =
     (let name = takeWhile is_word line;
          r1 = dropWhile is_word line;
          r2 = dropWhile is_space r1;
          typeStr = takeWhile is_type_char r2;
          r3 = dropWhile is_type_char r2;
          optional = startsWith r3 ''?'';
          attributes = (if optional then drop 1 r3 else r3)
      in if name = [] \<or> takeWhile is_space r1 = [] \<or> typeStr = []
            \<or> list_ex is_line_terminator attributes
         then None
         else Some (name, typeStr, optional, attributes))"

text \<open>
  \<^verbatim>\<open>attributes.match(/@default\(([^)]+)\)/)\<close>: the first place where
  \<^verbatim>\<open>@default(\<close> is followed by at least one character other than \<^verbatim>\<open>)\<close> and then
  by \<^verbatim>\<open>)\<close>; the group is that run.
\<close>

fun matchDefault :: "string \<Rightarrow> string option" where
  "matchDefault [] = None"
| "matchDefault (c # cs) =
     (let s = c # cs;
          r = drop (length ''@default('') s;
          arg = takeWhile (\<lambda>x. x \<noteq> CHR '')'') r
      in if startsWith s ''@default('' \<and> arg \<noteq> []
            \<and> startsWith (dropWhile (\<lambda>x. x \<noteq> CHR '')'') r) '')''
         then Some arg
         else matchDefault cs)"

text \<open>
  \<open>parseField\<close> returns \<^verbatim>\<open>null\<close> for a line that is not a field. The lookup
  \<^verbatim>\<open>PRISMA_TYPE_MAP[baseType]\<close> is modelled on the keys that the map itself has: for a
  type named like a member of \<^verbatim>\<open>Object.prototype\<close> (\<^verbatim>\<open>constructor\<close>, \<^verbatim>\<open>toString\<close>, ...)
  JavaScript finds that member, a function; such type names are outside the model.
\<close>

definition parseField :: "string \<Rightarrow> jsval" where
  "parseField line0 =
     (let line = trim line0 in
      if line = [] \<or> startsWith line ''//'' \<or> startsWith line ''@@'' then JNull
      else case matchField line of
        None \<Rightarrow> JNull
      | Some (name, typeStr, optional, attributes) \<Rightarrow>
          let isArray = endsWith typeStr ''[]'';
              baseType = (if isArray then take (length typeStr - 2) typeStr else typeStr);
              mappedType = (case map_of PRISMA_TYPE_MAP baseType of
                              Some t \<Rightarrow> t | None \<Rightarrow> baseType);
              isPrimary = str_includes attributes ''@id'';
              isUnique = str_includes attributes ''@unique'';
              defaultValue = (case matchDefault attributes of
                                Some d \<Rightarrow> JStr d | None \<Rightarrow> JNull);
              isReference = (map_of PRISMA_TYPE_MAP baseType = None \<and> \<not> isArray)
          in JObj
            [(''name'', JStr name),
             (''type'', JStr (if isArray then STANDARD_TYPES_ARRAY else mappedType)),
             (''required'', JBool (\<not> optional \<and> \<not> isPrimary)),
             (''isPrimary'', JBool isPrimary),
             (''isArray'', JBool isArray),
             (''arrayOf'', if isArray then JStr mappedType else JNull),
             (''isReference'', JBool isReference),
             (''referenceTo'', if isReference then JStr baseType else JNull),
             (''defaultValue'', defaultValue),
             (''isUnique'', JBool isUnique)])"

text \<open>
  \<^verbatim>\<open>s.match(/kw\s+(\w+)/)\<close> for the keyword \<open>kw\<close> (\<^verbatim>\<open>model\<close> or \<^verbatim>\<open>enum\<close>): the
  name after the first occurrence of the keyword that is followed by whitespace and a
  word.
\<close>

fun matchName :: "string \<Rightarrow> string \<Rightarrow> string option" where
  "matchName kw [] = None"
| "matchName kw (c # cs) =
     (let s = c # cs;
          r = drop (length kw) s;
          name = takeWhile is_word (dropWhile is_space r)
      in if startsWith s kw \<and> takeWhile is_space r \<noteq> [] \<and> name \<noteq> []
         then Some name
         else matchName kw cs)"

text \<open>\<^verbatim>\<open>lines.slice(1, -1)\<close>\<close>

definition slice_1_m1 :: "'a list \<Rightarrow> 'a list" where
  "slice_1_m1 xs = butlast (drop 1 xs)"

definition parseModel :: "string \<Rightarrow> jsval \<Rightarrow> error + jsval" where
  "parseModel modelBlock filePath =
     (let lines = split_nl modelBlock in
      case matchName ''model'' (case lines of first # rest \<Rightarrow> first | [] \<Rightarrow> []) of
        None \<Rightarrow> Inr JNull
      | Some modelName \<Rightarrow>
          normalizeModel (JObj
            [(''modelName'', JStr modelName),
             (''fields'', JArr (filter (\<lambda>field. field \<noteq> JNull)
                                  (map parseField (slice_1_m1 lines)))),
             (''source'', JStr ''prisma''),
             (''filePath'', filePath)]))"

definition parseEnum :: "string \<Rightarrow> jsval" where
  "parseEnum enumBlock =
     (case matchName ''enum'' enumBlock of
        None \<Rightarrow> JNull
      | Some name \<Rightarrow>
          JObj [(''name'', JStr name),
                (''values'', JArr (map JStr (filter
                    (\<lambda>trimmed. trimmed \<noteq> [] \<and> \<not> startsWith trimmed ''//''
                       \<and> \<not> startsWith trimmed ''enum''
                       \<and> \<not> str_includes trimmed ''{'' \<and> \<not> str_includes trimmed ''}'')
                    (map trim (split_nl enumBlock))))),
                (''type'', JStr ''enum'')])"

text \<open>
  One attempt of \<^verbatim>\<open>/kw\s+(\w+)\s*\{[\s\S]*?\}/\<close> at the start of \<open>s\<close>, giving the
  matched text. The lazy \<^verbatim>\<open>[\s\S]*?\<close> stops at the first \<^verbatim>\<open>}\<close> after the opening
  brace.
\<close>

definition matchBlockAt :: "string \<Rightarrow> string \<Rightarrow> string option" where
  "matchBlockAt kw s =
     (let r1 = drop (length kw) s;
          ws1 = takeWhile is_space r1;
          r2 = dropWhile is_space r1;
          name = takeWhile is_word r2;
          r3 = dropWhile is_word r2;
          ws2 = takeWhile is_space r3;
          r4 = dropWhile is_space r3;
          body = drop 1 r4
      in if startsWith s kw \<and> ws1 \<noteq> [] \<and> name \<noteq> [] \<and> startsWith r4 ''{''
            \<and> List.member body (CHR ''}'')
         then Some (kw @ ws1 @ name @ ws2 @ ''{''
                      @ takeWhile (\<lambda>x. x \<noteq> CHR ''}'') body @ ''}'')
         else None)"

text \<open>
  \<^verbatim>\<open>content.match(regex) || []\<close> with the \<^verbatim>\<open>g\<close> flag: the matches from left to
  right, each search starting where the last match ended. A match starts with the
  keyword and is not empty, so the search goes on \<open>length m - 1\<close> characters into the
  rest.
\<close>

fun matchBlocks :: "string \<Rightarrow> string \<Rightarrow> string list" where
  "matchBlocks kw [] = []"
| "matchBlocks kw (c # cs) =
     (case matchBlockAt kw (c # cs) of
        Some m \<Rightarrow> m # matchBlocks kw (drop (length m - 1) cs)
      | None \<Rightarrow> matchBlocks kw cs)"

definition message :: "error \<Rightarrow> string" where
  "message e = (case e of Error m \<Rightarrow> m | TypeError \<Rightarrow> ''TypeError'')"

text \<open>
  \<open>parsePrismaSchema\<close> on the outcome of \<^verbatim>\<open>fs.readFile(schemaPath, 'utf-8')\<close>: the
  content, or the error it threw. The result is the object \<^verbatim>\<open>{ models, enums }\<close>.
\<close>

definition parsePrismaSchema :: "error + string \<Rightarrow> jsval \<Rightarrow> error + jsval" where
  "parsePrismaSchema readFile schemaPath =
     (case readFile of
        Inl e \<Rightarrow> Inl (Error (''Failed to parse Prisma schema: '' @ message e))
      | Inr content \<Rightarrow>
          (case map_res (\<lambda>block. parseModel block schemaPath)
                  (matchBlocks ''model'' content) of
             Inl e \<Rightarrow> Inl (Error (''Failed to parse Prisma schema: '' @ message e))
           | Inr models \<Rightarrow>
               Inr (JObj
                 [(''models'', JArr (filter (\<lambda>model. model \<noteq> JNull) models)),
                  (''enums'', JArr (filter (\<lambda>e. e \<noteq> JNull)
                                      (map parseEnum (matchBlocks ''enum'' content))))])))"

section \<open>Mongoose adapter (src/parsers/mongoose-parser.js)\<close>

definition MONGOOSE_TYPE_MAP :: "(string \<times> string) list" where
  "MONGOOSE_TYPE_MAP =
     [(''String'', STANDARD_TYPES_STRING),
      (''Number'', STANDARD_TYPES_NUMBER),
      (''Boolean'', STANDARD_TYPES_BOOLEAN),
      (''Date'', STANDARD_TYPES_DATE),
      (''Buffer'', STANDARD_TYPES_STRING),
      (''ObjectId'', STANDARD_TYPES_STRING),
      (''Mixed'', ''Record<string, any>''),
      (''Decimal128'', STANDARD_TYPES_NUMBER),
      (''Map'', STANDARD_TYPES_OBJECT),
      (''Schema.Types.String'', STANDARD_TYPES_STRING),
      (''Schema.Types.Number'', STANDARD_TYPES_NUMBER),
      (''Schema.Types.Boolean'', STANDARD_TYPES_BOOLEAN),
      (''Schema.Types.Date'', STANDARD_TYPES_DATE),
      (''Schema.Types.ObjectId'', STANDARD_TYPES_STRING),
      (''Schema.Types.Mixed'', ''Record<string, any>''),
      (''Schema.Types.Decimal128'', STANDARD_TYPES_NUMBER),
      (''Schema.Types.Map'', STANDARD_TYPES_OBJECT)]"

text \<open>
  \<^verbatim>\<open>MONGOOSE_TYPE_MAP[k] || STANDARD_TYPES.ANY\<close>; a property key is coerced to a string.
  As for the Prisma map, the lookup is modelled on the map's own keys, and keys named like
  a member of \<^verbatim>\<open>Object.prototype\<close> are outside the model.
\<close>

definition mongooseType :: "jsval \<Rightarrow> jsval" where
  "mongooseType k =
     (case map_of MONGOOSE_TYPE_MAP (to_str k) of
        Some t \<Rightarrow> js_or (JStr t) (JStr STANDARD_TYPES_ANY)
      | None \<Rightarrow> JStr STANDARD_TYPES_ANY)"

text \<open>\<^verbatim>\<open>Array.isArray(v)\<close>, \<^verbatim>\<open>typeof v === 'object'\<close>, \<^verbatim>\<open>'function'\<close>, \<^verbatim>\<open>'string'\<close>\<close>

fun is_array :: "jsval \<Rightarrow> bool" where
  "is_array (JArr xs) = True"
| "is_array v = False"

fun is_object :: "jsval \<Rightarrow> bool" where
  "is_object (JObj kvs) = True"
| "is_object (JArr xs) = True"
| "is_object JNull = True"
| "is_object v = False"

fun is_function :: "jsval \<Rightarrow> bool" where
  "is_function (JFun n) = True"
| "is_function v = False"

fun is_string :: "jsval \<Rightarrow> bool" where
  "is_string (JStr s) = True"
| "is_string v = False"

text \<open>
  \<^verbatim>\<open>{ ...o, k: v }\<close>: the property keeps its place when \<open>o\<close> has it and is added at
  the end otherwise.
\<close>

definition obj_put :: "string \<Rightarrow> jsval \<Rightarrow> (string \<times> jsval) list \<Rightarrow> (string \<times> jsval) list" where
  "obj_put k v kvs =
     (if List.member (map fst kvs) k
      then map (\<lambda>kv. if fst kv = k then (k, v) else kv) kvs
      else kvs @ [(k, v)])"

text \<open>\<^verbatim>\<open>Object.entries(v)\<close>\<close>

fun entries :: "jsval \<Rightarrow> error + (string \<times> jsval) list" where
  "entries JUndefined = Inl TypeError"
| "entries JNull = Inl TypeError"
| "entries (JObj kvs) = Inr kvs"
| "entries (JArr xs) = Inr (zip (map digits [0..<length xs]) xs)"
| "entries (JStr s) = Inr (zip (map digits [0..<length s]) (map (\<lambda>c. JStr [c]) s))"
| "entries v = Inr []"

lemma size_get_obj:
  "truthy v \<Longrightarrow> is_object v \<Longrightarrow> \<not> is_array v \<Longrightarrow> truthy (get v k) \<Longrightarrow> size (get v k) < size v"
  by (cases v) (auto split: option.splits dest: size_map_of)

lemma size_first: "size x < size (JArr (x # xs))"
  by simp

function extractFieldType :: "jsval \<Rightarrow> jsval" where
  "extractFieldType fieldDef =
     (if is_array fieldDef then
        (case fieldDef of
           JArr (first # rest) \<Rightarrow>
             (let innerType = extractFieldType first in
              JObj [(''type'', JStr STANDARD_TYPES_ARRAY),
                    (''isArray'', JBool True),
                    (''arrayOf'', get innerType ''type''),
                    (''isReference'', get innerType ''isReference''),
                    (''referenceTo'', get innerType ''referenceTo'')])
         | _ \<Rightarrow>
             JObj [(''type'', JStr STANDARD_TYPES_ARRAY),
                   (''isArray'', JBool True),
                   (''arrayOf'', JStr STANDARD_TYPES_ANY)])
      else if truthy fieldDef \<and> is_object fieldDef \<and> truthy (get fieldDef ''type'') then
        (let typeInfo = extractFieldType (get fieldDef ''type'') in
         if truthy (get fieldDef ''ref'') then
           (case typeInfo of
              JObj kvs \<Rightarrow> JObj (obj_put ''referenceTo'' (get fieldDef ''ref'')
                                  (obj_put ''isReference'' (JBool True) kvs))
            | _ \<Rightarrow> JObj [(''isReference'', JBool True), (''referenceTo'', get fieldDef ''ref'')])
         else typeInfo)
      else if truthy fieldDef \<and> is_object fieldDef \<and> truthy (get fieldDef ''enum'') then
        JObj [(''type'', JStr STANDARD_TYPES_STRING),
              (''isEnum'', JBool True),
              (''enumValues'', get fieldDef ''enum'')]
      else if is_function fieldDef then
        JObj [(''type'', mongooseType (get fieldDef ''name'')), (''isReference'', JBool False)]
      else if is_string fieldDef then
        JObj [(''type'', mongooseType fieldDef), (''isReference'', JBool False)]
      else JObj [(''type'', JStr STANDARD_TYPES_ANY), (''isReference'', JBool False)])"
  by pat_completeness auto
termination
  apply (relation "measure size")
    apply simp
   apply simp
  apply (simp add: size_get_obj)
  done

declare extractFieldType.simps [simp del]

text \<open>\<^verbatim>\<open>k in v\<close> for an own property.\<close>

fun has_key :: "jsval \<Rightarrow> string \<Rightarrow> bool" where
  "has_key (JObj kvs) k = List.member (map fst kvs) k"
| "has_key v k = False"

lemma size_entries:
  assumes "entries obj = Inr kvs" and "kv \<in> set kvs"
    and "is_object (snd kv)" and "truthy (snd kv)"
  shows "size (snd kv) < size obj"
proof (cases obj)
  case (JObj xs)
  with assms have "kv \<in> set xs" by simp
  then have "size (snd kv) < Suc (size_list (size_prod (\<lambda>_. 0) size) xs)"
    by (induction xs) auto
  with JObj show ?thesis by simp
next
  case (JArr xs)
  with assms have "snd kv \<in> set xs"
    by (cases kv) (auto dest: set_zip_rightD)
  then show ?thesis using JArr by (simp add: size_elem)
next
  case (JStr s)
  with assms have "snd kv \<in> set (map (\<lambda>c. JStr [c]) s)"
    by (cases kv) (auto dest: set_zip_rightD)
  with assms show ?thesis by auto
qed (use assms in auto)

text \<open>
  \<open>parseSchemaFields\<close>: the loop over \<^verbatim>\<open>Object.entries(schemaObj)\<close>, with the skipped
  entries (\<^verbatim>\<open>continue\<close>) filtered out first. The nested call leaves the second argument
  out, so it takes its default.
\<close>

function parseSchemaFields :: "jsval \<Rightarrow> jsval \<Rightarrow> error + jsval list" where
  "parseSchemaFields schemaObj schemaPaths0 =
     (case entries schemaObj of
        Inl e \<Rightarrow> Inl e
      | Inr kvs \<Rightarrow>
          map_res (\<lambda>kv.
            let fieldName = fst kv;
                fieldDef = snd kv;
                schemaPaths = dflt schemaPaths0 (JObj []);
                typeInfo = extractFieldType fieldDef;
                isObj = (truthy fieldDef \<and> is_object fieldDef)
            in if nullish schemaPaths then Inl TypeError
               else
                 let pathInfo = get schemaPaths fieldName;
                     required = ((isObj \<and> get fieldDef ''required'' = JBool True)
                                 \<or> (truthy pathInfo \<and> truthy (get pathInfo ''isRequired'')));
                     defaultValue = (if isObj \<and> has_key fieldDef ''default''
                                     then get fieldDef ''default'' else JNull);
                     isUnique = (if \<not> truthy fieldDef then fieldDef
                                 else JBool (is_object fieldDef
                                             \<and> get fieldDef ''unique'' = JBool True));
                     isEnumArray = (if truthy (get typeInfo ''isArray'')
                                    then get typeInfo ''isEnum'' else get typeInfo ''isArray'')
                 in case (if isObj \<and> \<not> truthy (get fieldDef ''type'')
                             \<and> \<not> truthy (get fieldDef ''enum'') \<and> \<not> is_array fieldDef
                          then (case parseSchemaFields fieldDef JUndefined of
                                  Inl e \<Rightarrow> Inl e
                                | Inr fs \<Rightarrow> Inr (JArr fs))
                          else Inr JNull) of
                      Inl e \<Rightarrow> Inl e
                    | Inr nested \<Rightarrow>
                        Inr (JObj
                          [(''name'', JStr fieldName),
                           (''type'', if truthy nested then JStr STANDARD_TYPES_OBJECT
                                      else get typeInfo ''type''),
                           (''required'', JBool required),
                           (''isArray'', js_or (get typeInfo ''isArray'') (JBool False)),
                           (''arrayOf'', js_or (get typeInfo ''arrayOf'') JNull),
                           (''isReference'', js_or (get typeInfo ''isReference'') (JBool False)),
                           (''referenceTo'', js_or (get typeInfo ''referenceTo'') JNull),
                           (''isEnum'', js_or (get typeInfo ''isEnum'') (JBool False)),
                           (''isEnumArray'', isEnumArray),
                           (''enumValues'', js_or (get typeInfo ''enumValues'') JNull),
                           (''defaultValue'', defaultValue),
                           (''isUnique'', isUnique),
                           (''nested'', nested)]))
            (filter (\<lambda>kv. \<not> startsWith (fst kv) ''_'') kvs))"
  by pat_completeness auto
termination
  apply (relation "measure (\<lambda>(schemaObj, schemaPaths0). size schemaObj)")
   apply simp
  apply (auto dest: size_entries)
  done

declare parseSchemaFields.simps [simp del]

text \<open>
  \<open>parseMongooseModel\<close> on the outcome of \<^verbatim>\<open>extractSchemaFromFile(filePath)\<close>, which
  loads the module: \<^verbatim>\<open>null\<close>, or \<^verbatim>\<open>{ modelName, schema }\<close>.
\<close>

definition parseMongooseModel :: "jsval \<Rightarrow> jsval \<Rightarrow> error + jsval" where
  "parseMongooseModel extracted filePath =
     (if \<not> truthy extracted then Inr JNull
      else if nullish (get extracted ''schema'') then Inl TypeError
      else case parseSchemaFields (get (get extracted ''schema'') ''obj'')
                  (get (get extracted ''schema'') ''paths'') of
        Inl e \<Rightarrow> Inl e
      | Inr fs \<Rightarrow>
          normalizeModel (JObj
            [(''modelName'', get extracted ''modelName''),
             (''fields'', JArr fs),
             (''source'', JStr ''mongoose''),
             (''filePath'', filePath)]))"

section \<open>Dependency analyzer (src/core/normalizer.js)\<close>

text \<open>\<^verbatim>\<open>for (const x of v)\<close>: the elements of an array, the characters of a string.\<close>

fun iter :: "jsval \<Rightarrow> error + jsval list" where
  "iter (JArr xs) = Inr xs"
| "iter (JStr s) = Inr (map (\<lambda>c. JStr [c]) s)"
| "iter v = Inl TypeError"

text \<open>
  \<^verbatim>\<open>new Map(models.map(m => [m.modelName, m]))\<close> is kept as the list of its entries;
  \<^verbatim>\<open>modelMap.get(k)\<close> is the value of the last entry with that key.
\<close>

definition mapGet :: "(jsval \<times> jsval) list \<Rightarrow> jsval \<Rightarrow> jsval" where
  "mapGet modelMap k =
     (case filter (\<lambda>kv. fst kv = k) modelMap of
        [] \<Rightarrow> JUndefined
      | kv # kvs \<Rightarrow> snd (last (kv # kvs)))"

lemma mapGet_key: "truthy (mapGet modelMap k) \<Longrightarrow> k \<in> fst ` set modelMap"
proof -
  assume t: "truthy (mapGet modelMap k)"
  have "filter (\<lambda>kv. fst kv = k) modelMap \<noteq> []"
  proof
    assume "filter (\<lambda>kv. fst kv = k) modelMap = []"
    then have "mapGet modelMap k = JUndefined" by (simp add: mapGet_def)
    with t show False by simp
  qed
  then obtain kv where "kv \<in> set modelMap" "fst kv = k"
    by (metis (mono_tags, lifting) filter_False)
  then show ?thesis by auto
qed

lemma card_path_less:
  assumes "t \<in> fst ` set modelMap" and "t \<notin> set path"
  shows "card (fst ` set modelMap - set (path @ [t])) < card (fst ` set modelMap - set path)"
proof (rule psubset_card_mono)
  show "finite (fst ` set modelMap - set path)" by simp
  show "fst ` set modelMap - set (path @ [t]) \<subset> fst ` set modelMap - set path"
    using assms by auto
qed

text \<open>
  \<open>hasCycle\<close> pushes onto the array \<^verbatim>\<open>circularPaths\<close> of the enclosing function and
  returns a boolean: the array is passed in and returned. \<open>hasCycleFields\<close> is the loop
  over the fields of the target model, which returns \<^verbatim>\<open>true\<close> at the first cycle.
\<close>

function hasCycle :: "(jsval \<times> jsval) list \<Rightarrow> jsval \<Rightarrow> jsval \<Rightarrow> jsval list \<Rightarrow> string list
      \<Rightarrow> error + bool \<times> string list"
  and hasCycleFields :: "(jsval \<times> jsval) list \<Rightarrow> jsval \<Rightarrow> jsval list \<Rightarrow> jsval list
      \<Rightarrow> string list \<Rightarrow> error + bool \<times> string list" where
  "hasCycle modelMap currentModel targetModel path circularPaths =
     (if currentModel = targetModel \<and> path = [] then Inr (False, circularPaths)
      else if List.member path targetModel then
        Inr (True, circularPaths @ [js_join '' -> '' (path @ [targetModel])])
      else if \<not> truthy (mapGet modelMap targetModel) then Inr (False, circularPaths)
      else case iter (get (mapGet modelMap targetModel) ''fields'') of
        Inl e \<Rightarrow> Inl e
      | Inr fs \<Rightarrow>
          hasCycleFields modelMap targetModel (path @ [targetModel]) fs circularPaths)"
| "hasCycleFields modelMap targetModel newPath [] circularPaths = Inr (False, circularPaths)"
| "hasCycleFields modelMap targetModel newPath (field # rest) circularPaths =
     (if nullish field then Inl TypeError
      else if truthy (get field ''isReference'') \<and> truthy (get field ''referenceTo'') then
        (case hasCycle modelMap targetModel (get field ''referenceTo'') newPath circularPaths of
           Inl e \<Rightarrow> Inl e
         | Inr r \<Rightarrow>
             if fst r then Inr (True, snd r)
             else hasCycleFields modelMap targetModel newPath rest (snd r))
      else hasCycleFields modelMap targetModel newPath rest circularPaths)"
  by pat_completeness auto
termination
  apply (relation "inv_image (less_than <*lex*> less_than)
      (\<lambda>x. case x of
         Inl (modelMap, c, t, path, acc) \<Rightarrow> (card (fst ` set modelMap - set path), 0)
       | Inr (modelMap, t, path, fs, acc) \<Rightarrow>
           (card (fst ` set modelMap - set path), Suc (length fs)))")
  subgoal by (intro wf_inv_image wf_lex_prod wf_less_than)
  subgoal for modelMap currentModel targetModel path circularPaths b
    using card_path_less [of targetModel modelMap path] mapGet_key [of modelMap targetModel]
    by auto
  subgoal by simp
  subgoal by simp
  subgoal by simp
  done

declare hasCycle.simps(1) [simp del]

text \<open>The two loops of \<open>detectCircularReferences\<close>; the result of \<open>hasCycle\<close> is dropped.\<close>

fun checkFields :: "(jsval \<times> jsval) list \<Rightarrow> jsval \<Rightarrow> jsval list \<Rightarrow> string list
      \<Rightarrow> error + string list" where
  "checkFields modelMap modelName [] circularPaths = Inr circularPaths"
| "checkFields modelMap modelName (field # rest) circularPaths =
     (if nullish field then Inl TypeError
      else if truthy (get field ''isReference'') \<and> truthy (get field ''referenceTo'') then
        (case hasCycle modelMap modelName (get field ''referenceTo'') [modelName] circularPaths of
           Inl e \<Rightarrow> Inl e
         | Inr r \<Rightarrow> checkFields modelMap modelName rest (snd r))
      else checkFields modelMap modelName rest circularPaths)"

fun checkModels :: "(jsval \<times> jsval) list \<Rightarrow> jsval list \<Rightarrow> string list \<Rightarrow> error + string list" where
  "checkModels modelMap [] circularPaths = Inr circularPaths"
| "checkModels modelMap (model # rest) circularPaths =
     (if nullish model then Inl TypeError
      else case iter (get model ''fields'') of
        Inl e \<Rightarrow> Inl e
      | Inr fs \<Rightarrow>
          (case checkFields modelMap (get model ''modelName'') fs circularPaths of
             Inl e \<Rightarrow> Inl e
           | Inr circularPaths' \<Rightarrow> checkModels modelMap rest circularPaths'))"

text \<open>\<^verbatim>\<open>[...new Set(xs)]\<close>: the first occurrence of each value, in order.\<close>

fun dedupe :: "'a list \<Rightarrow> 'a list \<Rightarrow> 'a list" where
  "dedupe seen [] = seen"
| "dedupe seen (x # xs) = dedupe (if List.member seen x then seen else seen @ [x]) xs"

definition detectCircularReferences :: "jsval \<Rightarrow> error + jsval" where
  "detectCircularReferences models =
     (case models of
        JArr ms \<Rightarrow>
          (case map_res (\<lambda>m. if nullish m then Inl TypeError
                               else Inr (get m ''modelName'', m)) ms of
             Inl e \<Rightarrow> Inl e
           | Inr modelMap \<Rightarrow>
               (case checkModels modelMap ms [] of
                  Inl e \<Rightarrow> Inl e
                | Inr circularPaths \<Rightarrow>
                    Inr (JObj
                      [(''hasCircular'', JBool (length circularPaths > 0)),
                       (''circularPaths'', JArr (map JStr (dedupe [] circularPaths)))])))
      | _ \<Rightarrow> Inl TypeError)"

definition markField :: "jsval \<Rightarrow> jsval \<Rightarrow> error + jsval" where
  "markField modelName field =
     (if nullish field then Inl TypeError
      else if truthy (get field ''isReference'') \<and> get field ''referenceTo'' = modelName then
        (case field of
           JObj kvs \<Rightarrow> Inr (JObj (obj_put ''isSelfReference'' (JBool True) kvs))
         | _ \<Rightarrow> Inr field)
      else Inr field)"

definition markSelfReferences :: "jsval \<Rightarrow> error + jsval" where
  "markSelfReferences models =
     (case models of
        JArr ms \<Rightarrow>
          (case map_res (\<lambda>model.
                  if nullish model then Inl TypeError
                  else case get model ''fields'' of
                    JArr fs \<Rightarrow>
                      (case map_res (markField (get model ''modelName'')) fs of
                         Inl e \<Rightarrow> Inl e
                       | Inr fs' \<Rightarrow>
                           (case entries model of
                              Inl e \<Rightarrow> Inl e
                            | Inr kvs \<Rightarrow> Inr (JObj (obj_put ''fields'' (JArr fs') kvs))))
                  | _ \<Rightarrow> Inl TypeError) ms of
             Inl e \<Rightarrow> Inl e
           | Inr ms' \<Rightarrow> Inr (JArr ms'))
      | _ \<Rightarrow> Inl TypeError)"

text \<open>
  \<open>validateSchema\<close>: the error messages, in the order they are pushed. The
  \<^verbatim>\<open>schema.fields?.forEach\<close> is skipped when \<^verbatim>\<open>fields\<close> is \<^verbatim>\<open>null\<close> or
  \<^verbatim>\<open>undefined\<close> and throws when it is another value that is not an array.
\<close>

fun fieldErrors :: "nat \<Rightarrow> jsval list \<Rightarrow> error + string list" where
  "fieldErrors index [] = Inr []"
| "fieldErrors index (field # rest) =
     (if nullish field then Inl TypeError
      else case fieldErrors (Suc index) rest of
        Inl e \<Rightarrow> Inl e
      | Inr errs \<Rightarrow>
          Inr ((if \<not> truthy (get field ''name'')
                then [''Field at index '' @ digits index @ '' must have a name''] else [])
               @ (if \<not> truthy (get field ''type'')
                  then [''Field \"'' @ to_str (get field ''name'') @ ''\" must have a type'']
                  else [])
               @ errs))"

definition validateSchema :: "jsval \<Rightarrow> error + jsval" where
  "validateSchema schema =
     (if nullish schema then Inl TypeError
      else case (case get schema ''fields'' of
                   JArr fs \<Rightarrow> fieldErrors 0 fs
                 | JUndefined \<Rightarrow> Inr []
                 | JNull \<Rightarrow> Inr []
                 | _ \<Rightarrow> Inl TypeError) of
        Inl e \<Rightarrow> Inl e
      | Inr ferrs \<Rightarrow>
          (let errors = (if \<not> truthy (get schema ''modelName'')
                         then [''Model must have a name''] else [])
                        @ (if \<not> is_array (get schema ''fields'')
                           then [''Model must have fields array''] else [])
                        @ ferrs
           in Inr (JObj [(''valid'', JBool (length errors = 0)),
                         (''errors'', JArr (map JStr errors))])))"

section \<open>Pipeline orchestrator (src/core/generator.js)\<close>

text \<open>
  The orchestrator reaches the outside world through the file system (ORM detection,
  finding and reading the Prisma schema, loading the Mongoose modules), through
  \<^verbatim>\<open>path.join\<close>, through the clock and Prettier (\<open>gen_env\<close>, once for the file that is
  written and once for the content that is returned) and through the writer module
  \<^verbatim>\<open>../writers/file-writer\<close>. They are the fields of \<open>core_env\<close>; each may throw. The
  messages printed with \<^verbatim>\<open>console.log\<close> are not part of the model, the exceptions
  that computing them can raise are.
\<close>

record core_env =
  cwd :: jsval
  detectPrisma :: "jsval \<Rightarrow> error + bool"
  detectMongoose :: "jsval \<Rightarrow> error + bool"
  findPrismaSchema :: "jsval \<Rightarrow> error + jsval"
  readFile :: "jsval \<Rightarrow> error + string"
  parseMongooseModels :: "jsval \<Rightarrow> jsval \<Rightarrow> error + jsval"
  path_join :: "jsval \<Rightarrow> string \<Rightarrow> error + jsval"
  writeTypesByModel :: "jsval \<Rightarrow> jsval \<Rightarrow> jsval \<Rightarrow> error + jsval"
  writeSingleFile :: "jsval \<Rightarrow> jsval \<Rightarrow> jsval \<Rightarrow> error + jsval"
  genWritten :: gen_env
  genReturned :: gen_env

text \<open>The calls made to the writer, in order, with their arguments.\<close>

datatype write_call =
    WriteTypesByModel jsval jsval jsval
  | WriteSingleFile jsval jsval jsval

definition detectORM :: "core_env \<Rightarrow> jsval \<Rightarrow> error + jsval" where
  "detectORM env projectRoot =
     (case detectPrisma env projectRoot of
        Inl e \<Rightarrow> Inl e
      | Inr p \<Rightarrow>
          if p then Inr (JStr ''prisma'')
          else (case detectMongoose env projectRoot of
                  Inl e \<Rightarrow> Inl e
                | Inr m \<Rightarrow> if m then Inr (JStr ''mongoose'') else Inr JNull))"

definition parseSchemas :: "core_env \<Rightarrow> jsval \<Rightarrow> jsval \<Rightarrow> jsval \<Rightarrow> error + jsval" where
  "parseSchemas env orm projectRoot options =
     (if orm = JStr ''prisma'' then
        (case findPrismaSchema env projectRoot of
           Inl e \<Rightarrow> Inl e
         | Inr schemaPath \<Rightarrow>
             if \<not> truthy schemaPath then Inl (Error ''Prisma schema file not found'')
             else parsePrismaSchema (readFile env schemaPath) schemaPath)
      else if orm = JStr ''mongoose'' then
        (case (if truthy (get options ''modelsPath'') then Inr (get options ''modelsPath'')
               else path_join env projectRoot ''models'') of
           Inl e \<Rightarrow> Inl e
         | Inr modelsPath \<Rightarrow>
             (case parseMongooseModels env modelsPath options of
                Inl e \<Rightarrow> Inl e
              | Inr models \<Rightarrow> Inr (JObj [(''models'', models), (''enums'', JArr [])])))
      else Inl (Error (''Unsupported ORM: '' @ to_str orm)))"

definition validateModels :: "jsval \<Rightarrow> error + jsval" where
  "validateModels models =
     (case models of
        JArr ms \<Rightarrow>
          (case map_res (\<lambda>model.
                  case validateSchema model of
                    Inl e \<Rightarrow> Inl e
                  | Inr v \<Rightarrow>
                      Inr (JObj [(''modelName'', get model ''modelName''),
                                 (''valid'', get v ''valid''),
                                 (''errors'', get v ''errors'')])) ms of
             Inl e \<Rightarrow> Inl e
           | Inr results \<Rightarrow>
               (let invalid = filter (\<lambda>r. \<not> truthy (get r ''valid'')) results in
                Inr (JObj [(''valid'', JBool (length invalid = 0)),
                           (''total'', JNum (int (length ms))),
                           (''invalid'', JNum (int (length invalid))),
                           (''errors'', JArr invalid)])))
      | _ \<Rightarrow> Inl TypeError)"

definition generateTypesForModels :: "jsval \<Rightarrow> jsval \<Rightarrow> error + jsval" where
  "generateTypesForModels models options =
     (case iter models of
        Inl e \<Rightarrow> Inl e
      | Inr ms \<Rightarrow>
          (case map_res (\<lambda>model.
                  case generateInterface model options of
                    Inl e \<Rightarrow> Inl e
                  | Inr code \<Rightarrow>
                      (case entries model of
                         Inl e \<Rightarrow> Inl e
                       | Inr kvs \<Rightarrow> Inr (JObj (obj_put ''generatedCode'' (JStr code) kvs)))) ms of
             Inl e \<Rightarrow> Inl e
           | Inr generated \<Rightarrow> Inr (JArr generated)))"

definition generateIndexFile :: "jsval \<Rightarrow> jsval \<Rightarrow> error + string" where
  "generateIndexFile modelNames enums0 =
     (let enums = dflt enums0 (JArr []) in
      case (if truthy enums \<and> (case get enums ''length'' of JNum n \<Rightarrow> n > 0 | _ \<Rightarrow> False)
            then (case enums of
                    JArr es \<Rightarrow>
                      (case map_res (\<lambda>e. if nullish e then Inl TypeError
                                           else Inr (get e ''name'')) es of
                         Inl e \<Rightarrow> Inl e
                       | Inr enumNames \<Rightarrow>
                           Inr [''export { '' @ js_join '', '' enumNames @ '' } from './enums';'', []])
                  | _ \<Rightarrow> Inl TypeError)
            else Inr []) of
        Inl e \<Rightarrow> Inl e
      | Inr enumLines \<Rightarrow>
          (case modelNames of
             JArr names \<Rightarrow>
               Inr (join NL
                 ([''/**'', '' * AUTO-GENERATED by type-bridge'', '' * Type exports'', '' */'', []]
                  @ enumLines
                  @ map (\<lambda>name. ''export type { '' @ to_str name @ '' } from './''
                           @ to_str name @ [CHR 0x27] @ '';'') names))
           | _ \<Rightarrow> Inl TypeError))"

text \<open>\<^verbatim>\<open>models.map(m => m.modelName)\<close>\<close>

definition modelNamesOf :: "jsval \<Rightarrow> error + jsval" where
  "modelNamesOf models =
     (case models of
        JArr ms \<Rightarrow>
          (case map_res (\<lambda>m. if nullish m then Inl TypeError else Inr (get m ''modelName'')) ms of
             Inl e \<Rightarrow> Inl e
           | Inr names \<Rightarrow> Inr (JArr names))
      | _ \<Rightarrow> Inl TypeError)"

text \<open>
  The body of the \<^verbatim>\<open>try\<close> block of \<open>generateTypes\<close>, in three parts: from the check
  of the write result to the end, the step that writes, and the steps before it. Each
  gives the value returned or the exception thrown, and the calls made to the writer.
\<close>

definition core_finish :: "core_env \<Rightarrow> jsval \<Rightarrow> jsval \<Rightarrow> jsval \<Rightarrow> jsval \<Rightarrow> jsval \<Rightarrow> jsval
    \<Rightarrow> jsval \<Rightarrow> write_call list \<Rightarrow> (error + jsval) \<times> write_call list" where
  "core_finish env orm models enums outputPath outputMode options writeResult calls =
     (if nullish writeResult then (Inl TypeError, calls)
      else if \<not> truthy (get writeResult ''success'') then
        (Inr (JObj [(''success'', JBool False),
                    (''error'', js_or (get writeResult ''error'') (JStr ''Failed to write files'')),
                    (''writeResult'', writeResult)]), calls)
      else case (if outputMode = JStr ''separate'' then Inr JNull
                 else (case generateTypeScriptFile (genReturned env) models
                              (JObj (obj_put ''enums'' enums
                                 (case options of JObj kvs \<Rightarrow> kvs | _ \<Rightarrow> []))) of
                         Inl e \<Rightarrow> Inl e
                       | Inr content \<Rightarrow> Inr (JStr content))) of
        Inl e \<Rightarrow> (Inl e, calls)
      | Inr generatedContent \<Rightarrow>
          (case modelNamesOf models of
             Inl e \<Rightarrow> (Inl e, calls)
           | Inr names \<Rightarrow>
               (Inr (JObj [(''success'', JBool True),
                           (''orm'', orm),
                           (''modelsCount'', get models ''length''),
                           (''outputPath'', outputPath),
                           (''models'', names),
                           (''generatedContent'', generatedContent)]), calls)))"

definition core_write :: "core_env \<Rightarrow> jsval \<Rightarrow> jsval \<Rightarrow> jsval \<Rightarrow> jsval \<Rightarrow> jsval \<Rightarrow> jsval
    \<Rightarrow> jsval \<Rightarrow> (error + jsval) \<times> write_call list" where
  "core_write env orm models enums generatedModels outputPath outputMode options =
     (if outputMode = JStr ''separate'' then
        (case writeTypesByModel env generatedModels outputPath options of
           Inl e \<Rightarrow> (Inl e, [WriteTypesByModel generatedModels outputPath options])
         | Inr writeResult \<Rightarrow>
             (case (case modelNamesOf models of
                      Inl e \<Rightarrow> Inl e
                    | Inr names \<Rightarrow>
                        (case generateIndexFile names JUndefined of
                           Inl e \<Rightarrow> Inl e
                         | Inr indexContent \<Rightarrow>
                             (case path_join env outputPath ''index.ts'' of
                                Inl e \<Rightarrow> Inl e
                              | Inr p \<Rightarrow> Inr (JStr indexContent, p)))) of
                Inl e \<Rightarrow> (Inl e, [WriteTypesByModel generatedModels outputPath options])
              | Inr ip \<Rightarrow>
                  (case writeSingleFile env (fst ip) (snd ip) options of
                     Inl e \<Rightarrow> (Inl e, [WriteTypesByModel generatedModels outputPath options,
                                       WriteSingleFile (fst ip) (snd ip) options])
                   | Inr r \<Rightarrow>
                       core_finish env orm models enums outputPath outputMode options writeResult
                         [WriteTypesByModel generatedModels outputPath options,
                          WriteSingleFile (fst ip) (snd ip) options])))
      else
        (case generateTypeScriptFile (genWritten env) models
                (JObj (obj_put ''enums'' enums (case options of JObj kvs \<Rightarrow> kvs | _ \<Rightarrow> []))) of
           Inl e \<Rightarrow> (Inl e, [])
         | Inr allTypes \<Rightarrow>
             if \<not> truthy outputPath then
               (Inr (JObj [(''success'', JBool False),
                           (''error'', JStr ''outputPath is required'')]), [])
             else
               (case (case outputPath of
                        JStr p \<Rightarrow> (if endsWith p ''.ts'' then Inr outputPath
                                    else path_join env outputPath ''index.ts'')
                      | _ \<Rightarrow> Inl TypeError) of
                  Inl e \<Rightarrow> (Inl e, [])
                | Inr finalOutputPath \<Rightarrow>
                    (case writeSingleFile env (JStr allTypes) finalOutputPath options of
                       Inl e \<Rightarrow> (Inl e, [WriteSingleFile (JStr allTypes) finalOutputPath options])
                     | Inr writeResult \<Rightarrow>
                         core_finish env orm models enums outputPath outputMode options
                           writeResult
                           [WriteSingleFile (JStr allTypes) finalOutputPath options]))))"

text \<open>
  \<open>parseSchemas\<close> is called twice with the same arguments, once for \<^verbatim>\<open>models\<close> and
  once for \<^verbatim>\<open>enums\<close>; with the outside world fixed in \<open>env\<close> both calls return the
  same.
\<close>

definition core_try :: "core_env \<Rightarrow> jsval \<Rightarrow> jsval \<Rightarrow> jsval \<Rightarrow> jsval
    \<Rightarrow> (error + jsval) \<times> write_call list" where
  "core_try env projectRoot outputPath outputMode options =
     (case detectORM env projectRoot of
        Inl e \<Rightarrow> (Inl e, [])
      | Inr orm \<Rightarrow>
          if \<not> truthy orm then
            (Inr (JObj [(''success'', JBool False),
                        (''error'', JStr ''No supported ORM detected. Please install Prisma or Mongoose.'')]),
             [])
          else
            (case parseSchemas env orm projectRoot options of
               Inl e \<Rightarrow> (Inl e, [])
             | Inr parsed \<Rightarrow>
                 if nullish parsed \<or> nullish (get parsed ''models'') then (Inl TypeError, [])
                 else if get (get parsed ''models'') ''length'' = JNum 0 then
                   (Inr (JObj [(''success'', JBool False),
                               (''error'', JStr ''No models found'')]), [])
                 else if nullish (get parsed ''enums'') then (Inl TypeError, [])
                 else
                   (case detectCircularReferences (get parsed ''models'') of
                      Inl e \<Rightarrow> (Inl e, [])
                    | Inr circularCheck \<Rightarrow>
                        (case markSelfReferences (get parsed ''models'') of
                           Inl e \<Rightarrow> (Inl e, [])
                         | Inr models \<Rightarrow>
                             (case validateModels models of
                                Inl e \<Rightarrow> (Inl e, [])
                              | Inr validation \<Rightarrow>
                                  if \<not> truthy (get validation ''valid'') then
                                    (Inr (JObj [(''success'', JBool False),
                                                (''error'', JStr ''Schema validation failed''),
                                                (''validation'', validation)]), [])
                                  else
                                    (case generateTypesForModels models
                                            (JObj (obj_put ''allModels'' models
                                               (case options of JObj kvs \<Rightarrow> kvs | _ \<Rightarrow> []))) of
                                       Inl e \<Rightarrow> (Inl e, [])
                                     | Inr generatedModels \<Rightarrow>
                                         core_write env orm models (get parsed ''enums'')
                                           generatedModels outputPath outputMode options))))))"

text \<open>
  \<open>generateTypes\<close> of the orchestrator. Destructuring a \<^verbatim>\<open>config\<close> that is
  \<^verbatim>\<open>null\<close> or \<^verbatim>\<open>undefined\<close> throws before the \<^verbatim>\<open>try\<close> block; every exception
  inside it becomes a failure result with the exception's message (its \<^verbatim>\<open>stack\<close>
  property, text of the engine, is left out). \<open>restOptions\<close> is the rest pattern
  \<^verbatim>\<open>...options\<close> of the destructuring.
\<close>

definition restOptions :: "jsval \<Rightarrow> jsval" where
  "restOptions config =
     JObj (filter
       (\<lambda>kv. fst kv \<noteq> ''projectRoot'' \<and> fst kv \<noteq> ''outputPath''
               \<and> fst kv \<noteq> ''outputMode'')
       (case entries config of Inr kvs \<Rightarrow> kvs | Inl e \<Rightarrow> []))"

definition generateTypes_core :: "core_env \<Rightarrow> jsval \<Rightarrow> error + jsval \<times> write_call list" where
  "generateTypes_core env config =
     (if nullish config then Inl TypeError
      else
        (let projectRoot = dflt (get config ''projectRoot'') (cwd env);
             outputPath = get config ''outputPath'';
             outputMode = dflt (get config ''outputMode'') (JStr ''single'');
             options = restOptions config
         in case core_try env projectRoot outputPath outputMode options of
              (Inl e, calls) \<Rightarrow>
                Inr (JObj [(''success'', JBool False), (''error'', JStr (message e))], calls)
            | (Inr result, calls) \<Rightarrow> Inr (result, calls)))"

text \<open>
  The test \<^verbatim>\<open>field.isReference && field.referenceTo\<close> by which the dependency analyzer
  takes a field for an edge of the reference graph.
\<close>

definition isReferenceField :: "jsval \<Rightarrow> bool" where
  "isReferenceField field =
     (truthy (get field ''isReference'') \<and> truthy (get field ''referenceTo''))"

section \<open>Properties of the normalizer\<close>

lemma js_or_idem: "js_or (js_or x d) d = js_or x d"
  by (simp add: js_or_def)

lemma js_or_self: "js_or x x = x"
  by (simp add: js_or_def)

lemma normalizeField_fixed:
  assumes "normalizeField f = Inr f'"
  shows "normalizeField f' = Inr f'"
proof -
  from assms have nn: "\<not> nullish f"
    by (auto simp: normalizeField_def split: if_splits)
  with assms show ?thesis
    by (auto simp: normalizeField_def js_or_idem)
qed

lemma map_normalizeField_fixed:
  "map_res normalizeField fs = Inr fs' \<Longrightarrow> map_res normalizeField fs' = Inr fs'"
proof (induction fs arbitrary: fs')
  case Nil
  then show ?case by simp
next
  case (Cons f fs)
  then show ?case
    by (auto split: sum.splits dest: normalizeField_fixed)
qed

lemma normalizeModel_fixed:
  assumes "normalizeModel m = Inr m'"
  shows "normalizeModel m' = Inr m'"
proof -
  from assms obtain fs fs' where
    fs: "js_or (get m ''fields'') (JArr []) = JArr fs" and
    fs': "map_res normalizeField fs = Inr fs'" and
    m': "m' = JObj
               [(''modelName'', get m ''modelName''),
                (''tableName'', js_or (get m ''tableName'') (get m ''modelName'')),
                (''fields'', JArr fs'),
                (''description'', js_or (get m ''description'') JNull),
                (''source'', js_or (get m ''source'') (JStr ''unknown'')),
                (''filePath'', js_or (get m ''filePath'') JNull)]"
    by (auto simp: normalizeModel_def split: if_splits jsval.splits sum.splits)
  have tn: "js_or (js_or (get m ''tableName'') (get m ''modelName'')) (get m ''modelName'')
            = js_or (get m ''tableName'') (get m ''modelName'')"
    by (simp add: js_or_def)
  have "js_or (get m' ''fields'') (JArr []) = JArr fs'"
    by (simp add: m' js_or_def)
  moreover have "map_res normalizeField fs' = Inr fs'"
    using fs' by (rule map_normalizeField_fixed)
  ultimately show ?thesis
    by (simp add: normalizeModel_def m' js_or_idem tn)
qed

text \<open>
  C8. Normalization is idempotent: a raw model that normalizes (no exception) normalizes
  to a fixed point of \<open>normalizeModel\<close>, and every raw field that normalizes does so to a
  fixed point of \<open>normalizeField\<close>.
\<close>

theorem normalize_idempotent:
  "(normalizeModel m = Inr m' \<longrightarrow> normalizeModel m' = Inr m') \<and>
   (normalizeField f = Inr f' \<longrightarrow> normalizeField f' = Inr f')"
  using normalizeModel_fixed normalizeField_fixed by blast

lemma normalizeField_Inr:
  assumes "normalizeField f = Inr f'"
  shows "f' = JObj
        [(''name'', get f ''name''),
         (''type'', js_or (get f ''type'') (JStr STANDARD_TYPES_ANY)),
         (''required'', JBool (get f ''required'' \<noteq> JBool False)),
         (''isPrimary'', js_or (get f ''isPrimary'') (JBool False)),
         (''isArray'', js_or (get f ''isArray'') (JBool False)),
         (''arrayOf'', js_or (get f ''arrayOf'') JNull),
         (''isEnum'', js_or (get f ''isEnum'') (JBool False)),
         (''enumValues'', js_or (get f ''enumValues'') JNull),
         (''isReference'', js_or (get f ''isReference'') (JBool False)),
         (''referenceTo'', js_or (get f ''referenceTo'') JNull),
         (''defaultValue'', js_or (get f ''defaultValue'') JNull),
         (''description'', js_or (get f ''description'') JNull),
         (''nested'', js_or (get f ''nested'') JNull)]"
  using assms by (simp add: normalizeField_def split: if_splits)

theorem normalize_idempotent_witness:
  "normalizeModel (JObj [(''modelName'', JStr ''User''),
                         (''fields'', JArr [JObj [(''name'', JStr ''age''),
                                                  (''type'', JStr ''number''),
                                                  (''required'', JBool False)]])])
     = Inr (JObj
         [(''modelName'', JStr ''User''), (''tableName'', JStr ''User''),
          (''fields'', JArr [JObj
             [(''name'', JStr ''age''), (''type'', JStr ''number''),
              (''required'', JBool False), (''isPrimary'', JBool False),
              (''isArray'', JBool False), (''arrayOf'', JNull),
              (''isEnum'', JBool False), (''enumValues'', JNull),
              (''isReference'', JBool False), (''referenceTo'', JNull),
              (''defaultValue'', JNull), (''description'', JNull),
              (''nested'', JNull)]]),
          (''description'', JNull), (''source'', JStr ''unknown''),
          (''filePath'', JNull)])
   \<and> normalizeModel (JObj
         [(''modelName'', JStr ''User''), (''tableName'', JStr ''User''),
          (''fields'', JArr [JObj
             [(''name'', JStr ''age''), (''type'', JStr ''number''),
              (''required'', JBool False), (''isPrimary'', JBool False),
              (''isArray'', JBool False), (''arrayOf'', JNull),
              (''isEnum'', JBool False), (''enumValues'', JNull),
              (''isReference'', JBool False), (''referenceTo'', JNull),
              (''defaultValue'', JNull), (''description'', JNull),
              (''nested'', JNull)]]),
          (''description'', JNull), (''source'', JStr ''unknown''),
          (''filePath'', JNull)])
     = Inr (JObj
         [(''modelName'', JStr ''User''), (''tableName'', JStr ''User''),
          (''fields'', JArr [JObj
             [(''name'', JStr ''age''), (''type'', JStr ''number''),
              (''required'', JBool False), (''isPrimary'', JBool False),
              (''isArray'', JBool False), (''arrayOf'', JNull),
              (''isEnum'', JBool False), (''enumValues'', JNull),
              (''isReference'', JBool False), (''referenceTo'', JNull),
              (''defaultValue'', JNull), (''description'', JNull),
              (''nested'', JNull)]]),
          (''description'', JNull), (''source'', JStr ''unknown''),
          (''filePath'', JNull)])
   \<and> normalizeField (JObj [(''name'', JStr ''email'')])
     = Inr (JObj
         [(''name'', JStr ''email''), (''type'', JStr ''any''),
          (''required'', JBool True), (''isPrimary'', JBool False),
          (''isArray'', JBool False), (''arrayOf'', JNull),
          (''isEnum'', JBool False), (''enumValues'', JNull),
          (''isReference'', JBool False), (''referenceTo'', JNull),
          (''defaultValue'', JNull), (''description'', JNull),
          (''nested'', JNull)])
   \<and> normalizeField (JObj
         [(''name'', JStr ''email''), (''type'', JStr ''any''),
          (''required'', JBool True), (''isPrimary'', JBool False),
          (''isArray'', JBool False), (''arrayOf'', JNull),
          (''isEnum'', JBool False), (''enumValues'', JNull),
          (''isReference'', JBool False), (''referenceTo'', JNull),
          (''defaultValue'', JNull), (''description'', JNull),
          (''nested'', JNull)])
     = Inr (JObj
         [(''name'', JStr ''email''), (''type'', JStr ''any''),
          (''required'', JBool True), (''isPrimary'', JBool False),
          (''isArray'', JBool False), (''arrayOf'', JNull),
          (''isEnum'', JBool False), (''enumValues'', JNull),
          (''isReference'', JBool False), (''referenceTo'', JNull),
          (''defaultValue'', JNull), (''description'', JNull),
          (''nested'', JNull)])"
proof -
  let ?m = "JObj [(''modelName'', JStr ''User''),
                  (''fields'', JArr [JObj [(''name'', JStr ''age''),
                                           (''type'', JStr ''number''),
                                           (''required'', JBool False)]])]"
  let ?f = "JObj [(''name'', JStr ''email'')]"
  let ?f' = "JObj
         [(''name'', JStr ''email''), (''type'', JStr ''any''),
          (''required'', JBool True), (''isPrimary'', JBool False),
          (''isArray'', JBool False), (''arrayOf'', JNull),
          (''isEnum'', JBool False), (''enumValues'', JNull),
          (''isReference'', JBool False), (''referenceTo'', JNull),
          (''defaultValue'', JNull), (''description'', JNull),
          (''nested'', JNull)]"
  let ?m' = "JObj
         [(''modelName'', JStr ''User''), (''tableName'', JStr ''User''),
          (''fields'', JArr [JObj
             [(''name'', JStr ''age''), (''type'', JStr ''number''),
              (''required'', JBool False), (''isPrimary'', JBool False),
              (''isArray'', JBool False), (''arrayOf'', JNull),
              (''isEnum'', JBool False), (''enumValues'', JNull),
              (''isReference'', JBool False), (''referenceTo'', JNull),
              (''defaultValue'', JNull), (''description'', JNull),
              (''nested'', JNull)]]),
          (''description'', JNull), (''source'', JStr ''unknown''),
          (''filePath'', JNull)]"
  have m: "normalizeModel ?m = Inr ?m'"
    by (simp add: normalizeModel_def normalizeField_def js_or_def STANDARD_TYPES_ANY_def)
  have f: "normalizeField ?f = Inr ?f'"
    by (simp add: normalizeField_def js_or_def STANDARD_TYPES_ANY_def)
  have "normalizeModel ?m' = Inr ?m' \<and> normalizeField ?f' = Inr ?f'"
    using normalize_idempotent [of ?m ?m' ?f ?f'] by (simp only: m f simp_thms)
  with m f show ?thesis by (simp only: simp_thms)
qed

text \<open>
  C10 (as amended). \<open>normalizeField\<close> fills every omitted attribute of the field itself
  with its default: \<^verbatim>\<open>type\<close> with \<^verbatim>\<open>'any'\<close>, \<^verbatim>\<open>required\<close> with \<^verbatim>\<open>true\<close>, the
  flags with \<^verbatim>\<open>false\<close>, the others with \<^verbatim>\<open>null\<close>. A \<^verbatim>\<open>nested\<close> list that is
  present is returned as it is: the fields inside it are not normalized.
\<close>

theorem normalizeField_defaults:
  assumes "normalizeField f = Inr f'"
  shows "get f' ''name'' = get f ''name'' \<and>
         (get f ''type'' = JUndefined \<longrightarrow> get f' ''type'' = JStr ''any'') \<and>
         (get f ''required'' = JUndefined \<longrightarrow> get f' ''required'' = JBool True) \<and>
         (get f ''isPrimary'' = JUndefined \<longrightarrow> get f' ''isPrimary'' = JBool False) \<and>
         (get f ''isArray'' = JUndefined \<longrightarrow> get f' ''isArray'' = JBool False) \<and>
         (get f ''arrayOf'' = JUndefined \<longrightarrow> get f' ''arrayOf'' = JNull) \<and>
         (get f ''isEnum'' = JUndefined \<longrightarrow> get f' ''isEnum'' = JBool False) \<and>
         (get f ''enumValues'' = JUndefined \<longrightarrow> get f' ''enumValues'' = JNull) \<and>
         (get f ''isReference'' = JUndefined \<longrightarrow> get f' ''isReference'' = JBool False) \<and>
         (get f ''referenceTo'' = JUndefined \<longrightarrow> get f' ''referenceTo'' = JNull) \<and>
         (get f ''defaultValue'' = JUndefined \<longrightarrow> get f' ''defaultValue'' = JNull) \<and>
         (get f ''description'' = JUndefined \<longrightarrow> get f' ''description'' = JNull) \<and>
         (get f ''nested'' = JUndefined \<longrightarrow> get f' ''nested'' = JNull) \<and>
         (truthy (get f ''nested'') \<longrightarrow> get f' ''nested'' = get f ''nested'')"
  unfolding normalizeField_Inr [OF assms]
  by (simp add: js_or_def STANDARD_TYPES_ANY_def)

theorem normalizeField_defaults_witness:
  "normalizeField (JObj [(''name'', JStr ''profile''),
                         (''nested'', JArr [JObj [(''name'', JStr ''bio'')]])])
     = Inr (JObj
         [(''name'', JStr ''profile''), (''type'', JStr ''any''),
          (''required'', JBool True), (''isPrimary'', JBool False),
          (''isArray'', JBool False), (''arrayOf'', JNull),
          (''isEnum'', JBool False), (''enumValues'', JNull),
          (''isReference'', JBool False), (''referenceTo'', JNull),
          (''defaultValue'', JNull), (''description'', JNull),
          (''nested'', JArr [JObj [(''name'', JStr ''bio'')]])])
   \<and> get (JObj
         [(''name'', JStr ''profile''), (''type'', JStr ''any''),
          (''required'', JBool True), (''isPrimary'', JBool False),
          (''isArray'', JBool False), (''arrayOf'', JNull),
          (''isEnum'', JBool False), (''enumValues'', JNull),
          (''isReference'', JBool False), (''referenceTo'', JNull),
          (''defaultValue'', JNull), (''description'', JNull),
          (''nested'', JArr [JObj [(''name'', JStr ''bio'')]])]) ''required'' = JBool True
   \<and> get (JObj
         [(''name'', JStr ''profile''), (''type'', JStr ''any''),
          (''required'', JBool True), (''isPrimary'', JBool False),
          (''isArray'', JBool False), (''arrayOf'', JNull),
          (''isEnum'', JBool False), (''enumValues'', JNull),
          (''isReference'', JBool False), (''referenceTo'', JNull),
          (''defaultValue'', JNull), (''description'', JNull),
          (''nested'', JArr [JObj [(''name'', JStr ''bio'')]])]) ''nested''
       = JArr [JObj [(''name'', JStr ''bio'')]]"
proof -
  let ?f = "JObj [(''name'', JStr ''profile''),
                  (''nested'', JArr [JObj [(''name'', JStr ''bio'')]])]"
  let ?f' = "JObj
         [(''name'', JStr ''profile''), (''type'', JStr ''any''),
          (''required'', JBool True), (''isPrimary'', JBool False),
          (''isArray'', JBool False), (''arrayOf'', JNull),
          (''isEnum'', JBool False), (''enumValues'', JNull),
          (''isReference'', JBool False), (''referenceTo'', JNull),
          (''defaultValue'', JNull), (''description'', JNull),
          (''nested'', JArr [JObj [(''name'', JStr ''bio'')]])]"
  have f: "normalizeField ?f = Inr ?f'"
    by (simp add: normalizeField_def js_or_def STANDARD_TYPES_ANY_def)
  have u: "get ?f ''required'' = JUndefined" and t: "truthy (get ?f ''nested'')"
    by simp_all
  have "get ?f' ''required'' = JBool True \<and> get ?f' ''nested'' = get ?f ''nested''"
    using normalizeField_defaults [OF f] by (simp only: u t simp_thms)
  then show ?thesis using f by simp
qed

text \<open>
  C10, counterexample. The raw field \<^verbatim>\<open>profile\<close> has the nested field \<^verbatim>\<open>bio\<close>, which
  omits \<^verbatim>\<open>type\<close> and \<^verbatim>\<open>required\<close>. After normalization \<^verbatim>\<open>bio\<close> is unchanged: it
  still has neither attribute, and it is not what \<open>normalizeField\<close> makes of it.
\<close>

theorem normalizeField_nested_counterexample:
  "normalizeField (JObj [(''name'', JStr ''profile''), (''type'', JStr ''object''),
                         (''nested'', JArr [JObj [(''name'', JStr ''bio'')]])])
     = Inr (JObj
         [(''name'', JStr ''profile''), (''type'', JStr ''object''),
          (''required'', JBool True), (''isPrimary'', JBool False),
          (''isArray'', JBool False), (''arrayOf'', JNull),
          (''isEnum'', JBool False), (''enumValues'', JNull),
          (''isReference'', JBool False), (''referenceTo'', JNull),
          (''defaultValue'', JNull), (''description'', JNull),
          (''nested'', JArr [JObj [(''name'', JStr ''bio'')]])])
   \<and> get (JObj [(''name'', JStr ''bio'')]) ''required'' = JUndefined
   \<and> get (JObj [(''name'', JStr ''bio'')]) ''type'' = JUndefined
   \<and> normalizeField (JObj [(''name'', JStr ''bio'')]) \<noteq> Inr (JObj [(''name'', JStr ''bio'')])"
  by (simp add: normalizeField_def js_or_def STANDARD_TYPES_ANY_def)

section \<open>Properties of the Prisma adapter\<close>

text \<open>
  C1. The claim says that a Prisma field with \<^verbatim>\<open>@id\<close> is required and rendered without
  \<^verbatim>\<open>?\<close> and without \<^verbatim>\<open>| null\<close>. The code computes
  \<^verbatim>\<open>required: !optional && !isPrimary\<close>, which is \<^verbatim>\<open>false\<close> for every \<^verbatim>\<open>@id\<close>
  line: the line \<^verbatim>\<open>id String @id @default(cuid())\<close> is parsed with
  \<^verbatim>\<open>required = false\<close>, stays so through \<open>normalizeModel\<close>, and is rendered as
  \<^verbatim>\<open>id?: string | null;\<close>.
\<close>

theorem prisma_id_field_rendered_optional:
  "parseField ''id String @id @default(cuid())'' =
     JObj [(''name'', JStr ''id''), (''type'', JStr ''string''),
           (''required'', JBool False), (''isPrimary'', JBool True),
           (''isArray'', JBool False), (''arrayOf'', JNull),
           (''isReference'', JBool False), (''referenceTo'', JNull),
           (''defaultValue'', JStr ''cuid(''), (''isUnique'', JBool False)]
   \<and> parseModel (''model User {'' @ NL @ ''  id String @id @default(cuid())'' @ NL @ ''}'')
         (JStr ''schema.prisma'') =
     Inr (JObj
       [(''modelName'', JStr ''User''), (''tableName'', JStr ''User''),
        (''fields'', JArr [JObj
           [(''name'', JStr ''id''), (''type'', JStr ''string''),
            (''required'', JBool False), (''isPrimary'', JBool True),
            (''isArray'', JBool False), (''arrayOf'', JNull),
            (''isEnum'', JBool False), (''enumValues'', JNull),
            (''isReference'', JBool False), (''referenceTo'', JNull),
            (''defaultValue'', JStr ''cuid(''), (''description'', JNull),
            (''nested'', JNull)]]),
        (''description'', JNull), (''source'', JStr ''prisma''),
        (''filePath'', JStr ''schema.prisma'')])
   \<and> generateInterface (JObj
       [(''modelName'', JStr ''User''), (''tableName'', JStr ''User''),
        (''fields'', JArr [JObj
           [(''name'', JStr ''id''), (''type'', JStr ''string''),
            (''required'', JBool False), (''isPrimary'', JBool True),
            (''isArray'', JBool False), (''arrayOf'', JNull),
            (''isEnum'', JBool False), (''enumValues'', JNull),
            (''isReference'', JBool False), (''referenceTo'', JNull),
            (''defaultValue'', JStr ''cuid(''), (''description'', JNull),
            (''nested'', JNull)]]),
        (''description'', JNull), (''source'', JStr ''prisma''),
        (''filePath'', JStr ''schema.prisma'')]) JUndefined =
     Inr (''/** Auto-generated from prisma schema */'' @ NL
          @ ''export interface User {'' @ NL
          @ ''  id?: string | null;'' @ NL
          @ ''}'')"
  by code_simp

text \<open>
  C5. The claim says that a model block is matched up to its balanced closing brace. The
  regular expression \<^verbatim>\<open>/model\s+(\w+)\s*\{[\s\S]*?\}/g\<close> stops at the first
  \<^verbatim>\<open>}\<close>: in the schema below the \<^verbatim>\<open>{}\<close> inside \<^verbatim>\<open>@default("{}")\<close> ends the block,
  \<open>parseModel\<close> drops the cut line as the block's last line, and the model is left with
  the field \<^verbatim>\<open>id\<close> alone, without \<^verbatim>\<open>meta\<close> and \<^verbatim>\<open>title\<close>.
\<close>

theorem prisma_block_truncated_at_inner_brace:
  "matchBlocks ''model''
     (''model Doc {'' @ NL @ ''  id String'' @ NL @ ''  meta Json @default(\"{}\")'' @ NL
      @ ''  title String'' @ NL @ ''}'' @ NL)
     = [''model Doc {'' @ NL @ ''  id String'' @ NL @ ''  meta Json @default(\"{}'']
   \<and> parsePrismaSchema
       (Inr (''model Doc {'' @ NL @ ''  id String'' @ NL @ ''  meta Json @default(\"{}\")'' @ NL
             @ ''  title String'' @ NL @ ''}'' @ NL))
       (JStr ''schema.prisma'') =
     Inr (JObj
       [(''models'', JArr [JObj
           [(''modelName'', JStr ''Doc''), (''tableName'', JStr ''Doc''),
            (''fields'', JArr [JObj
               [(''name'', JStr ''id''), (''type'', JStr ''string''),
                (''required'', JBool True), (''isPrimary'', JBool False),
                (''isArray'', JBool False), (''arrayOf'', JNull),
                (''isEnum'', JBool False), (''enumValues'', JNull),
                (''isReference'', JBool False), (''referenceTo'', JNull),
                (''defaultValue'', JNull), (''description'', JNull),
                (''nested'', JNull)]]),
            (''description'', JNull), (''source'', JStr ''prisma''),
            (''filePath'', JStr ''schema.prisma'')]]),
        (''enums'', JArr [])])"
  by code_simp

text \<open>
  Parentheses do not end a block: only \<^verbatim>\<open>}\<close> does. With nested parentheses inside
  \<^verbatim>\<open>@default(...)\<close> and no brace inside the block, the whole block is matched and both
  fields are parsed (the default value itself is cut at the first \<^verbatim>\<open>)\<close>).
\<close>

lemma prisma_block_with_nested_parentheses:
  "matchBlocks ''model''
     (''model Doc {'' @ NL @ ''  id String @default(dbgenerated(\"gen_random_uuid()\"))'' @ NL
      @ ''  title String'' @ NL @ ''}'' @ NL)
     = [''model Doc {'' @ NL @ ''  id String @default(dbgenerated(\"gen_random_uuid()\"))'' @ NL
        @ ''  title String'' @ NL @ ''}'']
   \<and> parsePrismaSchema
       (Inr (''model Doc {'' @ NL
             @ ''  id String @default(dbgenerated(\"gen_random_uuid()\"))'' @ NL
             @ ''  title String'' @ NL @ ''}'' @ NL))
       (JStr ''schema.prisma'') =
     Inr (JObj
       [(''models'', JArr [JObj
           [(''modelName'', JStr ''Doc''), (''tableName'', JStr ''Doc''),
            (''fields'', JArr
              [JObj
                [(''name'', JStr ''id''), (''type'', JStr ''string''),
                 (''required'', JBool True), (''isPrimary'', JBool False),
                 (''isArray'', JBool False), (''arrayOf'', JNull),
                 (''isEnum'', JBool False), (''enumValues'', JNull),
                 (''isReference'', JBool False), (''referenceTo'', JNull),
                 (''defaultValue'', JStr ''dbgenerated(\"gen_random_uuid(''),
                 (''description'', JNull), (''nested'', JNull)],
               JObj
                [(''name'', JStr ''title''), (''type'', JStr ''string''),
                 (''required'', JBool True), (''isPrimary'', JBool False),
                 (''isArray'', JBool False), (''arrayOf'', JNull),
                 (''isEnum'', JBool False), (''enumValues'', JNull),
                 (''isReference'', JBool False), (''referenceTo'', JNull),
                 (''defaultValue'', JNull), (''description'', JNull),
                 (''nested'', JNull)]]),
            (''description'', JNull), (''source'', JStr ''prisma''),
            (''filePath'', JStr ''schema.prisma'')]]),
        (''enums'', JArr [])])"
  by code_simp

section \<open>Properties of the Mongoose adapter\<close>

text \<open>
  C2. The claim says that a descriptor with both \<^verbatim>\<open>type\<close> and \<^verbatim>\<open>enum\<close> is an enum
  field rendered as \<^verbatim>\<open>'x' | 'y'\<close>. \<open>extractFieldType\<close> tests \<^verbatim>\<open>fieldDef.type\<close> first
  and returns from that branch, so the \<^verbatim>\<open>enum\<close> test is reached only by descriptors
  without \<^verbatim>\<open>type\<close>: for \<^verbatim>\<open>{type: String, enum: ['x','y'], default: 'x'}\<close> the type
  info has no \<^verbatim>\<open>isEnum\<close>, the field has \<^verbatim>\<open>isEnum = false\<close> and
  \<^verbatim>\<open>enumValues = null\<close>, and it is rendered as \<^verbatim>\<open>role?: string | null;\<close>.
\<close>

theorem mongoose_type_and_enum_not_enum:
  "extractFieldType (JObj [(''type'', JFun ''String''),
                           (''enum'', JArr [JStr ''x'', JStr ''y'']),
                           (''default'', JStr ''x'')])
     = JObj [(''type'', JStr ''string''), (''isReference'', JBool False)]
   \<and> parseSchemaFields
       (JObj [(''role'', JObj [(''type'', JFun ''String''),
                               (''enum'', JArr [JStr ''x'', JStr ''y'']),
                               (''default'', JStr ''x'')])]) JUndefined
     = Inr [JObj
         [(''name'', JStr ''role''), (''type'', JStr ''string''),
          (''required'', JBool False), (''isArray'', JBool False),
          (''arrayOf'', JNull), (''isReference'', JBool False),
          (''referenceTo'', JNull), (''isEnum'', JBool False),
          (''isEnumArray'', JUndefined), (''enumValues'', JNull),
          (''defaultValue'', JStr ''x''), (''isUnique'', JBool False),
          (''nested'', JNull)]]
   \<and> (case parseMongooseModel
         (JObj [(''modelName'', JStr ''User''),
                (''schema'', JObj
                   [(''obj'', JObj [(''role'', JObj [(''type'', JFun ''String''),
                                                    (''enum'', JArr [JStr ''x'', JStr ''y'']),
                                                    (''default'', JStr ''x'')])]),
                    (''paths'', JObj [])])])
         (JStr ''models/User.js'') of
         Inl e \<Rightarrow> Inl e
       | Inr model \<Rightarrow> generateInterface model JUndefined)
     = Inr (''/** Auto-generated from mongoose schema */'' @ NL
            @ ''export interface User {'' @ NL
            @ ''  role?: string | null;'' @ NL
            @ ''}'')"
  by code_simp

section \<open>Properties of the dependency analyzer\<close>

text \<open>
  C3. The claim says that a direct self-loop is never reported as a circular path. The
  guard in \<open>hasCycle\<close> that lets a self-reference pass asks for an empty path, and
  \<open>detectCircularReferences\<close> starts every search with the path
  \<^verbatim>\<open>[model.modelName]\<close>, so the guard never holds there: for the model
  \<^verbatim>\<open>Category\<close> with the field \<^verbatim>\<open>parent Category?\<close> the path
  \<^verbatim>\<open>Category -> Category\<close> is reported.
\<close>

theorem self_loop_reported_as_circular:
  "parseModel (''model Category {'' @ NL @ ''  name String'' @ NL @ ''  parent Category?'' @ NL @ ''}'')
       (JStr ''schema.prisma'') =
     Inr (JObj
       [(''modelName'', JStr ''Category''), (''tableName'', JStr ''Category''),
        (''fields'', JArr
          [JObj
            [(''name'', JStr ''name''), (''type'', JStr ''string''),
             (''required'', JBool True), (''isPrimary'', JBool False),
             (''isArray'', JBool False), (''arrayOf'', JNull),
             (''isEnum'', JBool False), (''enumValues'', JNull),
             (''isReference'', JBool False), (''referenceTo'', JNull),
             (''defaultValue'', JNull), (''description'', JNull),
             (''nested'', JNull)],
           JObj
            [(''name'', JStr ''parent''), (''type'', JStr ''Category''),
             (''required'', JBool False), (''isPrimary'', JBool False),
             (''isArray'', JBool False), (''arrayOf'', JNull),
             (''isEnum'', JBool False), (''enumValues'', JNull),
             (''isReference'', JBool True), (''referenceTo'', JStr ''Category''),
             (''defaultValue'', JNull), (''description'', JNull),
             (''nested'', JNull)]]),
        (''description'', JNull), (''source'', JStr ''prisma''),
        (''filePath'', JStr ''schema.prisma'')])
   \<and> detectCircularReferences (JArr [JObj
       [(''modelName'', JStr ''Category''), (''tableName'', JStr ''Category''),
        (''fields'', JArr
          [JObj
            [(''name'', JStr ''name''), (''type'', JStr ''string''),
             (''required'', JBool True), (''isPrimary'', JBool False),
             (''isArray'', JBool False), (''arrayOf'', JNull),
             (''isEnum'', JBool False), (''enumValues'', JNull),
             (''isReference'', JBool False), (''referenceTo'', JNull),
             (''defaultValue'', JNull), (''description'', JNull),
             (''nested'', JNull)],
           JObj
            [(''name'', JStr ''parent''), (''type'', JStr ''Category''),
             (''required'', JBool False), (''isPrimary'', JBool False),
             (''isArray'', JBool False), (''arrayOf'', JNull),
             (''isEnum'', JBool False), (''enumValues'', JNull),
             (''isReference'', JBool True), (''referenceTo'', JStr ''Category''),
             (''defaultValue'', JNull), (''description'', JNull),
             (''nested'', JNull)]]),
        (''description'', JNull), (''source'', JStr ''prisma''),
        (''filePath'', JStr ''schema.prisma'')]])
     = Inr (JObj
         [(''hasCircular'', JBool True),
          (''circularPaths'', JArr [JStr ''Category -> Category''])])"
  by code_simp

section \<open>Shape of array fields\<close>

lemma parseField_shape:
  "parseField line = JNull \<or>
   (\<exists>name ty req prim arr ao r b dv u.
      parseField line = JObj
        [(''name'', JStr name), (''type'', JStr ty), (''required'', JBool req),
         (''isPrimary'', JBool prim), (''isArray'', JBool arr), (''arrayOf'', ao),
         (''isReference'', JBool (r \<and> \<not> arr)),
         (''referenceTo'', if r \<and> \<not> arr then JStr b else JNull),
         (''defaultValue'', dv), (''isUnique'', JBool u)])"
proof (cases "trim line = [] \<or> startsWith (trim line) ''//'' \<or> startsWith (trim line) ''@@''")
  case True
  then show ?thesis by (simp add: parseField_def Let_def)
next
  case False
  show ?thesis
  proof (cases "matchField (trim line)")
    case None
    with False show ?thesis by (simp add: parseField_def Let_def)
  next
    case (Some m)
    obtain name typeStr optional attributes where m: "m = (name, typeStr, optional, attributes)"
      by (cases m) auto
    have "\<exists>name ty req prim arr ao r b dv u.
      parseField line = JObj
        [(''name'', JStr name), (''type'', JStr ty), (''required'', JBool req),
         (''isPrimary'', JBool prim), (''isArray'', JBool arr), (''arrayOf'', ao),
         (''isReference'', JBool (r \<and> \<not> arr)),
         (''referenceTo'', if r \<and> \<not> arr then JStr b else JNull),
         (''defaultValue'', dv), (''isUnique'', JBool u)]"
      using False Some m
      by (simp add: parseField_def Let_def del: map_of_eq_None_iff)
    then show ?thesis ..
  qed
qed

lemma extractFieldType_array:
  "extractFieldType (JArr (first # rest)) =
     JObj [(''type'', JStr STANDARD_TYPES_ARRAY),
           (''isArray'', JBool True),
           (''arrayOf'', get (extractFieldType first) ''type''),
           (''isReference'', get (extractFieldType first) ''isReference''),
           (''referenceTo'', get (extractFieldType first) ''referenceTo'')]"
  by (subst extractFieldType.simps) (simp add: Let_def)

text \<open>
  C6 (as amended). A field produced by the Prisma adapter and normalized that is an array
  has \<^verbatim>\<open>isReference = false\<close> and \<^verbatim>\<open>referenceTo = null\<close>. In the Mongoose adapter
  the type info of an array takes \<^verbatim>\<open>isReference\<close> and \<^verbatim>\<open>referenceTo\<close> from its first
  element, so an array of references is itself marked as a reference.
\<close>

theorem array_field_reference_shape:
  "(parseField line = f \<and> normalizeField f = Inr f' \<and> truthy (get f' ''isArray'')
      \<longrightarrow> get f' ''isReference'' = JBool False \<and> get f' ''referenceTo'' = JNull)
   \<and> get (extractFieldType (JArr (first # rest))) ''isArray'' = JBool True
   \<and> get (extractFieldType (JArr (first # rest))) ''isReference''
       = get (extractFieldType first) ''isReference''
   \<and> get (extractFieldType (JArr (first # rest))) ''referenceTo''
       = get (extractFieldType first) ''referenceTo''"
proof -
  have P: "parseField line = f \<and> normalizeField f = Inr f' \<and> truthy (get f' ''isArray'')
      \<longrightarrow> get f' ''isReference'' = JBool False \<and> get f' ''referenceTo'' = JNull"
  proof (intro impI, elim conjE)
    assume pf: "parseField line = f" and nf: "normalizeField f = Inr f'"
      and arr: "truthy (get f' ''isArray'')"
    from nf have "f \<noteq> JNull"
      by (auto simp: normalizeField_def split: if_splits)
    with parseField_shape [of line] have "\<exists>name ty req prim arr ao r b dv u.
      f = JObj
        [(''name'', JStr name), (''type'', JStr ty), (''required'', JBool req),
         (''isPrimary'', JBool prim), (''isArray'', JBool arr), (''arrayOf'', ao),
         (''isReference'', JBool (r \<and> \<not> arr)),
         (''referenceTo'', if r \<and> \<not> arr then JStr b else JNull),
         (''defaultValue'', dv), (''isUnique'', JBool u)]"
      unfolding pf by (elim disjE) (simp_all only: simp_thms)
    then obtain name ty req prim arr ao r b dv u where
      f: "f = JObj
        [(''name'', JStr name), (''type'', JStr ty), (''required'', JBool req),
         (''isPrimary'', JBool prim), (''isArray'', JBool arr), (''arrayOf'', ao),
         (''isReference'', JBool (r \<and> \<not> arr)),
         (''referenceTo'', if r \<and> \<not> arr then JStr b else JNull),
         (''defaultValue'', dv), (''isUnique'', JBool u)]"
      by (elim exE)
    from arr have "arr"
      unfolding normalizeField_Inr [OF nf] f by (simp add: js_or_def split: if_splits)
    then show "get f' ''isReference'' = JBool False \<and> get f' ''referenceTo'' = JNull"
      unfolding normalizeField_Inr [OF nf] f by (simp add: js_or_def)
  qed
  have M1: "get (extractFieldType (JArr (first # rest))) ''isArray'' = JBool True"
    and M2: "get (extractFieldType (JArr (first # rest))) ''isReference''
       = get (extractFieldType first) ''isReference''"
    and M3: "get (extractFieldType (JArr (first # rest))) ''referenceTo''
       = get (extractFieldType first) ''referenceTo''"
    by (simp_all add: extractFieldType_array)
  show ?thesis
    by (rule conjI [OF P conjI [OF M1 conjI [OF M2 M3]]])
qed

theorem array_field_reference_shape_witness:
  "parseField ''  posts Post[]'' =
     JObj [(''name'', JStr ''posts''), (''type'', JStr ''array''),
           (''required'', JBool True), (''isPrimary'', JBool False),
           (''isArray'', JBool True), (''arrayOf'', JStr ''Post''),
           (''isReference'', JBool False), (''referenceTo'', JNull),
           (''defaultValue'', JNull), (''isUnique'', JBool False)]
   \<and> normalizeField (JObj [(''name'', JStr ''posts''), (''type'', JStr ''array''),
           (''required'', JBool True), (''isPrimary'', JBool False),
           (''isArray'', JBool True), (''arrayOf'', JStr ''Post''),
           (''isReference'', JBool False), (''referenceTo'', JNull),
           (''defaultValue'', JNull), (''isUnique'', JBool False)]) =
     Inr (JObj
           [(''name'', JStr ''posts''), (''type'', JStr ''array''),
            (''required'', JBool True), (''isPrimary'', JBool False),
            (''isArray'', JBool True), (''arrayOf'', JStr ''Post''),
            (''isEnum'', JBool False), (''enumValues'', JNull),
            (''isReference'', JBool False), (''referenceTo'', JNull),
            (''defaultValue'', JNull), (''description'', JNull),
            (''nested'', JNull)])
   \<and> truthy (get (JObj
           [(''name'', JStr ''posts''), (''type'', JStr ''array''),
            (''required'', JBool True), (''isPrimary'', JBool False),
            (''isArray'', JBool True), (''arrayOf'', JStr ''Post''),
            (''isEnum'', JBool False), (''enumValues'', JNull),
            (''isReference'', JBool False), (''referenceTo'', JNull),
            (''defaultValue'', JNull), (''description'', JNull),
            (''nested'', JNull)]) ''isArray'')
   \<and> get (JObj
           [(''name'', JStr ''posts''), (''type'', JStr ''array''),
            (''required'', JBool True), (''isPrimary'', JBool False),
            (''isArray'', JBool True), (''arrayOf'', JStr ''Post''),
            (''isEnum'', JBool False), (''enumValues'', JNull),
            (''isReference'', JBool False), (''referenceTo'', JNull),
            (''defaultValue'', JNull), (''description'', JNull),
            (''nested'', JNull)]) ''isReference'' = JBool False
   \<and> get (extractFieldType (JArr [JObj [(''type'', JStr ''ObjectId''), (''ref'', JStr ''Post'')]]))
         ''isReference''
       = get (extractFieldType (JObj [(''type'', JStr ''ObjectId''), (''ref'', JStr ''Post'')]))
           ''isReference''"
proof -
  let ?f = "JObj [(''name'', JStr ''posts''), (''type'', JStr ''array''),
           (''required'', JBool True), (''isPrimary'', JBool False),
           (''isArray'', JBool True), (''arrayOf'', JStr ''Post''),
           (''isReference'', JBool False), (''referenceTo'', JNull),
           (''defaultValue'', JNull), (''isUnique'', JBool False)]"
  let ?f' = "JObj
           [(''name'', JStr ''posts''), (''type'', JStr ''array''),
            (''required'', JBool True), (''isPrimary'', JBool False),
            (''isArray'', JBool True), (''arrayOf'', JStr ''Post''),
            (''isEnum'', JBool False), (''enumValues'', JNull),
            (''isReference'', JBool False), (''referenceTo'', JNull),
            (''defaultValue'', JNull), (''description'', JNull),
            (''nested'', JNull)]"
  have pf: "parseField ''  posts Post[]'' = ?f" by code_simp
  have nf: "normalizeField ?f = Inr ?f'" by code_simp
  have arr: "truthy (get ?f' ''isArray'')" by simp
  have "get ?f' ''isReference'' = JBool False
        \<and> get (extractFieldType (JArr [JObj [(''type'', JStr ''ObjectId''), (''ref'', JStr ''Post'')]]))
             ''isReference''
          = get (extractFieldType (JObj [(''type'', JStr ''ObjectId''), (''ref'', JStr ''Post'')]))
             ''isReference''"
    using array_field_reference_shape
      [of "''  posts Post[]''" ?f ?f' "JObj [(''type'', JStr ''ObjectId''), (''ref'', JStr ''Post'')]" "[]"]
    by (simp only: pf nf arr simp_thms)
  with pf nf arr show ?thesis by (simp only: simp_thms)
qed

text \<open>
  C6, counterexample. The Mongoose field
  \<^verbatim>\<open>posts: [{ type: 'ObjectId', ref: 'Post' }]\<close>, parsed and normalized, has
  \<^verbatim>\<open>isArray = true\<close> together with \<^verbatim>\<open>isReference = true\<close> and
  \<^verbatim>\<open>referenceTo = 'Post'\<close>.
\<close>

theorem mongoose_array_of_references_counterexample:
  "parseMongooseModel
     (JObj [(''modelName'', JStr ''User''),
            (''schema'', JObj
               [(''obj'', JObj [(''posts'', JArr [JObj [(''type'', JStr ''ObjectId''),
                                                       (''ref'', JStr ''Post'')]])]),
                (''paths'', JObj [])])])
     (JStr ''models/User.js'')
   = Inr (JObj
       [(''modelName'', JStr ''User''), (''tableName'', JStr ''User''),
        (''fields'', JArr [JObj
           [(''name'', JStr ''posts''), (''type'', JStr ''array''),
            (''required'', JBool False), (''isPrimary'', JBool False),
            (''isArray'', JBool True), (''arrayOf'', JStr ''string''),
            (''isEnum'', JBool False), (''enumValues'', JNull),
            (''isReference'', JBool True), (''referenceTo'', JStr ''Post''),
            (''defaultValue'', JNull), (''description'', JNull),
            (''nested'', JNull)]]),
        (''description'', JNull), (''source'', JStr ''mongoose''),
        (''filePath'', JStr ''models/User.js'')])"
  by code_simp

section \<open>Determinism of the generator\<close>

lemma join_snoc: "join sep (xs @ [y]) = concat (map (\<lambda>x. x @ sep) xs) @ y"
proof (induction xs)
  case Nil
  then show ?case by simp
next
  case (Cons x xs)
  obtain z zs where zs: "xs @ [y] = z # zs"
    by (cases "xs @ [y]") auto
  have "join sep ((x # xs) @ [y]) = x @ sep @ join sep (xs @ [y])"
    by (simp add: zs)
  with Cons.IH show ?case by simp
qed

text \<open>
  C7 (as amended). \<open>generateTypeScriptFile\<close> reads the clock for the line
  \<^verbatim>\<open>Generated: <time>\<close> of its header, which is written by default, so two runs on the
  same models and options at two different times do not return the same text. What
  holds is this. When a run on given models and options returns, there are two texts,
  \<open>body\<close> (the banner and the enums) and \<open>types\<close>, that do not depend on the run, such
  that every run on these models and options returns the text that its formatter makes
  of: the five lines of the header followed by an empty line, when \<^verbatim>\<open>includeHeader\<close> is
  truthy or absent, with the time of the run after \<^verbatim>\<open>Generated: \<close> on the fourth line;
  then \<open>body\<close>; then \<open>types\<close>. And \<open>types\<close> is made of the interfaces that
  \<open>generateInterface\<close> renders for the models, one after the other, joined by an empty
  line. So the texts that two runs hand to the formatter differ in the time on the
  fourth line and nowhere else, and are the same when the header is switched off.
\<close>

theorem generateTypeScriptFile_deterministic_up_to_timestamp:
  assumes "generateTypeScriptFile env0 models options = Inr text0"
  shows "\<exists>body types ms interfaces.
           models = JArr ms
           \<and> map_res (\<lambda>model. generateInterface model (dflt options (JObj []))) ms = Inr interfaces
           \<and> types = join (NL @ NL) interfaces
           \<and> (\<forall>env. generateTypeScriptFile env models options =
                 Inr (formatCode env
                   ((if truthy (dflt (get (dflt options (JObj [])) ''includeHeader'') (JBool True))
                     then ''/**'' @ NL @ '' * AUTO-GENERATED by type-bridge'' @ NL
                          @ '' * Do not edit manually'' @ NL
                          @ '' * Generated: '' @ nowISO env @ NL @ '' */'' @ NL @ NL
                     else [])
                    @ body @ types)))"
proof -
  let ?o = "dflt options (JObj [])"
  define inc where "inc = truthy (dflt (get ?o ''includeHeader'') (JBool True))"
  define hdr where "hdr = (\<lambda>env::gen_env. if inc
       then [''/**'', '' * AUTO-GENERATED by type-bridge'', '' * Do not edit manually'',
             '' * Generated: '' @ nowISO env, '' */'', []]
       else [])"
  define bl where "bl = (if truthy (dflt (get ?o ''banner'') JNull)
       then [''/* '' @ to_str (dflt (get ?o ''banner'') JNull) @ '' */'', []] else [])"
  define E where "E = (if truthy (dflt (get ?o ''enums'') (JArr []))
         \<and> (case get (dflt (get ?o ''enums'') (JArr [])) ''length'' of
               JNum n \<Rightarrow> n > 0 | _ \<Rightarrow> False)
       then (case dflt (get ?o ''enums'') (JArr []) of
               JArr es \<Rightarrow>
                 (case map_res (\<lambda>e. generateEnum e ?o) es of
                    Inl e \<Rightarrow> Inl e
                  | Inr codes \<Rightarrow> Inr [join (NL @ NL) codes, []])
             | _ \<Rightarrow> Inl TypeError)
       else Inr [])"
  have unfold: "generateTypeScriptFile env models options =
      (if nullish ?o then Inl TypeError
       else case E of
          Inl e \<Rightarrow> Inl e
        | Inr enumLines \<Rightarrow>
            (case generateTypes models ?o of
               Inl e \<Rightarrow> Inl e
             | Inr types \<Rightarrow>
                 Inr (formatCode env (join NL (hdr env @ bl @ enumLines @ [types])))))" for env
    unfolding E_def bl_def hdr_def inc_def
    by (simp only: generateTypeScriptFile_def Let_def)
  from assms have n: "\<not> nullish ?o"
    unfolding unfold by (auto split: if_splits)
  from assms n obtain enumLines where e: "E = Inr enumLines"
    unfolding unfold by (cases E) auto
  from assms n e obtain types where t: "generateTypes models ?o = Inr types"
    unfolding unfold by (cases "generateTypes models ?o") auto
  from t obtain ms interfaces where m: "models = JArr ms"
    and i: "map_res (\<lambda>model. generateInterface model ?o) ms = Inr interfaces"
    and ty: "types = join (NL @ NL) interfaces"
    by (auto simp: generateTypes_def split: jsval.splits sum.splits)
  define body where "body = concat (map (\<lambda>l. l @ NL) (bl @ enumLines))"
  have j: "join NL (H @ bl @ enumLines @ [types]) = concat (map (\<lambda>l. l @ NL) H) @ body @ types"
    for H
    unfolding body_def using join_snoc [of NL "H @ bl @ enumLines" types] by simp
  have h: "concat (map (\<lambda>l. l @ NL) (hdr env)) =
             (if inc
              then ''/**'' @ NL @ '' * AUTO-GENERATED by type-bridge'' @ NL
                   @ '' * Do not edit manually'' @ NL
                   @ '' * Generated: '' @ nowISO env @ NL @ '' */'' @ NL @ NL
              else [])" for env
    by (simp add: hdr_def)
  have main: "generateTypeScriptFile env models options =
      Inr (formatCode env
             ((if inc
               then ''/**'' @ NL @ '' * AUTO-GENERATED by type-bridge'' @ NL
                    @ '' * Do not edit manually'' @ NL
                    @ '' * Generated: '' @ nowISO env @ NL @ '' */'' @ NL @ NL
               else [])
              @ body @ types))" for env
    unfolding unfold using n e t by (simp only: j h if_False sum.case)
  show ?thesis
    using m i ty main unfolding inc_def by blast
qed

theorem generateTypeScriptFile_deterministic_up_to_timestamp_witness:
  "generateTypeScriptFile
     \<lparr>nowISO = ''2025-11-03T10:00:00.000Z'', skipFormat = True, prettier = Inr\<rparr>
     (JArr [JObj
       [(''modelName'', JStr ''User''), (''tableName'', JStr ''User''),
        (''fields'', JArr
          [JObj
            [(''name'', JStr ''id''), (''type'', JStr ''string''),
             (''required'', JBool True), (''isPrimary'', JBool False),
             (''isArray'', JBool False), (''arrayOf'', JNull),
             (''isEnum'', JBool False), (''enumValues'', JNull),
             (''isReference'', JBool False), (''referenceTo'', JNull),
             (''defaultValue'', JNull), (''description'', JNull),
             (''nested'', JNull)],
           JObj
            [(''name'', JStr ''nickname''), (''type'', JStr ''string''),
             (''required'', JBool False), (''isPrimary'', JBool False),
             (''isArray'', JBool False), (''arrayOf'', JNull),
             (''isEnum'', JBool False), (''enumValues'', JNull),
             (''isReference'', JBool False), (''referenceTo'', JNull),
             (''defaultValue'', JNull), (''description'', JNull),
             (''nested'', JNull)],
           JObj
            [(''name'', JStr ''profile''), (''type'', JStr ''Profile''),
             (''required'', JBool True), (''isPrimary'', JBool False),
             (''isArray'', JBool False), (''arrayOf'', JNull),
             (''isEnum'', JBool False), (''enumValues'', JNull),
             (''isReference'', JBool True), (''referenceTo'', JStr ''Profile''),
             (''defaultValue'', JNull), (''description'', JNull),
             (''nested'', JNull)]]),
        (''description'', JNull), (''source'', JStr ''prisma''),
        (''filePath'', JStr ''schema.prisma'')]]) JUndefined
   = Inr (''/**'' @ NL @ '' * AUTO-GENERATED by type-bridge'' @ NL
          @ '' * Do not edit manually'' @ NL
          @ '' * Generated: 2025-11-03T10:00:00.000Z'' @ NL @ '' */'' @ NL @ NL
          @ ''/** Auto-generated from prisma schema */'' @ NL
          @ ''export interface User {'' @ NL
          @ ''  id: string;'' @ NL @ ''  nickname?: string | null;'' @ NL
          @ ''  profile: Profile;'' @ NL @ ''}'')
   \<and> generateInterface
       (JObj
       [(''modelName'', JStr ''User''), (''tableName'', JStr ''User''),
        (''fields'', JArr
          [JObj
            [(''name'', JStr ''id''), (''type'', JStr ''string''),
             (''required'', JBool True), (''isPrimary'', JBool False),
             (''isArray'', JBool False), (''arrayOf'', JNull),
             (''isEnum'', JBool False), (''enumValues'', JNull),
             (''isReference'', JBool False), (''referenceTo'', JNull),
             (''defaultValue'', JNull), (''description'', JNull),
             (''nested'', JNull)],
           JObj
            [(''name'', JStr ''nickname''), (''type'', JStr ''string''),
             (''required'', JBool False), (''isPrimary'', JBool False),
             (''isArray'', JBool False), (''arrayOf'', JNull),
             (''isEnum'', JBool False), (''enumValues'', JNull),
             (''isReference'', JBool False), (''referenceTo'', JNull),
             (''defaultValue'', JNull), (''description'', JNull),
             (''nested'', JNull)],
           JObj
            [(''name'', JStr ''profile''), (''type'', JStr ''Profile''),
             (''required'', JBool True), (''isPrimary'', JBool False),
             (''isArray'', JBool False), (''arrayOf'', JNull),
             (''isEnum'', JBool False), (''enumValues'', JNull),
             (''isReference'', JBool True), (''referenceTo'', JStr ''Profile''),
             (''defaultValue'', JNull), (''description'', JNull),
             (''nested'', JNull)]]),
        (''description'', JNull), (''source'', JStr ''prisma''),
        (''filePath'', JStr ''schema.prisma'')]) (JObj [])
     = Inr (''/** Auto-generated from prisma schema */'' @ NL
          @ ''export interface User {'' @ NL
          @ ''  id: string;'' @ NL @ ''  nickname?: string | null;'' @ NL
          @ ''  profile: Profile;'' @ NL @ ''}'')
   \<and> (\<forall>env. generateTypeScriptFile env
         (JArr [JObj
       [(''modelName'', JStr ''User''), (''tableName'', JStr ''User''),
        (''fields'', JArr
          [JObj
            [(''name'', JStr ''id''), (''type'', JStr ''string''),
             (''required'', JBool True), (''isPrimary'', JBool False),
             (''isArray'', JBool False), (''arrayOf'', JNull),
             (''isEnum'', JBool False), (''enumValues'', JNull),
             (''isReference'', JBool False), (''referenceTo'', JNull),
             (''defaultValue'', JNull), (''description'', JNull),
             (''nested'', JNull)],
           JObj
            [(''name'', JStr ''nickname''), (''type'', JStr ''string''),
             (''required'', JBool False), (''isPrimary'', JBool False),
             (''isArray'', JBool False), (''arrayOf'', JNull),
             (''isEnum'', JBool False), (''enumValues'', JNull),
             (''isReference'', JBool False), (''referenceTo'', JNull),
             (''defaultValue'', JNull), (''description'', JNull),
             (''nested'', JNull)],
           JObj
            [(''name'', JStr ''profile''), (''type'', JStr ''Profile''),
             (''required'', JBool True), (''isPrimary'', JBool False),
             (''isArray'', JBool False), (''arrayOf'', JNull),
             (''isEnum'', JBool False), (''enumValues'', JNull),
             (''isReference'', JBool True), (''referenceTo'', JStr ''Profile''),
             (''defaultValue'', JNull), (''description'', JNull),
             (''nested'', JNull)]]),
        (''description'', JNull), (''source'', JStr ''prisma''),
        (''filePath'', JStr ''schema.prisma'')]]) JUndefined
       = Inr (formatCode env
          (''/**'' @ NL @ '' * AUTO-GENERATED by type-bridge'' @ NL
           @ '' * Do not edit manually'' @ NL
           @ '' * Generated: '' @ nowISO env @ NL @ '' */'' @ NL @ NL
           @ ''/** Auto-generated from prisma schema */'' @ NL
          @ ''export interface User {'' @ NL
          @ ''  id: string;'' @ NL @ ''  nickname?: string | null;'' @ NL
          @ ''  profile: Profile;'' @ NL @ ''}'')))"
proof -
  let ?M = "JObj
       [(''modelName'', JStr ''User''), (''tableName'', JStr ''User''),
        (''fields'', JArr
          [JObj
            [(''name'', JStr ''id''), (''type'', JStr ''string''),
             (''required'', JBool True), (''isPrimary'', JBool False),
             (''isArray'', JBool False), (''arrayOf'', JNull),
             (''isEnum'', JBool False), (''enumValues'', JNull),
             (''isReference'', JBool False), (''referenceTo'', JNull),
             (''defaultValue'', JNull), (''description'', JNull),
             (''nested'', JNull)],
           JObj
            [(''name'', JStr ''nickname''), (''type'', JStr ''string''),
             (''required'', JBool False), (''isPrimary'', JBool False),
             (''isArray'', JBool False), (''arrayOf'', JNull),
             (''isEnum'', JBool False), (''enumValues'', JNull),
             (''isReference'', JBool False), (''referenceTo'', JNull),
             (''defaultValue'', JNull), (''description'', JNull),
             (''nested'', JNull)],
           JObj
            [(''name'', JStr ''profile''), (''type'', JStr ''Profile''),
             (''required'', JBool True), (''isPrimary'', JBool False),
             (''isArray'', JBool False), (''arrayOf'', JNull),
             (''isEnum'', JBool False), (''enumValues'', JNull),
             (''isReference'', JBool True), (''referenceTo'', JStr ''Profile''),
             (''defaultValue'', JNull), (''description'', JNull),
             (''nested'', JNull)]]),
        (''description'', JNull), (''source'', JStr ''prisma''),
        (''filePath'', JStr ''schema.prisma'')]"
  let ?E1 = "\<lparr>nowISO = ''2025-11-03T10:00:00.000Z'', skipFormat = True, prettier = Inr\<rparr>"
  let ?I = "''/** Auto-generated from prisma schema */'' @ NL
          @ ''export interface User {'' @ NL
          @ ''  id: string;'' @ NL @ ''  nickname?: string | null;'' @ NL
          @ ''  profile: Profile;'' @ NL @ ''}''"
  let ?T1 = "''/**'' @ NL @ '' * AUTO-GENERATED by type-bridge'' @ NL
          @ '' * Do not edit manually'' @ NL
          @ '' * Generated: 2025-11-03T10:00:00.000Z'' @ NL @ '' */'' @ NL @ NL
          @ ''/** Auto-generated from prisma schema */'' @ NL
          @ ''export interface User {'' @ NL
          @ ''  id: string;'' @ NL @ ''  nickname?: string | null;'' @ NL
          @ ''  profile: Profile;'' @ NL @ ''}''"
  have r: "generateTypeScriptFile ?E1 (JArr [?M]) JUndefined = Inr ?T1"
    by code_simp
  have g: "generateInterface ?M (JObj []) = Inr ?I"
    by code_simp
  have o: "dflt JUndefined (JObj []) = JObj []"
    and inc: "truthy (dflt (get (JObj []) ''includeHeader'') (JBool True))"
    by (simp_all add: dflt_def)
  from generateTypeScriptFile_deterministic_up_to_timestamp [OF r]
  obtain body types ms interfaces where m: "JArr [?M] = JArr ms"
    and i: "map_res (\<lambda>model. generateInterface model (JObj [])) ms = Inr interfaces"
    and ty: "types = join (NL @ NL) interfaces"
    and run: "\<And>env. generateTypeScriptFile env (JArr [?M]) JUndefined =
                Inr (formatCode env
                  (''/**'' @ NL @ '' * AUTO-GENERATED by type-bridge'' @ NL
                   @ '' * Do not edit manually'' @ NL
                   @ '' * Generated: '' @ nowISO env @ NL @ '' */'' @ NL @ NL
                   @ body @ types))"
    unfolding o using inc by (auto simp only: if_True append_assoc)
  from m have ms: "ms = [?M]" by simp
  from i have "interfaces = [?I]"
    unfolding ms by (simp add: g)
  with ty have types: "types = ?I" by simp
  from run [of ?E1] r have "body = []"
    unfolding types by (simp add: formatCode_def NL_def)
  with run types have "\<And>env. generateTypeScriptFile env (JArr [?M]) JUndefined =
                Inr (formatCode env
                  (''/**'' @ NL @ '' * AUTO-GENERATED by type-bridge'' @ NL
                   @ '' * Do not edit manually'' @ NL
                   @ '' * Generated: '' @ nowISO env @ NL @ '' */'' @ NL @ NL
                   @ ?I))"
    by simp
  with r g show ?thesis
    by (simp only: simp_thms)
qed

text \<open>
  C7, counterexample. The model \<^verbatim>\<open>User\<close> has the fields \<^verbatim>\<open>id\<close>, \<^verbatim>\<open>nickname\<close> (optional) and
  \<^verbatim>\<open>profile\<close> (a reference to \<^verbatim>\<open>Profile\<close>). With the default options, two runs on this one
  model, a second apart, return two different texts: the fourth line differs.
\<close>

theorem generateTypeScriptFile_timestamp_counterexample:
  "generateTypeScriptFile
     \<lparr>nowISO = ''2025-11-03T10:00:00.000Z'', skipFormat = True, prettier = Inr\<rparr>
     (JArr [JObj
       [(''modelName'', JStr ''User''), (''tableName'', JStr ''User''),
        (''fields'', JArr
          [JObj
            [(''name'', JStr ''id''), (''type'', JStr ''string''),
             (''required'', JBool True), (''isPrimary'', JBool False),
             (''isArray'', JBool False), (''arrayOf'', JNull),
             (''isEnum'', JBool False), (''enumValues'', JNull),
             (''isReference'', JBool False), (''referenceTo'', JNull),
             (''defaultValue'', JNull), (''description'', JNull),
             (''nested'', JNull)],
           JObj
            [(''name'', JStr ''nickname''), (''type'', JStr ''string''),
             (''required'', JBool False), (''isPrimary'', JBool False),
             (''isArray'', JBool False), (''arrayOf'', JNull),
             (''isEnum'', JBool False), (''enumValues'', JNull),
             (''isReference'', JBool False), (''referenceTo'', JNull),
             (''defaultValue'', JNull), (''description'', JNull),
             (''nested'', JNull)],
           JObj
            [(''name'', JStr ''profile''), (''type'', JStr ''Profile''),
             (''required'', JBool True), (''isPrimary'', JBool False),
             (''isArray'', JBool False), (''arrayOf'', JNull),
             (''isEnum'', JBool False), (''enumValues'', JNull),
             (''isReference'', JBool True), (''referenceTo'', JStr ''Profile''),
             (''defaultValue'', JNull), (''description'', JNull),
             (''nested'', JNull)]]),
        (''description'', JNull), (''source'', JStr ''prisma''),
        (''filePath'', JStr ''schema.prisma'')]]) JUndefined
   = Inr (''/**'' @ NL @ '' * AUTO-GENERATED by type-bridge'' @ NL
          @ '' * Do not edit manually'' @ NL
          @ '' * Generated: 2025-11-03T10:00:00.000Z'' @ NL @ '' */'' @ NL @ NL
          @ ''/** Auto-generated from prisma schema */'' @ NL
          @ ''export interface User {'' @ NL
          @ ''  id: string;'' @ NL @ ''  nickname?: string | null;'' @ NL
          @ ''  profile: Profile;'' @ NL @ ''}'')
   \<and> generateTypeScriptFile
     \<lparr>nowISO = ''2025-11-03T10:00:01.000Z'', skipFormat = True, prettier = Inr\<rparr>
     (JArr [JObj
       [(''modelName'', JStr ''User''), (''tableName'', JStr ''User''),
        (''fields'', JArr
          [JObj
            [(''name'', JStr ''id''), (''type'', JStr ''string''),
             (''required'', JBool True), (''isPrimary'', JBool False),
             (''isArray'', JBool False), (''arrayOf'', JNull),
             (''isEnum'', JBool False), (''enumValues'', JNull),
             (''isReference'', JBool False), (''referenceTo'', JNull),
             (''defaultValue'', JNull), (''description'', JNull),
             (''nested'', JNull)],
           JObj
            [(''name'', JStr ''nickname''), (''type'', JStr ''string''),
             (''required'', JBool False), (''isPrimary'', JBool False),
             (''isArray'', JBool False), (''arrayOf'', JNull),
             (''isEnum'', JBool False), (''enumValues'', JNull),
             (''isReference'', JBool False), (''referenceTo'', JNull),
             (''defaultValue'', JNull), (''description'', JNull),
             (''nested'', JNull)],
           JObj
            [(''name'', JStr ''profile''), (''type'', JStr ''Profile''),
             (''required'', JBool True), (''isPrimary'', JBool False),
             (''isArray'', JBool False), (''arrayOf'', JNull),
             (''isEnum'', JBool False), (''enumValues'', JNull),
             (''isReference'', JBool True), (''referenceTo'', JStr ''Profile''),
             (''defaultValue'', JNull), (''description'', JNull),
             (''nested'', JNull)]]),
        (''description'', JNull), (''source'', JStr ''prisma''),
        (''filePath'', JStr ''schema.prisma'')]]) JUndefined
   = Inr (''/**'' @ NL @ '' * AUTO-GENERATED by type-bridge'' @ NL
          @ '' * Do not edit manually'' @ NL
          @ '' * Generated: 2025-11-03T10:00:01.000Z'' @ NL @ '' */'' @ NL @ NL
          @ ''/** Auto-generated from prisma schema */'' @ NL
          @ ''export interface User {'' @ NL
          @ ''  id: string;'' @ NL @ ''  nickname?: string | null;'' @ NL
          @ ''  profile: Profile;'' @ NL @ ''}'')
   \<and> generateTypeScriptFile
     \<lparr>nowISO = ''2025-11-03T10:00:00.000Z'', skipFormat = True, prettier = Inr\<rparr>
     (JArr [JObj
       [(''modelName'', JStr ''User''), (''tableName'', JStr ''User''),
        (''fields'', JArr
          [JObj
            [(''name'', JStr ''id''), (''type'', JStr ''string''),
             (''required'', JBool True), (''isPrimary'', JBool False),
             (''isArray'', JBool False), (''arrayOf'', JNull),
             (''isEnum'', JBool False), (''enumValues'', JNull),
             (''isReference'', JBool False), (''referenceTo'', JNull),
             (''defaultValue'', JNull), (''description'', JNull),
             (''nested'', JNull)],
           JObj
            [(''name'', JStr ''nickname''), (''type'', JStr ''string''),
             (''required'', JBool False), (''isPrimary'', JBool False),
             (''isArray'', JBool False), (''arrayOf'', JNull),
             (''isEnum'', JBool False), (''enumValues'', JNull),
             (''isReference'', JBool False), (''referenceTo'', JNull),
             (''defaultValue'', JNull), (''description'', JNull),
             (''nested'', JNull)],
           JObj
            [(''name'', JStr ''profile''), (''type'', JStr ''Profile''),
             (''required'', JBool True), (''isPrimary'', JBool False),
             (''isArray'', JBool False), (''arrayOf'', JNull),
             (''isEnum'', JBool False), (''enumValues'', JNull),
             (''isReference'', JBool True), (''referenceTo'', JStr ''Profile''),
             (''defaultValue'', JNull), (''description'', JNull),
             (''nested'', JNull)]]),
        (''description'', JNull), (''source'', JStr ''prisma''),
        (''filePath'', JStr ''schema.prisma'')]]) JUndefined
   \<noteq> generateTypeScriptFile
     \<lparr>nowISO = ''2025-11-03T10:00:01.000Z'', skipFormat = True, prettier = Inr\<rparr>
     (JArr [JObj
       [(''modelName'', JStr ''User''), (''tableName'', JStr ''User''),
        (''fields'', JArr
          [JObj
            [(''name'', JStr ''id''), (''type'', JStr ''string''),
             (''required'', JBool True), (''isPrimary'', JBool False),
             (''isArray'', JBool False), (''arrayOf'', JNull),
             (''isEnum'', JBool False), (''enumValues'', JNull),
             (''isReference'', JBool False), (''referenceTo'', JNull),
             (''defaultValue'', JNull), (''description'', JNull),
             (''nested'', JNull)],
           JObj
            [(''name'', JStr ''nickname''), (''type'', JStr ''string''),
             (''required'', JBool False), (''isPrimary'', JBool False),
             (''isArray'', JBool False), (''arrayOf'', JNull),
             (''isEnum'', JBool False), (''enumValues'', JNull),
             (''isReference'', JBool False), (''referenceTo'', JNull),
             (''defaultValue'', JNull), (''description'', JNull),
             (''nested'', JNull)],
           JObj
            [(''name'', JStr ''profile''), (''type'', JStr ''Profile''),
             (''required'', JBool True), (''isPrimary'', JBool False),
             (''isArray'', JBool False), (''arrayOf'', JNull),
             (''isEnum'', JBool False), (''enumValues'', JNull),
             (''isReference'', JBool True), (''referenceTo'', JStr ''Profile''),
             (''defaultValue'', JNull), (''description'', JNull),
             (''nested'', JNull)]]),
        (''description'', JNull), (''source'', JStr ''prisma''),
        (''filePath'', JStr ''schema.prisma'')]]) JUndefined"
  by code_simp

text \<open>
  Two runs with the same formatter return the same result when the clock reads the same
  for both, or when the header is switched off.
\<close>

lemma generateTypeScriptFile_same_formatter:
  assumes "skipFormat env1 = skipFormat env2" and "prettier env1 = prettier env2"
    and "nowISO env1 = nowISO env2
         \<or> \<not> truthy (dflt (get (dflt options (JObj [])) ''includeHeader'') (JBool True))"
  shows "generateTypeScriptFile env1 models options = generateTypeScriptFile env2 models options"
proof -
  have fc: "formatCode env1 code = formatCode env2 code" for code
    using assms(1,2) by (simp add: formatCode_def)
  from assms(3) show ?thesis
  proof
    assume "nowISO env1 = nowISO env2"
    then show ?thesis
      by (simp add: generateTypeScriptFile_def Let_def fc cong: sum.case_cong if_cong)
  next
    assume "\<not> truthy (dflt (get (dflt options (JObj [])) ''includeHeader'') (JBool True))"
    then show ?thesis
      by (simp add: generateTypeScriptFile_def Let_def fc cong: sum.case_cong if_cong)
  qed
qed

section \<open>Properties of the orchestrator\<close>

text \<open>
  C9. When an ORM is detected and parsing returns an empty list of models,
  \<open>generateTypes\<close> returns the failure result with the error \<^verbatim>\<open>'No models found'\<close> and
  makes no call to the writer.
\<close>

theorem no_models_found:
  assumes "\<not> nullish config"
    and "detectORM env (dflt (get config ''projectRoot'') (cwd env)) = Inr orm"
    and "truthy orm"
    and "parseSchemas env orm (dflt (get config ''projectRoot'') (cwd env)) (restOptions config)
           = Inr parsed"
    and "get parsed ''models'' = JArr []"
  shows "generateTypes_core env config
         = Inr (JObj [(''success'', JBool False), (''error'', JStr ''No models found'')], [])"
proof -
  from assms(5) have p: "\<not> nullish parsed"
    by (cases parsed) auto
  show ?thesis
    using assms p
    by (simp add: generateTypes_core_def core_try_def Let_def)
qed

theorem no_models_found_witness:
  "generateTypes_core
     \<lparr>cwd = JStr ''/app'',
      detectPrisma = (\<lambda>root. Inr True),
      detectMongoose = (\<lambda>root. Inr False),
      findPrismaSchema = (\<lambda>root. Inr (JStr ''/app/prisma/schema.prisma'')),
      readFile = (\<lambda>path. Inr ''// no models yet''),
      parseMongooseModels = (\<lambda>path options. Inr (JArr [])),
      path_join = (\<lambda>a b. Inr (JStr (to_str a @ ''/'' @ b))),
      writeTypesByModel = (\<lambda>ms path options. Inr (JObj [(''success'', JBool True)])),
      writeSingleFile = (\<lambda>content path options. Inr (JObj [(''success'', JBool True)])),
      genWritten = \<lparr>nowISO = ''2025-11-03T10:00:00.000Z'', skipFormat = True, prettier = Inr\<rparr>,
      genReturned = \<lparr>nowISO = ''2025-11-03T10:00:00.000Z'', skipFormat = True, prettier = Inr\<rparr>\<rparr>
     (JObj [(''outputPath'', JStr ''types/index.ts'')])
   = Inr (JObj [(''success'', JBool False), (''error'', JStr ''No models found'')], [])"
proof -
  let ?env = "\<lparr>cwd = JStr ''/app'',
      detectPrisma = (\<lambda>root. Inr True),
      detectMongoose = (\<lambda>root. Inr False),
      findPrismaSchema = (\<lambda>root. Inr (JStr ''/app/prisma/schema.prisma'')),
      readFile = (\<lambda>path. Inr ''// no models yet''),
      parseMongooseModels = (\<lambda>path options. Inr (JArr [])),
      path_join = (\<lambda>a b. Inr (JStr (to_str a @ ''/'' @ b))),
      writeTypesByModel = (\<lambda>ms path options. Inr (JObj [(''success'', JBool True)])),
      writeSingleFile = (\<lambda>content path options. Inr (JObj [(''success'', JBool True)])),
      genWritten = \<lparr>nowISO = ''2025-11-03T10:00:00.000Z'', skipFormat = True, prettier = Inr\<rparr>,
      genReturned = \<lparr>nowISO = ''2025-11-03T10:00:00.000Z'', skipFormat = True, prettier = Inr\<rparr>\<rparr>"
  let ?config = "JObj [(''outputPath'', JStr ''types/index.ts'')]"
  let ?parsed = "JObj [(''models'', JArr []), (''enums'', JArr [])]"
  have c: "\<not> nullish ?config" by simp
  have d: "detectORM ?env (dflt (get ?config ''projectRoot'') (cwd ?env)) = Inr (JStr ''prisma'')"
    by (simp add: detectORM_def)
  have t: "truthy (JStr ''prisma'')" by simp
  have mb: "matchBlocks ''model'' ''// no models yet'' = []"
    "matchBlocks ''enum'' ''// no models yet'' = []"
    by code_simp+
  have p: "parseSchemas ?env (JStr ''prisma'') (dflt (get ?config ''projectRoot'') (cwd ?env))
             (restOptions ?config) = Inr ?parsed"
    by (simp add: parseSchemas_def parsePrismaSchema_def mb del: matchBlocks.simps)
  have g: "get ?parsed ''models'' = JArr []" by simp
  show ?thesis
    by (rule no_models_found [OF c d t p g])
qed

section \<open>Mutual references between two models\<close>

lemma hasCycle_on_path:
  assumes "t \<in> set path"
  shows "hasCycle modelMap cur t path acc = Inr (True, acc @ [js_join '' -> '' (path @ [t])])"
proof -
  from assms have "path \<noteq> []" by auto
  with assms show ?thesis by (simp add: hasCycle.simps(1))
qed

lemma hasCycleFields_back:
  assumes "t \<in> set path"
    and "list_all (\<lambda>f. \<not> nullish f \<and> (isReferenceField f \<longrightarrow> get f ''referenceTo'' = t)) fs"
  shows "hasCycleFields modelMap cur path fs acc =
           (if list_ex isReferenceField fs
            then Inr (True, acc @ [js_join '' -> '' (path @ [t])])
            else Inr (False, acc))"
  using assms(2)
proof (induction fs)
  case Nil
  then show ?case by simp
next
  case (Cons f fs)
  show ?case
  proof (cases "isReferenceField f")
    case True
    with Cons.prems have "get f ''referenceTo'' = t" and "\<not> nullish f" by auto
    with True show ?thesis
      by (simp add: hasCycle_on_path [OF assms(1)] isReferenceField_def)
  next
    case False
    with Cons show ?thesis
      by (auto simp: isReferenceField_def)
  qed
qed

lemma get_modelName_truthy:
  assumes "get M ''modelName'' = JStr n"
  shows "truthy M" and "\<not> nullish M"
  using assms by (cases M; simp)+

lemma hasCycle_two_models:
  assumes ab: "a \<noteq> b"
    and B: "get B ''modelName'' = JStr b" "get B ''fields'' = JArr fsB"
    and mm: "mapGet modelMap (JStr b) = B"
    and fsB: "list_all (\<lambda>f. \<not> nullish f \<and> (isReferenceField f \<longrightarrow> get f ''referenceTo'' = JStr a)) fsB"
      "list_ex isReferenceField fsB"
  shows "hasCycle modelMap (JStr a) (JStr b) [JStr a] acc
         = Inr (True, acc @ [a @ '' -> '' @ b @ '' -> '' @ a])"
proof -
  have "hasCycleFields modelMap (JStr b) [JStr a, JStr b] fsB acc
        = Inr (True, acc @ [js_join '' -> '' ([JStr a, JStr b] @ [JStr a])])"
    using hasCycleFields_back [of "JStr a" "[JStr a, JStr b]" fsB modelMap "JStr b" acc] fsB
    by simp
  moreover have "js_join '' -> '' ([JStr a, JStr b] @ [JStr a]) = a @ '' -> '' @ b @ '' -> '' @ a"
    by (simp add: js_join_def)
  ultimately show ?thesis
    using ab B mm get_modelName_truthy [OF B(1)]
    by (simp add: hasCycle.simps(1))
qed

lemma checkFields_two_models:
  assumes ab: "a \<noteq> b"
    and B: "get B ''modelName'' = JStr b" "get B ''fields'' = JArr fsB"
    and mm: "mapGet modelMap (JStr b) = B"
    and fsB: "list_all (\<lambda>f. \<not> nullish f \<and> (isReferenceField f \<longrightarrow> get f ''referenceTo'' = JStr a)) fsB"
      "list_ex isReferenceField fsB"
    and fsA: "list_all (\<lambda>f. \<not> nullish f \<and> (isReferenceField f \<longrightarrow> get f ''referenceTo'' = JStr b)) fsA"
  shows "checkFields modelMap (JStr a) fsA acc
         = Inr (acc @ replicate (length (filter isReferenceField fsA))
                         (a @ '' -> '' @ b @ '' -> '' @ a))"
  using fsA
proof (induction fsA arbitrary: acc)
  case Nil
  then show ?case by simp
next
  case (Cons f fs)
  show ?case
  proof (cases "isReferenceField f")
    case True
    with Cons.prems have r: "get f ''referenceTo'' = JStr b" and n: "\<not> nullish f" by auto
    from Cons.prems have rest: "list_all (\<lambda>f. \<not> nullish f \<and> (isReferenceField f \<longrightarrow> get f ''referenceTo'' = JStr b)) fs"
      by simp
    from True have c: "truthy (get f ''isReference'') \<and> truthy (get f ''referenceTo'')"
      by (simp add: isReferenceField_def)
    show ?thesis
      using True n c
      by (simp add: r hasCycle_two_models [OF ab B mm fsB] Cons.IH [OF rest]
          replicate_append_same [symmetric] del: replicate_Suc)
        (simp add: replicate_app_Cons_same)
  next
    case False
    with Cons show ?thesis
      by (auto simp: isReferenceField_def)
  qed
qed

lemma dedupe_replicate:
  "dedupe seen (replicate n p) = (if n = 0 \<or> p \<in> set seen then seen else seen @ [p])"
  by (induction n arbitrary: seen) auto

lemma dedupe_append: "dedupe seen (xs @ ys) = dedupe (dedupe seen xs) ys"
  by (induction xs arbitrary: seen) auto

lemma cycle_paths_differ:
  assumes "a \<noteq> b"
  shows "a @ '' -> '' @ b @ '' -> '' @ a \<noteq> b @ '' -> '' @ a @ '' -> '' @ (b::string)"
proof
  assume eq: "a @ '' -> '' @ b @ '' -> '' @ a = b @ '' -> '' @ a @ '' -> '' @ b"
  then have "length (a @ '' -> '' @ b @ '' -> '' @ a) = length (b @ '' -> '' @ a @ '' -> '' @ b)"
    by (rule arg_cong)
  then have "length a = length b" by simp
  with eq have "a = b" by (metis append_eq_append_conv)
  with assms show False by contradiction
qed

lemma list_ex_filter_pos: "list_ex P xs \<Longrightarrow> 0 < length (filter P xs)"
  by (induction xs) auto

lemma detect_two_models:
  assumes ab: "a \<noteq> b"
    and A: "get A ''modelName'' = JStr a" "get A ''fields'' = JArr fsA"
    and B: "get B ''modelName'' = JStr b" "get B ''fields'' = JArr fsB"
    and fsA: "list_all (\<lambda>f. \<not> nullish f \<and> (isReferenceField f \<longrightarrow> get f ''referenceTo'' = JStr b)) fsA"
      "list_ex isReferenceField fsA"
    and fsB: "list_all (\<lambda>f. \<not> nullish f \<and> (isReferenceField f \<longrightarrow> get f ''referenceTo'' = JStr a)) fsB"
      "list_ex isReferenceField fsB"
  shows "detectCircularReferences (JArr [A, B]) =
           Inr (JObj [(''hasCircular'', JBool True),
                      (''circularPaths'', JArr [JStr (a @ '' -> '' @ b @ '' -> '' @ a),
                                               JStr (b @ '' -> '' @ a @ '' -> '' @ b)])])"
proof -
  let ?mm = "[(JStr a, A), (JStr b, B)]"
  let ?n = "length (filter isReferenceField fsA)"
  let ?m = "length (filter isReferenceField fsB)"
  define p where "p = a @ '' -> '' @ b @ '' -> '' @ a"
  define q where "q = b @ '' -> '' @ a @ '' -> '' @ b"
  have pq: "p \<noteq> q"
    unfolding p_def q_def by (rule cycle_paths_differ [OF ab])
  have mA: "mapGet ?mm (JStr a) = A" and mB: "mapGet ?mm (JStr b) = B"
    using ab by (simp_all add: mapGet_def)
  have cA: "checkFields ?mm (JStr a) fsA [] = Inr (replicate ?n p)"
    unfolding p_def
    using checkFields_two_models [OF ab B mB fsB fsA(1), of "[]"] by (simp only: append_Nil)
  have cB: "checkFields ?mm (JStr b) fsB (replicate ?n p) = Inr (replicate ?n p @ replicate ?m q)"
    unfolding q_def
    by (rule checkFields_two_models [OF ab [symmetric] A mA fsA fsB(1)])
  have n: "0 < ?n"
    by (rule list_ex_filter_pos [OF fsA(2)])
  have m: "0 < ?m"
    by (rule list_ex_filter_pos [OF fsB(2)])
  have nA: "\<not> nullish A"
    by (rule get_modelName_truthy(2) [OF A(1)])
  have nB: "\<not> nullish B"
    by (rule get_modelName_truthy(2) [OF B(1)])
  define r where "r = replicate ?n p @ replicate ?m q"
  have cm: "checkModels ?mm [A, B] [] = Inr r"
    unfolding r_def using nA nB by (simp add: A B cA cB)
  have dd: "dedupe [] r = [p, q]"
    unfolding r_def using n m pq by (simp add: dedupe_append dedupe_replicate)
  have len: "r \<noteq> []"
    unfolding r_def using n by simp
  have mr: "map_res (\<lambda>m. if nullish m then Inl TypeError else Inr (get m ''modelName'', m)) [A, B]
            = Inr ?mm"
    using nA nB by (simp add: A B)
  have "detectCircularReferences (JArr [A, B]) =
           Inr (JObj [(''hasCircular'', JBool True),
                      (''circularPaths'', JArr [JStr p, JStr q])])"
    using len
    by (simp add: detectCircularReferences_def mr cm dd del: map_res.simps checkModels.simps)
  then show ?thesis
    unfolding p_def q_def .
qed

lemma set_add_mono: "x \<in> set xs \<Longrightarrow> x \<in> set (set_add y xs)"
  by (simp add: set_add_def)

lemma set_add_mem: "y \<in> set (set_add y xs)"
  by (simp add: set_add_def)

lemma addDependency_mono: "x \<in> set (snd deps) \<Longrightarrow> x \<in> set (snd (addDependency en y deps))"
  by (simp add: addDependency_def set_add_mono)

lemma addDependency_mem: "y \<notin> set en \<Longrightarrow> y \<in> set (snd (addDependency en y deps))"
  by (simp add: addDependency_def set_add_mem)

lemma collectField_mono:
  "x \<in> set (snd deps) \<Longrightarrow> x \<in> set (snd (collectField mn en f deps))"
  by (simp add: collectField_def Let_def addDependency_mono)

lemma collectField_reference:
  assumes "isReferenceField f" and "get f ''referenceTo'' = JStr b"
    and "\<not> truthy (get f ''isArray'')"
    and "JStr b \<noteq> mn" and "JStr b \<notin> set en" and "JStr b \<notin> set primitives"
  shows "JStr b \<in> set (snd (collectField mn en f deps))"
proof (cases "get f ''type'' = JStr b")
  case True
  with assms have "truthy (get f ''type'')"
    by (simp add: isReferenceField_def)
  with True assms show ?thesis
    by (simp add: collectField_def Let_def addDependency_mem)
next
  case False
  with assms show ?thesis
    by (simp add: collectField_def Let_def addDependency_mem isReferenceField_def)
qed

lemma collectFields_mono:
  "collectFields mn en fs deps = Inr deps' \<Longrightarrow> x \<in> set (snd deps) \<Longrightarrow> x \<in> set (snd deps')"
proof (induction fs arbitrary: deps)
  case Nil
  then show ?case by simp
next
  case (Cons f fs)
  from Cons.prems(1) have "collectFields mn en fs (collectField mn en f deps) = Inr deps'"
    by (simp split: if_splits)
  moreover have "x \<in> set (snd (collectField mn en f deps))"
    using Cons.prems(2) by (rule collectField_mono)
  ultimately show ?case by (rule Cons.IH)
qed

lemma collectFields_reference:
  assumes "collectFields mn en fs deps = Inr deps'"
    and "list_ex (\<lambda>f. isReferenceField f \<and> get f ''referenceTo'' = JStr b
                       \<and> \<not> truthy (get f ''isArray'')) fs"
    and "JStr b \<noteq> mn" and "JStr b \<notin> set en" and "JStr b \<notin> set primitives"
  shows "JStr b \<in> set (snd deps')"
  using assms(1,2)
proof (induction fs arbitrary: deps)
  case Nil
  then show ?case by simp
next
  case (Cons f fs)
  from Cons.prems(1) have step: "collectFields mn en fs (collectField mn en f deps) = Inr deps'"
    by (simp split: if_splits)
  show ?case
  proof (cases "isReferenceField f \<and> get f ''referenceTo'' = JStr b \<and> \<not> truthy (get f ''isArray'')")
    case True
    then have "JStr b \<in> set (snd (collectField mn en f deps))"
      using assms(3,4,5) by (simp add: collectField_reference)
    with step show ?thesis by (rule collectFields_mono)
  next
    case False
    with Cons.prems(2) have "list_ex (\<lambda>f. isReferenceField f \<and> get f ''referenceTo'' = JStr b
                       \<and> \<not> truthy (get f ''isArray'')) fs"
      by simp
    with step show ?thesis by (rule Cons.IH)
  qed
qed

lemma map_res_enum_names:
  assumes "map_res (\<lambda>e. if nullish e then Inl TypeError else Inr (get e ''name'')) es = Inr en"
    and "list_all (\<lambda>e. get e ''name'' \<noteq> x) es"
  shows "x \<notin> set en"
  using assms
  by (induction es arbitrary: en) (auto split: if_splits sum.splits)

lemma importLines_model:
  assumes "JStr b \<in> set (snd deps)"
  shows "(''import type { '' @ b @ '' } from './'' @ b @ [CHR 0x27] @ '';'')
           \<in> set (importLines deps)"
proof -
  let ?f = "\<lambda>modelName. ''import type { '' @ to_str modelName @ '' } from './''
              @ to_str modelName @ [CHR 0x27] @ '';''"
  from assms have "?f (JStr b) \<in> ?f ` set (snd deps)"
    by (rule imageI)
  then show ?thesis
    by (simp add: importLines_def)
qed

lemma interface_imports:
  assumes M: "get M ''modelName'' = JStr a" "get M ''fields'' = JArr fs"
    and ab: "a \<noteq> b"
    and ref: "list_ex (\<lambda>f. isReferenceField f \<and> get f ''referenceTo'' = JStr b
                       \<and> \<not> truthy (get f ''isArray'')) fs"
    and st: "truthy (get options ''standalone'')"
    and en: "js_or (get options ''allEnums'') (JArr []) = JArr es"
      "list_all (\<lambda>e. get e ''name'' \<noteq> JStr b) es"
    and prim: "JStr b \<notin> set primitives"
    and gen: "generateInterface_lines M options = Inr ls"
  shows "(''import type { '' @ b @ '' } from './'' @ b @ [CHR 0x27] @ '';'') \<in> set ls"
proof -
  from st have o: "options \<noteq> JUndefined" "\<not> nullish options"
    and s: "get options ''standalone'' \<noteq> JUndefined"
    by (cases options; auto)+
  from gen o s st obtain deps rest where
    deps: "collectTypeDependencies M (JArr es) = Inr deps" and ls: "ls = importLines deps @ rest"
    by (auto simp: generateInterface_lines_def Let_def dflt_def en(1) M
        get_modelName_truthy(2) [OF M(1)] split: sum.splits)
  from deps obtain enumNames where
    names: "map_res (\<lambda>e. if nullish e then Inl TypeError else Inr (get e ''name'')) es = Inr enumNames"
    and cf: "collectFields (JStr a) enumNames fs ([], []) = Inr deps"
    by (auto simp: collectTypeDependencies_def dflt_def M get_modelName_truthy(2) [OF M(1)]
        split: sum.splits)
  from names en(2) have "JStr b \<notin> set enumNames" by (rule map_res_enum_names)
  with cf ref ab prim have "JStr b \<in> set (snd deps)"
    by (auto intro: collectFields_reference)
  then have "(''import type { '' @ b @ '' } from './'' @ b @ [CHR 0x27] @ '';'')
               \<in> set (importLines deps)"
    by (rule importLines_model)
  then show ?thesis
    unfolding ls by simp
qed

text \<open>
  The searches only ever add to \<^verbatim>\<open>circularPaths\<close>: whatever has been pushed stays.
\<close>

lemma hasCycle_mono:
  "hasCycle modelMap cur t path acc = Inr r \<Longrightarrow> set acc \<subseteq> set (snd r)"
  "hasCycleFields modelMap t' path' fs acc' = Inr r' \<Longrightarrow> set acc' \<subseteq> set (snd r')"
proof (induction modelMap cur t path acc and modelMap t' path' fs acc' arbitrary: r and r'
    rule: hasCycle_hasCycleFields.induct)
  case (1 modelMap currentModel targetModel path circularPaths)
  show ?case
  proof (cases "(currentModel = targetModel \<and> path = []) \<or> List.member path targetModel
                 \<or> \<not> truthy (mapGet modelMap targetModel)")
    case True
    with "1.prems" show ?thesis
      by (auto simp: hasCycle.simps(1) split: if_splits)
  next
    case False
    with "1.prems" obtain fs where
      it: "iter (get (mapGet modelMap targetModel) ''fields'') = Inr fs"
      and hf: "hasCycleFields modelMap targetModel (path @ [targetModel]) fs circularPaths = Inr r"
      by (auto simp: hasCycle.simps(1) split: if_splits sum.splits)
    from False have c: "\<not> (currentModel = targetModel \<and> path = [])"
      "\<not> List.member path targetModel" "\<not> \<not> truthy (mapGet modelMap targetModel)"
      by auto
    show ?thesis
      by (rule "1.IH" [OF c it hf])
  qed
next
  case (2 modelMap targetModel newPath circularPaths)
  then show ?case by auto
next
  case (3 modelMap targetModel newPath field rest circularPaths)
  from "3.prems" have n: "\<not> nullish field"
    by (auto split: if_splits)
  show ?case
  proof (cases "truthy (get field ''isReference'') \<and> truthy (get field ''referenceTo'')")
    case True
    with "3.prems" n obtain r1 where
      h: "hasCycle modelMap targetModel (get field ''referenceTo'') newPath circularPaths = Inr r1"
      and k: "(if fst r1 then Inr (True, snd r1)
               else hasCycleFields modelMap targetModel newPath rest (snd r1)) = Inr r'"
      by (auto split: sum.splits)
    have s1: "set circularPaths \<subseteq> set (snd r1)"
      by (rule "3.IH"(1) [OF n True h])
    show ?thesis
    proof (cases "fst r1")
      case True
      with k have "snd r' = snd r1" by auto
      with s1 show ?thesis by simp
    next
      case False
      with k have k': "hasCycleFields modelMap targetModel newPath rest (snd r1) = Inr r'"
        by simp
      have "set (snd r1) \<subseteq> set (snd r')"
        by (rule "3.IH"(2) [OF n True h False k'])
      with s1 show ?thesis by simp
    qed
  next
    case False
    with "3.prems" n have k: "hasCycleFields modelMap targetModel newPath rest circularPaths = Inr r'"
      by (auto split: if_splits)
    show ?thesis
      by (rule "3.IH"(3) [OF n False k])
  qed
qed

lemma checkFields_mono:
  "checkFields modelMap n fs acc = Inr r \<Longrightarrow> set acc \<subseteq> set r"
proof (induction fs arbitrary: acc)
  case Nil
  then show ?case by simp
next
  case (Cons f fs)
  from Cons.prems have n: "\<not> nullish f"
    by (auto split: if_splits)
  show ?case
  proof (cases "truthy (get f ''isReference'') \<and> truthy (get f ''referenceTo'')")
    case True
    with Cons.prems n obtain r1 where
      h: "hasCycle modelMap n (get f ''referenceTo'') [n] acc = Inr r1"
      and k: "checkFields modelMap n fs (snd r1) = Inr r"
      by (auto split: sum.splits)
    from hasCycle_mono(1) [OF h] Cons.IH [OF k] show ?thesis by simp
  next
    case False
    with Cons.prems n have "checkFields modelMap n fs acc = Inr r"
      by (auto split: if_splits)
    then show ?thesis by (rule Cons.IH)
  qed
qed

lemma checkModels_mono:
  "checkModels modelMap ms acc = Inr r \<Longrightarrow> set acc \<subseteq> set r"
proof (induction ms arbitrary: acc)
  case Nil
  then show ?case by simp
next
  case (Cons m ms)
  from Cons.prems obtain fs r1 where
    "checkFields modelMap (get m ''modelName'') fs acc = Inr r1"
    and "checkModels modelMap ms r1 = Inr r"
    by (auto split: if_splits sum.splits)
  from checkFields_mono [OF this(1)] Cons.IH [OF this(2)] show ?case by simp
qed

text \<open>
  The loop over the fields of the target model goes on to the next field as long as no
  cycle has been found, and stops at the first field whose search finds one.
\<close>

lemma hasCycleFields_append:
  "hasCycleFields modelMap t path (xs @ ys) acc =
     (case hasCycleFields modelMap t path xs acc of
        Inl e \<Rightarrow> Inl e
      | Inr r \<Rightarrow> if fst r then Inr r else hasCycleFields modelMap t path ys (snd r))"
proof (induction xs arbitrary: acc)
  case Nil
  then show ?case by simp
next
  case (Cons f xs)
  show ?case
  proof (cases "\<not> nullish f \<and> truthy (get f ''isReference'') \<and> truthy (get f ''referenceTo'')")
    case True
    show ?thesis
    proof (cases "hasCycle modelMap t (get f ''referenceTo'') path acc")
      case (Inl e)
      with True show ?thesis by simp
    next
      case (Inr r1)
      with True show ?thesis
        by (cases "fst r1") (simp_all add: Cons.IH)
    qed
  next
    case False
    then show ?thesis
      by (auto simp: Cons.IH)
  qed
qed

lemma hasCycleFields_no_references:
  assumes "list_all (\<lambda>f. \<not> nullish f \<and> \<not> isReferenceField f) fs"
  shows "hasCycleFields modelMap t path fs acc = Inr (False, acc)"
  using assms by (induction fs) (auto simp: isReferenceField_def)

lemma hasCycle_no_references:
  assumes "t \<notin> set path" and "path \<noteq> []"
    and "get (mapGet modelMap t) ''fields'' = JArr fs"
    and "list_all (\<lambda>f. \<not> nullish f \<and> \<not> isReferenceField f) fs"
  shows "hasCycle modelMap cur t path acc = Inr (False, acc)"
  using assms
  by (simp add: hasCycle.simps(1) hasCycleFields_no_references)

lemma hasCycleFields_reach:
  assumes pre: "\<And>acc. hasCycleFields modelMap t path pre acc = Inr (False, acc)"
    and f: "isReferenceField f" "get f ''referenceTo'' = x"
    and x: "x \<in> set path"
  shows "hasCycleFields modelMap t path (pre @ f # post) acc
         = Inr (True, acc @ [js_join '' -> '' (path @ [x])])"
proof -
  from f(1) have n: "\<not> nullish f"
    by (cases f) (simp_all add: isReferenceField_def)
  from f(1) have c: "truthy (get f ''isReference'') \<and> truthy (get f ''referenceTo'')"
    by (simp add: isReferenceField_def)
  have "hasCycleFields modelMap t path (f # post) acc
        = Inr (True, acc @ [js_join '' -> '' (path @ [x])])"
    using n c f(2) by (simp add: hasCycle_on_path [OF x])
  then show ?thesis
    by (simp add: hasCycleFields_append pre del: hasCycleFields.simps)
qed

text \<open>
  From a model \<open>a\<close>, the search through a reference to \<open>b\<close> comes back to \<open>a\<close> when the search
  through the fields of \<open>b\<close> reaches its reference to \<open>a\<close>.
\<close>

lemma hasCycle_pair:
  assumes ab: "a \<noteq> b"
    and B: "get B ''modelName'' = JStr b" "get B ''fields'' = JArr (preB @ fB # postB)"
    and mm: "mapGet modelMap (JStr b) = B"
    and pre: "\<And>acc. hasCycleFields modelMap (JStr b) [JStr a, JStr b] preB acc = Inr (False, acc)"
    and fB: "isReferenceField fB" "get fB ''referenceTo'' = JStr a"
  shows "hasCycle modelMap (JStr a) (JStr b) [JStr a] acc
         = Inr (True, acc @ [a @ '' -> '' @ b @ '' -> '' @ a])"
proof -
  have "hasCycleFields modelMap (JStr b) [JStr a, JStr b] (preB @ fB # postB) acc
        = Inr (True, acc @ [js_join '' -> '' ([JStr a, JStr b] @ [JStr a])])"
    by (rule hasCycleFields_reach [OF pre fB]) simp
  moreover have "js_join '' -> '' ([JStr a, JStr b] @ [JStr a]) = a @ '' -> '' @ b @ '' -> '' @ a"
    by (simp add: js_join_def)
  ultimately show ?thesis
    using ab B mm get_modelName_truthy [OF B(1)]
    by (simp add: hasCycle.simps(1))
qed

text \<open>
  The outer loops drop the result of each search and go on, so a path pushed for one
  field of one model of the batch is in the array at the end.
\<close>

lemma checkFields_reports:
  assumes h: "\<And>acc. hasCycle modelMap n x [n] acc = Inr (True, acc @ [p])"
    and r: "checkFields modelMap n fs acc = Inr r"
    and ex: "list_ex (\<lambda>f. isReferenceField f \<and> get f ''referenceTo'' = x) fs"
  shows "p \<in> set r"
  using r ex
proof (induction fs arbitrary: acc)
  case Nil
  then show ?case by simp
next
  case (Cons f fs)
  from Cons.prems(1) have n: "\<not> nullish f"
    by (auto split: if_splits)
  show ?case
  proof (cases "isReferenceField f")
    case True
    then have c: "truthy (get f ''isReference'') \<and> truthy (get f ''referenceTo'')"
      by (simp add: isReferenceField_def)
    with Cons.prems(1) n obtain r1 where
      h1: "hasCycle modelMap n (get f ''referenceTo'') [n] acc = Inr r1"
      and k: "checkFields modelMap n fs (snd r1) = Inr r"
      by (auto split: sum.splits)
    show ?thesis
    proof (cases "get f ''referenceTo'' = x")
      case True
      with h1 h [of acc] have "p \<in> set (snd r1)" by auto
      with checkFields_mono [OF k] show ?thesis by auto
    next
      case False
      with Cons.prems(2) have "list_ex (\<lambda>f. isReferenceField f \<and> get f ''referenceTo'' = x) fs"
        by simp
      with k show ?thesis by (rule Cons.IH)
    qed
  next
    case False
    then have c: "\<not> (truthy (get f ''isReference'') \<and> truthy (get f ''referenceTo''))"
      by (simp add: isReferenceField_def)
    with Cons.prems(1) n have k: "checkFields modelMap n fs acc = Inr r"
      by (auto split: if_splits)
    from False Cons.prems(2)
    have "list_ex (\<lambda>f. isReferenceField f \<and> get f ''referenceTo'' = x) fs"
      by simp
    with k show ?thesis by (rule Cons.IH)
  qed
qed

lemma checkModels_reports:
  assumes h: "\<And>acc. hasCycle modelMap n x [n] acc = Inr (True, acc @ [p])"
    and M: "M \<in> set ms" "get M ''modelName'' = n" "get M ''fields'' = JArr fs"
    and ex: "list_ex (\<lambda>f. isReferenceField f \<and> get f ''referenceTo'' = x) fs"
    and r: "checkModels modelMap ms acc = Inr r"
  shows "p \<in> set r"
  using r M(1)
proof (induction ms arbitrary: acc)
  case Nil
  then show ?case by simp
next
  case (Cons m ms)
  from Cons.prems(1) obtain fs1 r1 where
    it: "iter (get m ''fields'') = Inr fs1"
    and cf: "checkFields modelMap (get m ''modelName'') fs1 acc = Inr r1"
    and cm: "checkModels modelMap ms r1 = Inr r"
    by (auto split: if_splits sum.splits)
  show ?case
  proof (cases "m = M")
    case True
    with it cf M have "checkFields modelMap n fs acc = Inr r1" by simp
    then have "p \<in> set r1"
      using ex by (rule checkFields_reports [OF h])
    with checkModels_mono [OF cm] show ?thesis by auto
  next
    case False
    with Cons.prems(2) have "M \<in> set ms" by simp
    with cm show ?thesis by (rule Cons.IH)
  qed
qed

lemma set_dedupe: "set (dedupe seen xs) = set seen \<union> set xs"
  by (induction xs arbitrary: seen) auto

lemma distinct_dedupe: "distinct seen \<Longrightarrow> distinct (dedupe seen xs)"
  by (induction xs arbitrary: seen) auto

lemma modelMap_entries:
  "map_res (\<lambda>m. if nullish m then Inl TypeError else Inr (get m ''modelName'', m)) ms = Inr modelMap
   \<Longrightarrow> modelMap = map (\<lambda>m. (get m ''modelName'', m)) ms"
  by (induction ms arbitrary: modelMap) (auto split: if_splits sum.splits)

lemma mapGet_unique:
  assumes M: "M \<in> set ms" "get M ''modelName'' = k"
    and u: "list_all (\<lambda>M'. get M' ''modelName'' = k \<longrightarrow> M' = M) ms"
  shows "mapGet (map (\<lambda>m. (get m ''modelName'', m)) ms) k = M"
proof -
  let ?xs = "filter (\<lambda>m. get m ''modelName'' = k) ms"
  have f: "filter (\<lambda>kv. fst kv = k) (map (\<lambda>m. (get m ''modelName'', m)) ms)
           = map (\<lambda>m. (get m ''modelName'', m)) ?xs"
    by (simp add: filter_map comp_def)
  from M have ne: "?xs \<noteq> []"
    by (auto simp: filter_empty_conv)
  then have "last ?xs \<in> set ?xs" by (rule last_in_set)
  with u have l: "last ?xs = M"
    by (auto simp: list_all_iff)
  from ne obtain y ys where ys: "?xs = y # ys"
    by (cases ?xs) auto
  have "mapGet (map (\<lambda>m. (get m ''modelName'', m)) ms) k
        = snd (last (map (\<lambda>m. (get m ''modelName'', m)) ?xs))"
    unfolding mapGet_def f using ys by simp
  also have "\<dots> = M"
    using ne l by (simp add: last_map)
  finally show ?thesis .
qed

text \<open>
  Both directions together, for a pair of models anywhere in a batch: if the analysis
  returns, both paths are in its result.
\<close>

lemma detect_pair:
  assumes ab: "a \<noteq> b"
    and inA: "A \<in> set ms" and inB: "B \<in> set ms"
    and u: "list_all (\<lambda>M. (get M ''modelName'' = JStr a \<longrightarrow> M = A)
                          \<and> (get M ''modelName'' = JStr b \<longrightarrow> M = B)) ms"
    and A: "get A ''modelName'' = JStr a" "get A ''fields'' = JArr (preA @ fA # postA)"
    and B: "get B ''modelName'' = JStr b" "get B ''fields'' = JArr (preB @ fB # postB)"
    and fA: "isReferenceField fA" "get fA ''referenceTo'' = JStr b"
    and fB: "isReferenceField fB" "get fB ''referenceTo'' = JStr a"
    and preA: "\<And>acc. hasCycleFields (map (\<lambda>m. (get m ''modelName'', m)) ms) (JStr a)
                       [JStr b, JStr a] preA acc = Inr (False, acc)"
    and preB: "\<And>acc. hasCycleFields (map (\<lambda>m. (get m ''modelName'', m)) ms) (JStr b)
                       [JStr a, JStr b] preB acc = Inr (False, acc)"
    and res: "detectCircularReferences (JArr ms) = Inr res"
  shows "get res ''hasCircular'' = JBool True
         \<and> (\<exists>ps. get res ''circularPaths'' = JArr ps \<and> distinct ps
                \<and> JStr (a @ '' -> '' @ b @ '' -> '' @ a) \<in> set ps
                \<and> JStr (b @ '' -> '' @ a @ '' -> '' @ b) \<in> set ps)"
proof -
  let ?mm = "map (\<lambda>m. (get m ''modelName'', m)) ms"
  define p where "p = a @ '' -> '' @ b @ '' -> '' @ a"
  define q where "q = b @ '' -> '' @ a @ '' -> '' @ b"
  from res obtain modelMap cps where
    mr: "map_res (\<lambda>m. if nullish m then Inl TypeError else Inr (get m ''modelName'', m)) ms
         = Inr modelMap"
    and cm0: "checkModels modelMap ms [] = Inr cps"
    and r: "res = JObj [(''hasCircular'', JBool (length cps > 0)),
                        (''circularPaths'', JArr (map JStr (dedupe [] cps)))]"
    by (auto simp: detectCircularReferences_def split: sum.splits)
  from mr have "modelMap = ?mm" by (rule modelMap_entries)
  with cm0 have cm: "checkModels ?mm ms [] = Inr cps" by simp
  have uA: "list_all (\<lambda>M. get M ''modelName'' = JStr a \<longrightarrow> M = A) ms"
    and uB: "list_all (\<lambda>M. get M ''modelName'' = JStr b \<longrightarrow> M = B) ms"
    using u by (simp_all add: list_all_iff)
  have mA: "mapGet ?mm (JStr a) = A"
    by (rule mapGet_unique [OF inA A(1) uA])
  have mB: "mapGet ?mm (JStr b) = B"
    by (rule mapGet_unique [OF inB B(1) uB])
  have hp: "hasCycle ?mm (JStr a) (JStr b) [JStr a] acc = Inr (True, acc @ [p])" for acc
    unfolding p_def by (rule hasCycle_pair [OF ab B mB preB fB])
  have hq: "hasCycle ?mm (JStr b) (JStr a) [JStr b] acc = Inr (True, acc @ [q])" for acc
    unfolding q_def by (rule hasCycle_pair [OF ab [symmetric] A mA preA fA])
  have exA: "list_ex (\<lambda>f. isReferenceField f \<and> get f ''referenceTo'' = JStr b) (preA @ fA # postA)"
    using fA by simp
  have exB: "list_ex (\<lambda>f. isReferenceField f \<and> get f ''referenceTo'' = JStr a) (preB @ fB # postB)"
    using fB by simp
  have p: "p \<in> set cps"
    by (rule checkModels_reports [OF hp inA A exA cm])
  have q: "q \<in> set cps"
    by (rule checkModels_reports [OF hq inB B exB cm])
  from p have len: "length cps > 0" by auto
  have d: "distinct (map JStr (dedupe [] cps))"
    by (simp add: distinct_map distinct_dedupe inj_on_def)
  have "JStr p \<in> set (map JStr (dedupe [] cps))" "JStr q \<in> set (map JStr (dedupe [] cps))"
    using p q by (simp_all add: set_dedupe)
  with d len show ?thesis
    unfolding r p_def q_def by simp
qed

text \<open>
  C4 (as amended). Let \<open>A\<close> and \<open>B\<close> be models named \<open>a\<close> and \<open>b\<close>, \<open>a \<noteq> b\<close>, where \<open>A\<close>
  has a singular reference field to \<open>b\<close> and \<open>B\<close> has one to \<open>a\<close>; either may have any
  other fields, before or after.

  (1) In any batch that contains both, where no other model has one of the two names,
  \<open>detectCircularReferences\<close>, when it returns, reports the pair twice and not once:
  \<^verbatim>\<open>a -> b -> a\<close>, found from \<open>A\<close>, and \<^verbatim>\<open>b -> a -> b\<close>, found from \<open>B\<close>, are two different
  entries of \<^verbatim>\<open>circularPaths\<close>, each listed once. The search through the fields of a
  model stops at the first field that leads to a cycle, so this is under the condition
  that the search through the fields of \<open>B\<close> that come before its reference to \<open>a\<close>
  finds no cycle on the way from \<open>a\<close>, and likewise for the fields of \<open>A\<close> that come
  before its reference to \<open>b\<close> (\<open>hasCycleFields_no_references\<close>: so it is when none of
  them is a reference field).

  (2) Whatever the batch and the other fields, in standalone mode every document
  generated for \<open>A\<close> has the line that imports \<open>b\<close> as a type-only import, provided \<open>b\<close> is
  neither the name of a primitive type nor the name of an enum of \<^verbatim>\<open>allEnums\<close>; and
  likewise for \<open>B\<close> and \<open>a\<close>.
\<close>

theorem mutual_references_two_paths_and_imports:
  assumes "a \<noteq> b"
    and "get A ''modelName'' = JStr a" and "get A ''fields'' = JArr (preA @ fA # postA)"
    and "get B ''modelName'' = JStr b" and "get B ''fields'' = JArr (preB @ fB # postB)"
    and "isReferenceField fA" and "get fA ''referenceTo'' = JStr b"
    and "\<not> truthy (get fA ''isArray'')"
    and "isReferenceField fB" and "get fB ''referenceTo'' = JStr a"
    and "\<not> truthy (get fB ''isArray'')"
  shows "(\<forall>ms res.
            A \<in> set ms \<and> B \<in> set ms
            \<and> list_all (\<lambda>M. (get M ''modelName'' = JStr a \<longrightarrow> M = A)
                            \<and> (get M ''modelName'' = JStr b \<longrightarrow> M = B)) ms
            \<and> (\<forall>acc. hasCycleFields (map (\<lambda>m. (get m ''modelName'', m)) ms) (JStr a)
                        [JStr b, JStr a] preA acc = Inr (False, acc))
            \<and> (\<forall>acc. hasCycleFields (map (\<lambda>m. (get m ''modelName'', m)) ms) (JStr b)
                        [JStr a, JStr b] preB acc = Inr (False, acc))
            \<and> detectCircularReferences (JArr ms) = Inr res
            \<longrightarrow> get res ''hasCircular'' = JBool True
                \<and> (\<exists>ps. get res ''circularPaths'' = JArr ps \<and> distinct ps
                       \<and> JStr (a @ '' -> '' @ b @ '' -> '' @ a) \<in> set ps
                       \<and> JStr (b @ '' -> '' @ a @ '' -> '' @ b) \<in> set ps))
         \<and> a @ '' -> '' @ b @ '' -> '' @ a \<noteq> b @ '' -> '' @ a @ '' -> '' @ b
         \<and> (\<forall>options es ls.
              truthy (get options ''standalone'')
              \<and> js_or (get options ''allEnums'') (JArr []) = JArr es
              \<and> list_all (\<lambda>e. get e ''name'' \<noteq> JStr b) es
              \<and> JStr b \<notin> set primitives
              \<and> generateInterface_lines A options = Inr ls
              \<longrightarrow> (''import type { '' @ b @ '' } from './'' @ b @ [CHR 0x27] @ '';'') \<in> set ls)
         \<and> (\<forall>options es ls.
              truthy (get options ''standalone'')
              \<and> js_or (get options ''allEnums'') (JArr []) = JArr es
              \<and> list_all (\<lambda>e. get e ''name'' \<noteq> JStr a) es
              \<and> JStr a \<notin> set primitives
              \<and> generateInterface_lines B options = Inr ls
              \<longrightarrow> (''import type { '' @ a @ '' } from './'' @ a @ [CHR 0x27] @ '';'') \<in> set ls)"
proof (intro conjI allI impI)
  fix ms res
  assume h: "A \<in> set ms \<and> B \<in> set ms
            \<and> list_all (\<lambda>M. (get M ''modelName'' = JStr a \<longrightarrow> M = A)
                            \<and> (get M ''modelName'' = JStr b \<longrightarrow> M = B)) ms
            \<and> (\<forall>acc. hasCycleFields (map (\<lambda>m. (get m ''modelName'', m)) ms) (JStr a)
                        [JStr b, JStr a] preA acc = Inr (False, acc))
            \<and> (\<forall>acc. hasCycleFields (map (\<lambda>m. (get m ''modelName'', m)) ms) (JStr b)
                        [JStr a, JStr b] preB acc = Inr (False, acc))
            \<and> detectCircularReferences (JArr ms) = Inr res"
  then have inA: "A \<in> set ms" and inB: "B \<in> set ms"
    and u: "list_all (\<lambda>M. (get M ''modelName'' = JStr a \<longrightarrow> M = A)
                          \<and> (get M ''modelName'' = JStr b \<longrightarrow> M = B)) ms"
    and res: "detectCircularReferences (JArr ms) = Inr res"
    by (simp_all only: simp_thms)
  from h have preA: "hasCycleFields (map (\<lambda>m. (get m ''modelName'', m)) ms) (JStr a)
                        [JStr b, JStr a] preA acc = Inr (False, acc)" for acc
    by (elim conjE) (erule allE)
  from h have preB: "hasCycleFields (map (\<lambda>m. (get m ''modelName'', m)) ms) (JStr b)
                        [JStr a, JStr b] preB acc = Inr (False, acc)" for acc
    by (elim conjE) (erule allE [where P = "\<lambda>acc. hasCycleFields
          (map (\<lambda>m. (get m ''modelName'', m)) ms) (JStr b) [JStr a, JStr b] preB acc
          = Inr (False, acc)"])
  have r: "get res ''hasCircular'' = JBool True
         \<and> (\<exists>ps. get res ''circularPaths'' = JArr ps \<and> distinct ps
                \<and> JStr (a @ '' -> '' @ b @ '' -> '' @ a) \<in> set ps
                \<and> JStr (b @ '' -> '' @ a @ '' -> '' @ b) \<in> set ps)"
    by (rule detect_pair [OF assms(1) inA inB u assms(2-5) assms(6,7) assms(9,10) preA preB res])
  from r show "get res ''hasCircular'' = JBool True" by (rule conjunct1)
  from r show "\<exists>ps. get res ''circularPaths'' = JArr ps \<and> distinct ps
                \<and> JStr (a @ '' -> '' @ b @ '' -> '' @ a) \<in> set ps
                \<and> JStr (b @ '' -> '' @ a @ '' -> '' @ b) \<in> set ps"
    by (rule conjunct2)
next
  show "a @ '' -> '' @ b @ '' -> '' @ a \<noteq> b @ '' -> '' @ a @ '' -> '' @ b"
    by (rule cycle_paths_differ [OF assms(1)])
next
  fix options es ls
  assume h: "truthy (get options ''standalone'')
              \<and> js_or (get options ''allEnums'') (JArr []) = JArr es
              \<and> list_all (\<lambda>e. get e ''name'' \<noteq> JStr b) es
              \<and> JStr b \<notin> set primitives
              \<and> generateInterface_lines A options = Inr ls"
  have ex: "list_ex (\<lambda>f. isReferenceField f \<and> get f ''referenceTo'' = JStr b
                       \<and> \<not> truthy (get f ''isArray'')) (preA @ fA # postA)"
    using assms(6,7,8) by simp
  from h show "(''import type { '' @ b @ '' } from './'' @ b @ [CHR 0x27] @ '';'') \<in> set ls"
    using interface_imports [OF assms(2,3,1) ex, of options es ls] by (simp only: simp_thms)
next
  fix options es ls
  assume h: "truthy (get options ''standalone'')
              \<and> js_or (get options ''allEnums'') (JArr []) = JArr es
              \<and> list_all (\<lambda>e. get e ''name'' \<noteq> JStr a) es
              \<and> JStr a \<notin> set primitives
              \<and> generateInterface_lines B options = Inr ls"
  have ex: "list_ex (\<lambda>f. isReferenceField f \<and> get f ''referenceTo'' = JStr a
                       \<and> \<not> truthy (get f ''isArray'')) (preB @ fB # postB)"
    using assms(9,10,11) by simp
  from h show "(''import type { '' @ a @ '' } from './'' @ a @ [CHR 0x27] @ '';'') \<in> set ls"
    using interface_imports [OF assms(4,5) assms(1) [symmetric] ex, of options es ls]
    by (simp only: simp_thms)
qed

theorem mutual_references_two_paths_and_imports_witness:
  "detectCircularReferences (JArr
     [JObj
       [(''modelName'', JStr ''Post''), (''tableName'', JStr ''Post''),
        (''fields'', JArr
          [JObj
            [(''name'', JStr ''author''), (''type'', JStr ''User''),
             (''required'', JBool True), (''isPrimary'', JBool False),
             (''isArray'', JBool False), (''arrayOf'', JNull),
             (''isEnum'', JBool False), (''enumValues'', JNull),
             (''isReference'', JBool True), (''referenceTo'', JStr ''User''),
             (''defaultValue'', JNull), (''description'', JNull),
             (''nested'', JNull)]]),
        (''description'', JNull), (''source'', JStr ''prisma''),
        (''filePath'', JStr ''schema.prisma'')],
      JObj
       [(''modelName'', JStr ''User''), (''tableName'', JStr ''User''),
        (''fields'', JArr
          [JObj
            [(''name'', JStr ''email''), (''type'', JStr ''string''),
             (''required'', JBool True), (''isPrimary'', JBool False),
             (''isArray'', JBool False), (''arrayOf'', JNull),
             (''isEnum'', JBool False), (''enumValues'', JNull),
             (''isReference'', JBool False), (''referenceTo'', JNull),
             (''defaultValue'', JNull), (''description'', JNull),
             (''nested'', JNull)],
           JObj
            [(''name'', JStr ''tag''), (''type'', JStr ''Tag''),
             (''required'', JBool True), (''isPrimary'', JBool False),
             (''isArray'', JBool False), (''arrayOf'', JNull),
             (''isEnum'', JBool False), (''enumValues'', JNull),
             (''isReference'', JBool True), (''referenceTo'', JStr ''Tag''),
             (''defaultValue'', JNull), (''description'', JNull),
             (''nested'', JNull)],
           JObj
            [(''name'', JStr ''profile''), (''type'', JStr ''Profile''),
             (''required'', JBool True), (''isPrimary'', JBool False),
             (''isArray'', JBool False), (''arrayOf'', JNull),
             (''isEnum'', JBool False), (''enumValues'', JNull),
             (''isReference'', JBool True), (''referenceTo'', JStr ''Profile''),
             (''defaultValue'', JNull), (''description'', JNull),
             (''nested'', JNull)]]),
        (''description'', JNull), (''source'', JStr ''prisma''),
        (''filePath'', JStr ''schema.prisma'')],
      JObj
       [(''modelName'', JStr ''Profile''), (''tableName'', JStr ''Profile''),
        (''fields'', JArr
          [JObj
            [(''name'', JStr ''tag''), (''type'', JStr ''Tag''),
             (''required'', JBool True), (''isPrimary'', JBool False),
             (''isArray'', JBool False), (''arrayOf'', JNull),
             (''isEnum'', JBool False), (''enumValues'', JNull),
             (''isReference'', JBool True), (''referenceTo'', JStr ''Tag''),
             (''defaultValue'', JNull), (''description'', JNull),
             (''nested'', JNull)],
           JObj
            [(''name'', JStr ''user''), (''type'', JStr ''User''),
             (''required'', JBool True), (''isPrimary'', JBool False),
             (''isArray'', JBool False), (''arrayOf'', JNull),
             (''isEnum'', JBool False), (''enumValues'', JNull),
             (''isReference'', JBool True), (''referenceTo'', JStr ''User''),
             (''defaultValue'', JNull), (''description'', JNull),
             (''nested'', JNull)],
           JObj
            [(''name'', JStr ''bio''), (''type'', JStr ''string''),
             (''required'', JBool True), (''isPrimary'', JBool False),
             (''isArray'', JBool False), (''arrayOf'', JNull),
             (''isEnum'', JBool False), (''enumValues'', JNull),
             (''isReference'', JBool False), (''referenceTo'', JNull),
             (''defaultValue'', JNull), (''description'', JNull),
             (''nested'', JNull)]]),
        (''description'', JNull), (''source'', JStr ''prisma''),
        (''filePath'', JStr ''schema.prisma'')],
      JObj
       [(''modelName'', JStr ''Tag''), (''tableName'', JStr ''Tag''),
        (''fields'', JArr
          [JObj
            [(''name'', JStr ''label''), (''type'', JStr ''string''),
             (''required'', JBool True), (''isPrimary'', JBool False),
             (''isArray'', JBool False), (''arrayOf'', JNull),
             (''isEnum'', JBool False), (''enumValues'', JNull),
             (''isReference'', JBool False), (''referenceTo'', JNull),
             (''defaultValue'', JNull), (''description'', JNull),
             (''nested'', JNull)]]),
        (''description'', JNull), (''source'', JStr ''prisma''),
        (''filePath'', JStr ''schema.prisma'')]])
   = Inr (JObj
         [(''hasCircular'', JBool True),
          (''circularPaths'', JArr [JStr ''Post -> User -> Profile -> User'',
                                   JStr ''User -> Profile -> User'',
                                   JStr ''Profile -> User -> Profile''])])
   \<and> get (JObj
         [(''hasCircular'', JBool True),
          (''circularPaths'', JArr [JStr ''Post -> User -> Profile -> User'',
                                   JStr ''User -> Profile -> User'',
                                   JStr ''Profile -> User -> Profile''])]) ''hasCircular'' = JBool True
   \<and> (\<exists>ps. get (JObj
         [(''hasCircular'', JBool True),
          (''circularPaths'', JArr [JStr ''Post -> User -> Profile -> User'',
                                   JStr ''User -> Profile -> User'',
                                   JStr ''Profile -> User -> Profile''])]) ''circularPaths'' = JArr ps \<and> distinct ps
          \<and> JStr ''User -> Profile -> User'' \<in> set ps
          \<and> JStr ''Profile -> User -> Profile'' \<in> set ps)
   \<and> ''User -> Profile -> User'' \<noteq> ''Profile -> User -> Profile''
   \<and> generateInterface_lines
       (JObj
       [(''modelName'', JStr ''User''), (''tableName'', JStr ''User''),
        (''fields'', JArr
          [JObj
            [(''name'', JStr ''email''), (''type'', JStr ''string''),
             (''required'', JBool True), (''isPrimary'', JBool False),
             (''isArray'', JBool False), (''arrayOf'', JNull),
             (''isEnum'', JBool False), (''enumValues'', JNull),
             (''isReference'', JBool False), (''referenceTo'', JNull),
             (''defaultValue'', JNull), (''description'', JNull),
             (''nested'', JNull)],
           JObj
            [(''name'', JStr ''tag''), (''type'', JStr ''Tag''),
             (''required'', JBool True), (''isPrimary'', JBool False),
             (''isArray'', JBool False), (''arrayOf'', JNull),
             (''isEnum'', JBool False), (''enumValues'', JNull),
             (''isReference'', JBool True), (''referenceTo'', JStr ''Tag''),
             (''defaultValue'', JNull), (''description'', JNull),
             (''nested'', JNull)],
           JObj
            [(''name'', JStr ''profile''), (''type'', JStr ''Profile''),
             (''required'', JBool True), (''isPrimary'', JBool False),
             (''isArray'', JBool False), (''arrayOf'', JNull),
             (''isEnum'', JBool False), (''enumValues'', JNull),
             (''isReference'', JBool True), (''referenceTo'', JStr ''Profile''),
             (''defaultValue'', JNull), (''description'', JNull),
             (''nested'', JNull)]]),
        (''description'', JNull), (''source'', JStr ''prisma''),
        (''filePath'', JStr ''schema.prisma'')]) (JObj [(''standalone'', JBool True)])
     = Inr [''import type { Tag } from './Tag';'',
          ''import type { Profile } from './Profile';'', [],
          ''/** Auto-generated from prisma schema */'',
          ''export interface User {'',
          ''  email: string;'',
          ''  tag: Tag;'',
          ''  profile: Profile;'',
          ''}'']
   \<and> ''import type { Profile } from './Profile';'' \<in> set
         [''import type { Tag } from './Tag';'',
          ''import type { Profile } from './Profile';'', [],
          ''/** Auto-generated from prisma schema */'',
          ''export interface User {'',
          ''  email: string;'',
          ''  tag: Tag;'',
          ''  profile: Profile;'',
          ''}'']
   \<and> generateInterface_lines
       (JObj
       [(''modelName'', JStr ''Profile''), (''tableName'', JStr ''Profile''),
        (''fields'', JArr
          [JObj
            [(''name'', JStr ''tag''), (''type'', JStr ''Tag''),
             (''required'', JBool True), (''isPrimary'', JBool False),
             (''isArray'', JBool False), (''arrayOf'', JNull),
             (''isEnum'', JBool False), (''enumValues'', JNull),
             (''isReference'', JBool True), (''referenceTo'', JStr ''Tag''),
             (''defaultValue'', JNull), (''description'', JNull),
             (''nested'', JNull)],
           JObj
            [(''name'', JStr ''user''), (''type'', JStr ''User''),
             (''required'', JBool True), (''isPrimary'', JBool False),
             (''isArray'', JBool False), (''arrayOf'', JNull),
             (''isEnum'', JBool False), (''enumValues'', JNull),
             (''isReference'', JBool True), (''referenceTo'', JStr ''User''),
             (''defaultValue'', JNull), (''description'', JNull),
             (''nested'', JNull)],
           JObj
            [(''name'', JStr ''bio''), (''type'', JStr ''string''),
             (''required'', JBool True), (''isPrimary'', JBool False),
             (''isArray'', JBool False), (''arrayOf'', JNull),
             (''isEnum'', JBool False), (''enumValues'', JNull),
             (''isReference'', JBool False), (''referenceTo'', JNull),
             (''defaultValue'', JNull), (''description'', JNull),
             (''nested'', JNull)]]),
        (''description'', JNull), (''source'', JStr ''prisma''),
        (''filePath'', JStr ''schema.prisma'')]) (JObj [(''standalone'', JBool True)])
     = Inr [''import type { Tag } from './Tag';'',
          ''import type { User } from './User';'', [],
          ''/** Auto-generated from prisma schema */'',
          ''export interface Profile {'',
          ''  tag: Tag;'',
          ''  user: User;'',
          ''  bio: string;'',
          ''}'']
   \<and> ''import type { User } from './User';'' \<in> set
         [''import type { Tag } from './Tag';'',
          ''import type { User } from './User';'', [],
          ''/** Auto-generated from prisma schema */'',
          ''export interface Profile {'',
          ''  tag: Tag;'',
          ''  user: User;'',
          ''  bio: string;'',
          ''}'']"
proof -
  let ?email = "JObj
            [(''name'', JStr ''email''), (''type'', JStr ''string''),
             (''required'', JBool True), (''isPrimary'', JBool False),
             (''isArray'', JBool False), (''arrayOf'', JNull),
             (''isEnum'', JBool False), (''enumValues'', JNull),
             (''isReference'', JBool False), (''referenceTo'', JNull),
             (''defaultValue'', JNull), (''description'', JNull),
             (''nested'', JNull)]"
  let ?utag = "JObj
            [(''name'', JStr ''tag''), (''type'', JStr ''Tag''),
             (''required'', JBool True), (''isPrimary'', JBool False),
             (''isArray'', JBool False), (''arrayOf'', JNull),
             (''isEnum'', JBool False), (''enumValues'', JNull),
             (''isReference'', JBool True), (''referenceTo'', JStr ''Tag''),
             (''defaultValue'', JNull), (''description'', JNull),
             (''nested'', JNull)]"
  let ?profile = "JObj
            [(''name'', JStr ''profile''), (''type'', JStr ''Profile''),
             (''required'', JBool True), (''isPrimary'', JBool False),
             (''isArray'', JBool False), (''arrayOf'', JNull),
             (''isEnum'', JBool False), (''enumValues'', JNull),
             (''isReference'', JBool True), (''referenceTo'', JStr ''Profile''),
             (''defaultValue'', JNull), (''description'', JNull),
             (''nested'', JNull)]"
  let ?ptag = "JObj
            [(''name'', JStr ''tag''), (''type'', JStr ''Tag''),
             (''required'', JBool True), (''isPrimary'', JBool False),
             (''isArray'', JBool False), (''arrayOf'', JNull),
             (''isEnum'', JBool False), (''enumValues'', JNull),
             (''isReference'', JBool True), (''referenceTo'', JStr ''Tag''),
             (''defaultValue'', JNull), (''description'', JNull),
             (''nested'', JNull)]"
  let ?user = "JObj
            [(''name'', JStr ''user''), (''type'', JStr ''User''),
             (''required'', JBool True), (''isPrimary'', JBool False),
             (''isArray'', JBool False), (''arrayOf'', JNull),
             (''isEnum'', JBool False), (''enumValues'', JNull),
             (''isReference'', JBool True), (''referenceTo'', JStr ''User''),
             (''defaultValue'', JNull), (''description'', JNull),
             (''nested'', JNull)]"
  let ?bio = "JObj
            [(''name'', JStr ''bio''), (''type'', JStr ''string''),
             (''required'', JBool True), (''isPrimary'', JBool False),
             (''isArray'', JBool False), (''arrayOf'', JNull),
             (''isEnum'', JBool False), (''enumValues'', JNull),
             (''isReference'', JBool False), (''referenceTo'', JNull),
             (''defaultValue'', JNull), (''description'', JNull),
             (''nested'', JNull)]"
  let ?label = "JObj
            [(''name'', JStr ''label''), (''type'', JStr ''string''),
             (''required'', JBool True), (''isPrimary'', JBool False),
             (''isArray'', JBool False), (''arrayOf'', JNull),
             (''isEnum'', JBool False), (''enumValues'', JNull),
             (''isReference'', JBool False), (''referenceTo'', JNull),
             (''defaultValue'', JNull), (''description'', JNull),
             (''nested'', JNull)]"
  let ?Post = "JObj
       [(''modelName'', JStr ''Post''), (''tableName'', JStr ''Post''),
        (''fields'', JArr
          [JObj
            [(''name'', JStr ''author''), (''type'', JStr ''User''),
             (''required'', JBool True), (''isPrimary'', JBool False),
             (''isArray'', JBool False), (''arrayOf'', JNull),
             (''isEnum'', JBool False), (''enumValues'', JNull),
             (''isReference'', JBool True), (''referenceTo'', JStr ''User''),
             (''defaultValue'', JNull), (''description'', JNull),
             (''nested'', JNull)]]),
        (''description'', JNull), (''source'', JStr ''prisma''),
        (''filePath'', JStr ''schema.prisma'')]"
  let ?User = "JObj
       [(''modelName'', JStr ''User''), (''tableName'', JStr ''User''),
        (''fields'', JArr
          [JObj
            [(''name'', JStr ''email''), (''type'', JStr ''string''),
             (''required'', JBool True), (''isPrimary'', JBool False),
             (''isArray'', JBool False), (''arrayOf'', JNull),
             (''isEnum'', JBool False), (''enumValues'', JNull),
             (''isReference'', JBool False), (''referenceTo'', JNull),
             (''defaultValue'', JNull), (''description'', JNull),
             (''nested'', JNull)],
           JObj
            [(''name'', JStr ''tag''), (''type'', JStr ''Tag''),
             (''required'', JBool True), (''isPrimary'', JBool False),
             (''isArray'', JBool False), (''arrayOf'', JNull),
             (''isEnum'', JBool False), (''enumValues'', JNull),
             (''isReference'', JBool True), (''referenceTo'', JStr ''Tag''),
             (''defaultValue'', JNull), (''description'', JNull),
             (''nested'', JNull)],
           JObj
            [(''name'', JStr ''profile''), (''type'', JStr ''Profile''),
             (''required'', JBool True), (''isPrimary'', JBool False),
             (''isArray'', JBool False), (''arrayOf'', JNull),
             (''isEnum'', JBool False), (''enumValues'', JNull),
             (''isReference'', JBool True), (''referenceTo'', JStr ''Profile''),
             (''defaultValue'', JNull), (''description'', JNull),
             (''nested'', JNull)]]),
        (''description'', JNull), (''source'', JStr ''prisma''),
        (''filePath'', JStr ''schema.prisma'')]"
  let ?Profile = "JObj
       [(''modelName'', JStr ''Profile''), (''tableName'', JStr ''Profile''),
        (''fields'', JArr
          [JObj
            [(''name'', JStr ''tag''), (''type'', JStr ''Tag''),
             (''required'', JBool True), (''isPrimary'', JBool False),
             (''isArray'', JBool False), (''arrayOf'', JNull),
             (''isEnum'', JBool False), (''enumValues'', JNull),
             (''isReference'', JBool True), (''referenceTo'', JStr ''Tag''),
             (''defaultValue'', JNull), (''description'', JNull),
             (''nested'', JNull)],
           JObj
            [(''name'', JStr ''user''), (''type'', JStr ''User''),
             (''required'', JBool True), (''isPrimary'', JBool False),
             (''isArray'', JBool False), (''arrayOf'', JNull),
             (''isEnum'', JBool False), (''enumValues'', JNull),
             (''isReference'', JBool True), (''referenceTo'', JStr ''User''),
             (''defaultValue'', JNull), (''description'', JNull),
             (''nested'', JNull)],
           JObj
            [(''name'', JStr ''bio''), (''type'', JStr ''string''),
             (''required'', JBool True), (''isPrimary'', JBool False),
             (''isArray'', JBool False), (''arrayOf'', JNull),
             (''isEnum'', JBool False), (''enumValues'', JNull),
             (''isReference'', JBool False), (''referenceTo'', JNull),
             (''defaultValue'', JNull), (''description'', JNull),
             (''nested'', JNull)]]),
        (''description'', JNull), (''source'', JStr ''prisma''),
        (''filePath'', JStr ''schema.prisma'')]"
  let ?Tag = "JObj
       [(''modelName'', JStr ''Tag''), (''tableName'', JStr ''Tag''),
        (''fields'', JArr
          [JObj
            [(''name'', JStr ''label''), (''type'', JStr ''string''),
             (''required'', JBool True), (''isPrimary'', JBool False),
             (''isArray'', JBool False), (''arrayOf'', JNull),
             (''isEnum'', JBool False), (''enumValues'', JNull),
             (''isReference'', JBool False), (''referenceTo'', JNull),
             (''defaultValue'', JNull), (''description'', JNull),
             (''nested'', JNull)]]),
        (''description'', JNull), (''source'', JStr ''prisma''),
        (''filePath'', JStr ''schema.prisma'')]"
  let ?ms = "[?Post, ?User, ?Profile, ?Tag]"
  let ?mm = "map (\<lambda>m. (get m ''modelName'', m)) ?ms"
  let ?o = "(JObj [(''standalone'', JBool True)])"
  let ?res = "(JObj
         [(''hasCircular'', JBool True),
          (''circularPaths'', JArr [JStr ''Post -> User -> Profile -> User'',
                                   JStr ''User -> Profile -> User'',
                                   JStr ''Profile -> User -> Profile''])])"
  let ?LU = "[''import type { Tag } from './Tag';'',
          ''import type { Profile } from './Profile';'', [],
          ''/** Auto-generated from prisma schema */'',
          ''export interface User {'',
          ''  email: string;'',
          ''  tag: Tag;'',
          ''  profile: Profile;'',
          ''}'']"
  let ?LP = "[''import type { Tag } from './Tag';'',
          ''import type { User } from './User';'', [],
          ''/** Auto-generated from prisma schema */'',
          ''export interface Profile {'',
          ''  tag: Tag;'',
          ''  user: User;'',
          ''  bio: string;'',
          ''}'']"
  have h1: "''User'' \<noteq> ''Profile''" by simp
  have h2: "get ?User ''modelName'' = JStr ''User''" by simp
  have h3: "get ?User ''fields'' = JArr ([?email, ?utag] @ ?profile # [])" by simp
  have h4: "get ?Profile ''modelName'' = JStr ''Profile''" by simp
  have h5: "get ?Profile ''fields'' = JArr ([?ptag] @ ?user # [?bio])" by simp
  have h6: "isReferenceField ?profile" by (simp add: isReferenceField_def)
  have h7: "get ?profile ''referenceTo'' = JStr ''Profile''" by simp
  have h8: "\<not> truthy (get ?profile ''isArray'')" by simp
  have h9: "isReferenceField ?user" by (simp add: isReferenceField_def)
  have h10: "get ?user ''referenceTo'' = JStr ''User''" by simp
  have h11: "\<not> truthy (get ?user ''isArray'')" by simp
  note T = mutual_references_two_paths_and_imports [OF h1 h2 h3 h4 h5 h6 h7 h8 h9 h10 h11]
  have inA: "?User \<in> set ?ms" and inB: "?Profile \<in> set ?ms"
    by simp_all
  have u: "list_all (\<lambda>M. (get M ''modelName'' = JStr ''User'' \<longrightarrow> M = ?User)
                          \<and> (get M ''modelName'' = JStr ''Profile'' \<longrightarrow> M = ?Profile)) ?ms"
    by simp
  have tagFields: "get (mapGet ?mm (JStr ''Tag'')) ''fields'' = JArr [?label]"
    by code_simp
  have leaf: "list_all (\<lambda>f. \<not> nullish f \<and> \<not> isReferenceField f) [?label]"
    by (simp add: isReferenceField_def)
  have tagA: "hasCycle ?mm (JStr ''User'') (JStr ''Tag'') [JStr ''Profile'', JStr ''User''] acc
              = Inr (False, acc)" for acc
    by (rule hasCycle_no_references [OF _ _ tagFields leaf]) simp_all
  have tagB: "hasCycle ?mm (JStr ''Profile'') (JStr ''Tag'') [JStr ''User'', JStr ''Profile''] acc
              = Inr (False, acc)" for acc
    by (rule hasCycle_no_references [OF _ _ tagFields leaf]) simp_all
  have e: "get ?email ''isReference'' = JBool False" "\<not> nullish ?email"
    and ut: "get ?utag ''isReference'' = JBool True" "get ?utag ''referenceTo'' = JStr ''Tag''"
      "\<not> nullish ?utag"
    and pt: "get ?ptag ''isReference'' = JBool True" "get ?ptag ''referenceTo'' = JStr ''Tag''"
      "\<not> nullish ?ptag"
    by simp_all
  have sA: "\<forall>acc. hasCycleFields ?mm (JStr ''User'') [JStr ''Profile'', JStr ''User'']
                     [?email, ?utag] acc = Inr (False, acc)"
    by (simp only: hasCycleFields.simps e ut tagA truthy.simps fst_conv snd_conv simp_thms
        if_True if_False if_cancel sum.case)
  have sB: "\<forall>acc. hasCycleFields ?mm (JStr ''Profile'') [JStr ''User'', JStr ''Profile'']
                     [?ptag] acc = Inr (False, acc)"
    by (simp only: hasCycleFields.simps pt tagB truthy.simps fst_conv snd_conv simp_thms
        if_True if_False if_cancel sum.case)
  have d: "detectCircularReferences (JArr ?ms) = Inr ?res"
    by code_simp
  have H: "?User \<in> set ?ms \<and> ?Profile \<in> set ?ms
           \<and> list_all (\<lambda>M. (get M ''modelName'' = JStr ''User'' \<longrightarrow> M = ?User)
                          \<and> (get M ''modelName'' = JStr ''Profile'' \<longrightarrow> M = ?Profile)) ?ms
           \<and> (\<forall>acc. hasCycleFields ?mm (JStr ''User'') [JStr ''Profile'', JStr ''User'']
                     [?email, ?utag] acc = Inr (False, acc))
           \<and> (\<forall>acc. hasCycleFields ?mm (JStr ''Profile'') [JStr ''User'', JStr ''Profile'']
                     [?ptag] acc = Inr (False, acc))
           \<and> detectCircularReferences (JArr ?ms) = Inr ?res"
    by (intro conjI inA inB u sA sB d)
  have c: "get ?res ''hasCircular'' = JBool True
           \<and> (\<exists>ps. get ?res ''circularPaths'' = JArr ps \<and> distinct ps
                \<and> JStr (''User'' @ '' -> '' @ ''Profile'' @ '' -> '' @ ''User'') \<in> set ps
                \<and> JStr (''Profile'' @ '' -> '' @ ''User'' @ '' -> '' @ ''Profile'') \<in> set ps)"
    by (rule T [THEN conjunct1, THEN spec, THEN spec, THEN mp, OF H])
  have ne: "''User'' @ '' -> '' @ ''Profile'' @ '' -> '' @ ''User''
            \<noteq> ''Profile'' @ '' -> '' @ ''User'' @ '' -> '' @ ''Profile''"
    by (rule T [THEN conjunct2, THEN conjunct1])
  have gU: "generateInterface_lines ?User ?o = Inr ?LU" by code_simp
  have gP: "generateInterface_lines ?Profile ?o = Inr ?LP" by code_simp
  have o1: "truthy (get ?o ''standalone'')" by simp
  have o2: "js_or (get ?o ''allEnums'') (JArr []) = JArr []" by (simp add: js_or_def)
  have o3: "list_all (\<lambda>e. get e ''name'' \<noteq> JStr ''Profile'') []"
    and o4: "list_all (\<lambda>e. get e ''name'' \<noteq> JStr ''User'') []"
    by simp_all
  have o5: "JStr ''Profile'' \<notin> set primitives" and o6: "JStr ''User'' \<notin> set primitives"
    by (simp_all add: primitives_def)
  have HU: "truthy (get ?o ''standalone'')
            \<and> js_or (get ?o ''allEnums'') (JArr []) = JArr []
            \<and> list_all (\<lambda>e. get e ''name'' \<noteq> JStr ''Profile'') []
            \<and> JStr ''Profile'' \<notin> set primitives
            \<and> generateInterface_lines ?User ?o = Inr ?LU"
    by (intro conjI o1 o2 o3 o5 gU)
  have HP: "truthy (get ?o ''standalone'')
            \<and> js_or (get ?o ''allEnums'') (JArr []) = JArr []
            \<and> list_all (\<lambda>e. get e ''name'' \<noteq> JStr ''User'') []
            \<and> JStr ''User'' \<notin> set primitives
            \<and> generateInterface_lines ?Profile ?o = Inr ?LP"
    by (intro conjI o1 o2 o4 o6 gP)
  have iU: "(''import type { '' @ ''Profile'' @ '' } from './'' @ ''Profile'' @ [CHR 0x27] @ '';'')
            \<in> set ?LU"
    by (rule T [THEN conjunct2, THEN conjunct2, THEN conjunct1, THEN spec, THEN spec, THEN spec,
          THEN mp, OF HU])
  have iP: "(''import type { '' @ ''User'' @ '' } from './'' @ ''User'' @ [CHR 0x27] @ '';'')
            \<in> set ?LP"
    by (rule T [THEN conjunct2, THEN conjunct2, THEN conjunct2, THEN spec, THEN spec, THEN spec,
          THEN mp, OF HP])
  have e1: "''User'' @ '' -> '' @ ''Profile'' @ '' -> '' @ ''User'' = ''User -> Profile -> User''"
    and e2: "''Profile'' @ '' -> '' @ ''User'' @ '' -> '' @ ''Profile'' = ''Profile -> User -> Profile''"
    and e3: "''import type { '' @ ''Profile'' @ '' } from './'' @ ''Profile'' @ [CHR 0x27] @ '';''
             = ''import type { Profile } from './Profile';''"
    and e4: "''import type { '' @ ''User'' @ '' } from './'' @ ''User'' @ [CHR 0x27] @ '';''
             = ''import type { User } from './User';''"
    by simp_all
  show ?thesis
    using d c ne iU iP gU gP unfolding e1 e2 e3 e4 by (simp only: simp_thms)
qed

text \<open>
  The condition on the fields that come before the reference is needed. Here \<^verbatim>\<open>B\<close> has a
  reference to itself before its reference to \<^verbatim>\<open>A\<close>: the search from \<^verbatim>\<open>A\<close> stops in \<^verbatim>\<open>B\<close>
  at \<^verbatim>\<open>A -> B -> B\<close> and never reaches the reference back to \<^verbatim>\<open>A\<close>, so that the pair is
  reported from \<^verbatim>\<open>B\<close> only.
\<close>

lemma mutual_pair_behind_earlier_cycle:
  "detectCircularReferences (JArr
     [JObj
       [(''modelName'', JStr ''A''), (''tableName'', JStr ''A''),
        (''fields'', JArr
          [JObj
            [(''name'', JStr ''b''), (''type'', JStr ''B''),
             (''required'', JBool True), (''isPrimary'', JBool False),
             (''isArray'', JBool False), (''arrayOf'', JNull),
             (''isEnum'', JBool False), (''enumValues'', JNull),
             (''isReference'', JBool True), (''referenceTo'', JStr ''B''),
             (''defaultValue'', JNull), (''description'', JNull),
             (''nested'', JNull)]]),
        (''description'', JNull), (''source'', JStr ''prisma''),
        (''filePath'', JStr ''schema.prisma'')],
      JObj
       [(''modelName'', JStr ''B''), (''tableName'', JStr ''B''),
        (''fields'', JArr
          [JObj
            [(''name'', JStr ''self''), (''type'', JStr ''B''),
             (''required'', JBool True), (''isPrimary'', JBool False),
             (''isArray'', JBool False), (''arrayOf'', JNull),
             (''isEnum'', JBool False), (''enumValues'', JNull),
             (''isReference'', JBool True), (''referenceTo'', JStr ''B''),
             (''defaultValue'', JNull), (''description'', JNull),
             (''nested'', JNull)],
           JObj
            [(''name'', JStr ''a''), (''type'', JStr ''A''),
             (''required'', JBool True), (''isPrimary'', JBool False),
             (''isArray'', JBool False), (''arrayOf'', JNull),
             (''isEnum'', JBool False), (''enumValues'', JNull),
             (''isReference'', JBool True), (''referenceTo'', JStr ''A''),
             (''defaultValue'', JNull), (''description'', JNull),
             (''nested'', JNull)]]),
        (''description'', JNull), (''source'', JStr ''prisma''),
        (''filePath'', JStr ''schema.prisma'')]])
   = Inr (JObj
       [(''hasCircular'', JBool True),
        (''circularPaths'', JArr [JStr ''A -> B -> B'', JStr ''B -> B'',
                                 JStr ''B -> A -> B''])])"
  by code_simp

text \<open>
  C4, counterexample. The schema has the models \<^verbatim>\<open>User\<close> with the field
  \<^verbatim>\<open>profile Profile\<close> and \<^verbatim>\<open>Profile\<close> with the field \<^verbatim>\<open>user User\<close>. The cycle is
  found once from each model, and the two paths are different strings, so removing
  duplicates leaves both.
\<close>

theorem mutual_references_reported_twice_counterexample:
  "parsePrismaSchema
     (Inr (''model User {'' @ NL @ ''  profile Profile'' @ NL @ ''}'' @ NL
          @ ''model Profile {'' @ NL @ ''  user User'' @ NL @ ''}'' @ NL))
     (JStr ''schema.prisma'')
   = Inr (JObj
       [(''models'', JArr
          [JObj
       [(''modelName'', JStr ''User''), (''tableName'', JStr ''User''),
        (''fields'', JArr
          [JObj
            [(''name'', JStr ''profile''), (''type'', JStr ''Profile''),
             (''required'', JBool True), (''isPrimary'', JBool False),
             (''isArray'', JBool False), (''arrayOf'', JNull),
             (''isEnum'', JBool False), (''enumValues'', JNull),
             (''isReference'', JBool True), (''referenceTo'', JStr ''Profile''),
             (''defaultValue'', JNull), (''description'', JNull),
             (''nested'', JNull)]]),
        (''description'', JNull), (''source'', JStr ''prisma''),
        (''filePath'', JStr ''schema.prisma'')],
           JObj
       [(''modelName'', JStr ''Profile''), (''tableName'', JStr ''Profile''),
        (''fields'', JArr
          [JObj
            [(''name'', JStr ''user''), (''type'', JStr ''User''),
             (''required'', JBool True), (''isPrimary'', JBool False),
             (''isArray'', JBool False), (''arrayOf'', JNull),
             (''isEnum'', JBool False), (''enumValues'', JNull),
             (''isReference'', JBool True), (''referenceTo'', JStr ''User''),
             (''defaultValue'', JNull), (''description'', JNull),
             (''nested'', JNull)]]),
        (''description'', JNull), (''source'', JStr ''prisma''),
        (''filePath'', JStr ''schema.prisma'')]]),
        (''enums'', JArr [])])
   \<and> detectCircularReferences (JArr
     [JObj
       [(''modelName'', JStr ''User''), (''tableName'', JStr ''User''),
        (''fields'', JArr
          [JObj
            [(''name'', JStr ''profile''), (''type'', JStr ''Profile''),
             (''required'', JBool True), (''isPrimary'', JBool False),
             (''isArray'', JBool False), (''arrayOf'', JNull),
             (''isEnum'', JBool False), (''enumValues'', JNull),
             (''isReference'', JBool True), (''referenceTo'', JStr ''Profile''),
             (''defaultValue'', JNull), (''description'', JNull),
             (''nested'', JNull)]]),
        (''description'', JNull), (''source'', JStr ''prisma''),
        (''filePath'', JStr ''schema.prisma'')],
      JObj
       [(''modelName'', JStr ''Profile''), (''tableName'', JStr ''Profile''),
        (''fields'', JArr
          [JObj
            [(''name'', JStr ''user''), (''type'', JStr ''User''),
             (''required'', JBool True), (''isPrimary'', JBool False),
             (''isArray'', JBool False), (''arrayOf'', JNull),
             (''isEnum'', JBool False), (''enumValues'', JNull),
             (''isReference'', JBool True), (''referenceTo'', JStr ''User''),
             (''defaultValue'', JNull), (''description'', JNull),
             (''nested'', JNull)]]),
        (''description'', JNull), (''source'', JStr ''prisma''),
        (''filePath'', JStr ''schema.prisma'')]])
   = Inr (JObj
         [(''hasCircular'', JBool True),
          (''circularPaths'', JArr [JStr ''User -> Profile -> User'',
                                   JStr ''Profile -> User -> Profile''])])"
  by code_simp

end
